theory Spec2Isabelle
  imports Complex_Main "HOL-Library.FSet" "HOL-Library.AList"
begin

section \<open>Python strings\<close>

text \<open>
  A Python \<open>str\<close> is a sequence of Unicode code points. The model covers the strings
  whose code points lie in U+0000..U+00FF: one \<^typ>\<open>char\<close> per code point, \<open>of_char\<close>
  giving its number. The three built-in methods the program calls on characters are
  written out for that range from the Unicode character database, as CPython has them.
\<close>

definition py_isdigit :: "char \<Rightarrow> bool" where
  \<comment> \<open>\<open>str.isdigit\<close>: the decimal digits and the superscripts two, three and one.\<close>
  "py_isdigit c =
     (let n = (of_char c :: nat)
      in (48 \<le> n \<and> n \<le> 57) \<or> n = 178 \<or> n = 179 \<or> n = 185)"

definition py_isalnum :: "char \<Rightarrow> bool" where
  \<comment> \<open>\<open>str.isalnum\<close>: letters (categories L*) and numeric characters (N*).\<close>
  "py_isalnum c =
     (let n = (of_char c :: nat)
      in (48 \<le> n \<and> n \<le> 57) \<or> (65 \<le> n \<and> n \<le> 90) \<or> (97 \<le> n \<and> n \<le> 122)
         \<or> n = 170 \<or> n = 178 \<or> n = 179 \<or> n = 181 \<or> n = 185 \<or> n = 186
         \<or> (188 \<le> n \<and> n \<le> 190)
         \<or> (192 \<le> n \<and> n \<le> 214) \<or> (216 \<le> n \<and> n \<le> 246) \<or> (248 \<le> n \<and> n \<le> 255))"

definition py_lower :: "char \<Rightarrow> char" where
  \<comment> \<open>\<open>str.lower\<close> on one character: A..Z and the capital letters U+00C0..U+00DE
      (the multiplication sign U+00D7 apart) move up by 32.\<close>
  "py_lower c =
     (let n = (of_char c :: nat)
      in if (65 \<le> n \<and> n \<le> 90) \<or> (192 \<le> n \<and> n \<le> 214) \<or> (216 \<le> n \<and> n \<le> 222)
         then char_of (n + 32) else c)"

definition is_ascii :: "char \<Rightarrow> bool" where
  "is_ascii c = ((of_char c :: nat) < 128)"

fun has_dunder :: "string \<Rightarrow> bool" where
  \<comment> \<open>\<open>'__' in s\<close>\<close>
  "has_dunder (a # b # s) = ((a = CHR ''_'' \<and> b = CHR ''_'') \<or> has_dunder (b # s))"
| "has_dunder _ = False"

fun replace_dunder :: "string \<Rightarrow> string" where
  \<comment> \<open>\<open>s.replace('__', '_')\<close>: the occurrences are taken left to right, without overlap.\<close>
  "replace_dunder (a # b # s) =
     (if a = CHR ''_'' \<and> b = CHR ''_'' then CHR ''_'' # replace_dunder s
      else a # replace_dunder (b # s))"
| "replace_dunder s = s"

lemma length_replace_dunder_le: "length (replace_dunder s) \<le> length s"
  by (induction s rule: replace_dunder.induct) auto

lemma length_replace_dunder_less:
  "has_dunder s \<Longrightarrow> length (replace_dunder s) < length s"
proof (induction s rule: replace_dunder.induct)
  case (1 a b s)
  show ?case
  proof (cases "a = CHR ''_'' \<and> b = CHR ''_''")
    case True
    have "length (replace_dunder s) \<le> length s" by (rule length_replace_dunder_le)
    with True show ?thesis by simp
  next
    case False
    with 1 show ?thesis by auto
  qed
qed simp_all

function collapse_loop :: "string \<Rightarrow> string" where
  \<comment> \<open>\<open>while '__' in s: s = s.replace('__', '_')\<close>\<close>
  "collapse_loop s = (if has_dunder s then collapse_loop (replace_dunder s) else s)"
  by pat_completeness auto
termination
  by (relation "measure length") (auto simp: length_replace_dunder_less)

declare collapse_loop.simps [simp del]

section \<open>Node-name sanitizers\<close>

definition sanitize_prim_name :: "string \<Rightarrow> string" where
  \<comment> \<open>\<open>USDBuilder._sanitize_prim_name\<close>\<close>
  "sanitize_prim_name name =
     (let sanitized = map (\<lambda>c. if py_isalnum c \<or> c = CHR ''_'' then c else CHR ''_'') name;
          sanitized = (if sanitized \<noteq> [] \<and> py_isdigit (hd sanitized)
                       then CHR ''_'' # sanitized else sanitized);
          sanitized = (if sanitized = [] then ''_unnamed'' else sanitized)
      in collapse_loop sanitized)"

definition sanitize_name :: "string \<Rightarrow> string" where
  \<comment> \<open>\<open>PhysicsInjector._sanitize_name\<close>\<close>
  "sanitize_name name =
     (let sanitized = map (\<lambda>c. if py_isalnum c \<or> c = CHR ''_'' then c else CHR ''_'') name;
          sanitized = (if sanitized \<noteq> [] \<and> py_isdigit (hd sanitized)
                       then CHR ''_'' # sanitized else sanitized);
          sanitized = (if sanitized = [] then ''_unnamed'' else sanitized)
      in collapse_loop sanitized)"

section \<open>Part identifiers\<close>

fun split_on :: "char \<Rightarrow> string \<Rightarrow> string list" where
  \<comment> \<open>\<open>s.split(sep)\<close> for a one-character separator; the result is never empty\<close>
  "split_on sep [] = [[]]"
| "split_on sep (c # s) =
     (if c = sep then [] # split_on sep s
      else (case split_on sep s of [] \<Rightarrow> [[c]] | w # ws \<Rightarrow> (c # w) # ws))"

fun join_with :: "char \<Rightarrow> string list \<Rightarrow> string" where
  \<comment> \<open>\<open>sep.join(ws)\<close>\<close>
  "join_with sep [] = []"
| "join_with sep [w] = w"
| "join_with sep (w # ws) = w @ sep # join_with sep ws"

function str_of_nat :: "nat \<Rightarrow> string" where
  \<comment> \<open>the decimal digits of a counter, as an f-string formats it\<close>
  "str_of_nat n =
     (if n < 10 then [char_of (48 + n)]
      else str_of_nat (n div 10) @ [char_of (48 + n mod 10)])"
  by pat_completeness auto
termination
  by (relation "measure id") auto

declare str_of_nat.simps [simp del]

definition nat_of_str :: "string \<Rightarrow> nat" where
  "nat_of_str s = foldl (\<lambda>a c. 10 * a + (of_char c - 48)) 0 s"

lemma nat_of_str_of_nat: "nat_of_str (str_of_nat n) = n"
proof (induction n rule: str_of_nat.induct)
  case (1 n)
  show ?case
  proof (cases "n < 10")
    case True
    then show ?thesis
      by (subst str_of_nat.simps) (simp add: nat_of_str_def)
  next
    case False
    with 1 have "nat_of_str (str_of_nat (n div 10)) = n div 10" by simp
    moreover have "(of_char (char_of (48 + n mod 10 :: nat)) :: nat) = 48 + n mod 10"
      by simp
    ultimately show ?thesis using False
      by (subst str_of_nat.simps) (simp add: nat_of_str_def)
  qed
qed

lemma str_of_nat_inj: "str_of_nat a = str_of_nat b \<Longrightarrow> a = b"
  by (metis nat_of_str_of_nat)

definition candidate :: "string \<Rightarrow> nat \<Rightarrow> string" where
  \<comment> \<open>\<open>f"{sanitized}_{counter}"\<close>\<close>
  "candidate sanitized counter = sanitized @ ''_'' @ str_of_nat counter"

lemma candidate_inj: "inj (candidate s)"
  by (rule injI) (simp add: candidate_def str_of_nat_inj)

lemma finite_candidates: "finite {k. c \<le> k \<and> candidate s k |\<in>| used}"
proof -
  have "finite (candidate s -` fset used)"
    by (rule finite_vimageI [OF _ candidate_inj]) simp
  moreover have "{k. c \<le> k \<and> candidate s k |\<in>| used} \<subseteq> candidate s -` fset used"
    by auto
  ultimately show ?thesis by (rule rev_finite_subset)
qed

lemma card_candidates:
  "card {k. c \<le> k \<and> candidate s k |\<in>| used}
     = card {k. Suc c \<le> k \<and> candidate s k |\<in>| used}
       + (if candidate s c |\<in>| used then 1 else 0)"
proof (cases "candidate s c |\<in>| used")
  case True
  then have "{k. c \<le> k \<and> candidate s k |\<in>| used}
      = insert c {k. Suc c \<le> k \<and> candidate s k |\<in>| used}"
    by (auto simp: Suc_le_eq le_less)
  with True finite_candidates [of "Suc c" s used] show ?thesis by simp
next
  case False
  then have "{k. c \<le> k \<and> candidate s k |\<in>| used}
      = {k. Suc c \<le> k \<and> candidate s k |\<in>| used}"
    by (auto simp: Suc_le_eq le_less)
  with False show ?thesis by simp
qed

function unique_loop :: "string \<Rightarrow> string fset \<Rightarrow> string \<Rightarrow> nat \<Rightarrow> string" where
  \<comment> \<open>\<open>while unique_name in used_names: unique_name = f"{sanitized}_{counter}"; counter += 1\<close>\<close>
  "unique_loop sanitized used_names unique_name counter =
     (if unique_name |\<in>| used_names
      then unique_loop sanitized used_names (candidate sanitized counter) (counter + 1)
      else unique_name)"
  by pat_completeness auto
termination
proof (relation "measure (\<lambda>(s, used, u, c).
    card {k. c \<le> k \<and> candidate s k |\<in>| used} + (if u |\<in>| used then 1 else 0))")
  show "wf (measure (\<lambda>(s, used, u, c).
    card {k. c \<le> k \<and> candidate s k |\<in>| used} + (if u |\<in>| used then 1 else 0)))"
    by simp
next
  fix sanitized unique_name :: string and used_names :: "string fset" and counter :: nat
  assume "unique_name |\<in>| used_names"
  then show "((sanitized, used_names, candidate sanitized counter, counter + 1),
       (sanitized, used_names, unique_name, counter))
     \<in> measure (\<lambda>(s, used, u, c).
         card {k. c \<le> k \<and> candidate s k |\<in>| used} + (if u |\<in>| used then 1 else 0))"
    using card_candidates [of counter sanitized used_names] by simp
qed

declare unique_loop.simps [simp del]

definition sanitized_id :: "string \<Rightarrow> string" where
  \<comment> \<open>the first part of \<open>GLBParser._generate_unique_id\<close>, lines 189 to 194: the
      sanitized name\<close>
  "sanitized_id base_name =
     (let sanitized = map py_lower base_name;
          sanitized = map (\<lambda>c. if py_isalnum c then c else CHR ''_'') sanitized;
          sanitized = join_with CHR ''_'' (filter (\<lambda>w. w \<noteq> []) (split_on CHR ''_'' sanitized))
      in if sanitized = [] then ''part'' else sanitized)"

definition generate_unique_id :: "string \<Rightarrow> string fset \<Rightarrow> string" where
  \<comment> \<open>\<open>GLBParser._generate_unique_id\<close>; \<open>used_names\<close> is a Python set, hence finite\<close>
  "generate_unique_id base_name used_names =
     (let sanitized = sanitized_id base_name
      in unique_loop sanitized used_names sanitized 1)"

subsection \<open>The sanitizer in the words of the specification\<close>

text \<open>
  Lowercase; collapse every run of non-alphanumeric characters to a single underscore;
  strip leading and trailing underscores; substitute \<open>part\<close> when nothing is left.
\<close>

function collapse_runs :: "string \<Rightarrow> string" where
  "collapse_runs [] = []"
| "collapse_runs (c # s) =
     (if py_isalnum c then c # collapse_runs s
      else CHR ''_'' # collapse_runs (dropWhile (\<lambda>d. \<not> py_isalnum d) s))"
  by pat_completeness auto
termination
  by (relation "measure length") (auto simp: le_imp_less_Suc length_dropWhile_le)

definition strip_underscores :: "string \<Rightarrow> string" where
  "strip_underscores s =
     rev (dropWhile (\<lambda>c. c = CHR ''_'') (rev (dropWhile (\<lambda>c. c = CHR ''_'') s)))"

definition spec_sanitized_id :: "string \<Rightarrow> string" where
  "spec_sanitized_id raw_name =
     (let s = strip_underscores (collapse_runs (map py_lower raw_name))
      in if s = [] then ''part'' else s)"

text \<open>
  For the comparison: the third line of \<open>sanitized_id\<close> on a name already lowercased, and
  the collapsing and stripping of the specification on the same name.
\<close>

definition code_core :: "string \<Rightarrow> string" where
  "code_core t = join_with CHR ''_'' (filter (\<lambda>w. w \<noteq> [])
     (split_on CHR ''_'' (map (\<lambda>c. if py_isalnum c then c else CHR ''_'') t)))"

definition rstrip :: "string \<Rightarrow> string" where
  "rstrip s = rev (dropWhile (\<lambda>c. c = CHR ''_'') (rev s))"

definition spec_core :: "string \<Rightarrow> string" where
  "spec_core t = strip_underscores (collapse_runs t)"

definition id_char :: "char \<Rightarrow> bool" where
  \<comment> \<open>the characters of \<open>[a-z0-9_]\<close>\<close>
  "id_char c =
     (let n = (of_char c :: nat)
      in (97 \<le> n \<and> n \<le> 122) \<or> (48 \<le> n \<and> n \<le> 57) \<or> c = CHR ''_'')"

section \<open>Scene document\<close>

text \<open>
  The USD stage as far as the program reads and writes it: the prims by path, in the order
  of their creation, each with its type name, its applied API schemas, its attributes,
  the metadata of its attributes and its relationships.

  A floating-point value is given by the Python float the program hands to the stage, as
  a real. The stage keeps it in the precision of the attribute, single precision for the
  physics attributes; that rounding is not carried out here, so \<open>VFloat x\<close> stands for
  the attribute value that \<open>x\<close> rounds to. Face indices are the 32-bit integers of the
  mesh reader.
\<close>

datatype attr_value =
  VBool bool
  | VFloat real
  | VToken string
  | VVec3f real real real
  | VQuatf real real real real
  | VVec3fArray "(real \<times> real \<times> real) list"
  | VIntArray "int list"
  | VMatrix4d "real list"

record prim =
  typeName :: string
  apiSchemas :: "string list"
  attributes :: "(string \<times> attr_value) list"
  attrMetadata :: "((string \<times> string) \<times> string) list"
  relationships :: "(string \<times> string list) list"

record stage =
  prims :: "(string \<times> prim) list"
  defaultPrim :: string
  upAxis :: string
  metersPerUnit :: real
  rootLayer :: string

datatype error =
  ValueError string
  | TfErrorException string
  | RequestValidationError
  | HTTPException nat

subsection \<open>Node names and paths\<close>

text \<open>
  A prim name has to be an identifier: an underscore or a character of the Unicode class
  XID\_Start, followed by characters of the class XID\_Continue. The two classes are
  written out for the code points up to U+00FF. A prim path is a slash followed by
  identifiers that slashes separate.
\<close>

definition xid_start :: "char \<Rightarrow> bool" where
  "xid_start c =
     (let n = (of_char c :: nat)
      in (65 \<le> n \<and> n \<le> 90) \<or> (97 \<le> n \<and> n \<le> 122) \<or> n = 170 \<or> n = 181 \<or> n = 186
         \<or> (192 \<le> n \<and> n \<le> 214) \<or> (216 \<le> n \<and> n \<le> 246) \<or> (248 \<le> n \<and> n \<le> 255))"

definition xid_continue :: "char \<Rightarrow> bool" where
  "xid_continue c =
     (let n = (of_char c :: nat)
      in xid_start c \<or> (48 \<le> n \<and> n \<le> 57) \<or> n = 95 \<or> n = 183)"

definition usd_identifier :: "string \<Rightarrow> bool" where
  "usd_identifier s =
     (case s of
        [] \<Rightarrow> False
      | c # cs \<Rightarrow> (c = CHR ''_'' \<or> xid_start c) \<and> list_all xid_continue cs)"

definition valid_prim_path :: "string \<Rightarrow> bool" where
  "valid_prim_path path =
     (case path of
        [] \<Rightarrow> False
      | c # cs \<Rightarrow> c = CHR ''/'' \<and> list_all usd_identifier (split_on CHR ''/'' cs))"

subsection \<open>Operations of the stage\<close>

definition GetPrimAtPath :: "stage \<Rightarrow> string \<Rightarrow> prim option" where
  "GetPrimAtPath st path = map_of (prims st) path"

definition IsValid :: "stage \<Rightarrow> string \<Rightarrow> bool" where
  \<comment> \<open>\<open>stage.GetPrimAtPath(path).IsValid()\<close>\<close>
  "IsValid st path = (GetPrimAtPath st path \<noteq> None)"

definition IsA :: "stage \<Rightarrow> string \<Rightarrow> string \<Rightarrow> bool" where
  \<comment> \<open>\<open>prim.IsA(T)\<close>; none of the types the program defines derives from another.\<close>
  "IsA st path ty = (case GetPrimAtPath st path of None \<Rightarrow> False | Some pr \<Rightarrow> typeName pr = ty)"

definition define_prim :: "stage \<Rightarrow> string \<Rightarrow> string \<Rightarrow> stage" where
  \<comment> \<open>a new prim of type \<open>ty\<close> at \<open>path\<close>, or the prim already there with its type set
      to \<open>ty\<close>\<close>
  "define_prim st path ty =
     st\<lparr>prims := AList.update path
        ((case GetPrimAtPath st path of
            None \<Rightarrow> \<lparr>typeName = [], apiSchemas = [], attributes = [], attrMetadata = [],
                      relationships = []\<rparr>
          | Some pr \<Rightarrow> pr)\<lparr>typeName := ty\<rparr>) (prims st)\<rparr>"

definition Define :: "stage \<Rightarrow> string \<Rightarrow> string \<Rightarrow> error + stage" where
  \<comment> \<open>\<open>T.Define(stage, path)\<close>: raises \<open>pxr.Tf.ErrorException\<close> when \<open>path\<close> is not a
      prim path. Every path the program defines is a child of a prim that it has defined
      before or of the default prim, so no ancestor is authored.\<close>
  "Define st path ty =
     (if valid_prim_path path then Inr (define_prim st path ty)
      else Inl (TfErrorException path))"

definition modify_prim :: "stage \<Rightarrow> string \<Rightarrow> (prim \<Rightarrow> prim) \<Rightarrow> stage" where
  "modify_prim st path f = st\<lparr>prims := AList.map_entry path f (prims st)\<rparr>"

definition Apply :: "stage \<Rightarrow> string \<Rightarrow> string \<Rightarrow> stage" where
  \<comment> \<open>\<open>SomeAPI.Apply(prim)\<close>: the schema name joins the prim's \<open>apiSchemas\<close> once.\<close>
  "Apply st path api =
     modify_prim st path (\<lambda>pr. pr\<lparr>apiSchemas :=
        (if api \<in> set (apiSchemas pr) then apiSchemas pr else apiSchemas pr @ [api])\<rparr>)"

definition CreateAttr :: "stage \<Rightarrow> string \<Rightarrow> string \<Rightarrow> attr_value \<Rightarrow> stage" where
  \<comment> \<open>\<open>schema.CreateXAttr(value)\<close>: the attribute is created or overwritten.\<close>
  "CreateAttr st path name v =
     modify_prim st path (\<lambda>pr. pr\<lparr>attributes := AList.update name v (attributes pr)\<rparr>)"

definition SetAttrMetadata :: "stage \<Rightarrow> string \<Rightarrow> string \<Rightarrow> string \<Rightarrow> string \<Rightarrow> stage" where
  \<comment> \<open>metadata of an attribute, as \<open>mesh.SetNormalsInterpolation(token)\<close> sets it\<close>
  "SetAttrMetadata st path name key v =
     modify_prim st path (\<lambda>pr. pr\<lparr>attrMetadata := AList.update (name, key) v (attrMetadata pr)\<rparr>)"

definition CreateRel :: "stage \<Rightarrow> string \<Rightarrow> string \<Rightarrow> string list \<Rightarrow> stage" where
  \<comment> \<open>\<open>schema.CreateXRel().SetTargets(targets)\<close>. The targets the program passes are
      values of the part-path map; the stage refuses a target that is no path, so the
      properties that promise a result take the values of the map to be prim paths.\<close>
  "CreateRel st path name targets =
     modify_prim st path (\<lambda>pr. pr\<lparr>relationships := AList.update name targets (relationships pr)\<rparr>)"

definition apis :: "stage \<Rightarrow> string \<Rightarrow> string set" where
  "apis st path = (case GetPrimAtPath st path of None \<Rightarrow> {} | Some pr \<Rightarrow> set (apiSchemas pr))"

definition attr :: "stage \<Rightarrow> string \<Rightarrow> string \<Rightarrow> attr_value option" where
  "attr st path name =
     (case GetPrimAtPath st path of None \<Rightarrow> None | Some pr \<Rightarrow> map_of (attributes pr) name)"

section \<open>Scene document builder\<close>

record MeshData =
  vertices :: "(real \<times> real \<times> real) list"
  faces :: "(int \<times> int \<times> int) list"
  normals :: "(real \<times> real \<times> real) list option"

text \<open>An entry of \<open>part_info\<close>: a dict with the key \<open>id\<close> and, possibly, the key \<open>name\<close>.\<close>

record PartInfo =
  info_id :: string
  info_name :: "string option"

definition create_stage :: "string \<Rightarrow> string \<Rightarrow> string \<Rightarrow> real \<Rightarrow> error + stage" where
  "create_stage filename model_name up_axis meters_per_unit =
     (let stage = \<lparr>prims = [], defaultPrim = [],
                    upAxis = (if up_axis = ''Z'' then ''Z'' else ''Y''),
                    metersPerUnit = meters_per_unit, rootLayer = filename\<rparr>;
          root_path = ''/'' @ sanitize_prim_name model_name
      in case Define stage root_path ''Xform'' of
           Inl e \<Rightarrow> Inl e
         | Inr stage \<Rightarrow> Inr (stage\<lparr>defaultPrim := root_path\<rparr>))"

definition add_physics_scene :: "stage \<Rightarrow> error + stage \<times> string" where
  "add_physics_scene stage =
     (let scene_path = defaultPrim stage @ ''/PhysicsScene''
      in case Define stage scene_path ''PhysicsScene'' of
           Inl e \<Rightarrow> Inl e
         | Inr stage \<Rightarrow>
             let stage = CreateAttr stage scene_path ''physics:gravityDirection''
                           (VVec3f 0 0 (- 1));
                 stage = CreateAttr stage scene_path ''physics:gravityMagnitude''
                           (VFloat (981 / 100))
             in Inr (stage, scene_path))"

definition add_mesh_prim ::
  "stage \<Rightarrow> string \<Rightarrow> string \<Rightarrow> (real \<times> real \<times> real) list \<Rightarrow> (int \<times> int \<times> int) list
   \<Rightarrow> (real \<times> real \<times> real) list option \<Rightarrow> real list option \<Rightarrow> error + stage \<times> string" where
  "add_mesh_prim stage parent_path name vs fs ns transform =
     (let safe_name = sanitize_prim_name name;
          xform_path = parent_path @ ''/'' @ safe_name
      in case Define stage xform_path ''Xform'' of
           Inl e \<Rightarrow> Inl e
         | Inr stage \<Rightarrow>
             let stage = (case transform of None \<Rightarrow> stage
                          | Some m \<Rightarrow>
                              CreateAttr stage xform_path ''xformOp:transform'' (VMatrix4d m));
                 mesh_path = xform_path @ ''/mesh''
             in case Define stage mesh_path ''Mesh'' of
                  Inl e \<Rightarrow> Inl e
                | Inr stage \<Rightarrow>
                    let stage = CreateAttr stage mesh_path ''points'' (VVec3fArray vs);
                        stage = CreateAttr stage mesh_path ''faceVertexCounts''
                                  (VIntArray (replicate (length fs) 3));
                        stage = CreateAttr stage mesh_path ''faceVertexIndices''
                                  (VIntArray (concat (map (\<lambda>(a, b, c). [a, b, c]) fs)));
                        stage = (case ns of None \<Rightarrow> stage
                                 | Some n \<Rightarrow>
                                     SetAttrMetadata
                                       (CreateAttr stage mesh_path ''normals'' (VVec3fArray n))
                                       mesh_path ''normals'' ''interpolation'' ''vertex'');
                        stage = CreateAttr stage mesh_path ''subdivisionScheme''
                                  (VToken ''none'')
                    in Inr (stage, xform_path))"

fun part_info_map :: "PartInfo list \<Rightarrow> (string \<times> PartInfo) list \<Rightarrow> (string \<times> PartInfo) list" where
  \<comment> \<open>\<open>{p['id']: p for p in part_info}\<close>: a later entry with the same id replaces the earlier.\<close>
  "part_info_map [] m = m"
| "part_info_map (p # ps) m = part_info_map ps (AList.update (info_id p) p m)"

definition part_name_of :: "(string \<times> PartInfo) list \<Rightarrow> string \<Rightarrow> string" where
  \<comment> \<open>\<open>part_info_map.get(part_id, {'type': 'link'}).get('name', part_id)\<close>\<close>
  "part_name_of m part_id =
     (case map_of m part_id of None \<Rightarrow> part_id
      | Some info \<Rightarrow> (case info_name info of None \<Rightarrow> part_id | Some n \<Rightarrow> n))"

fun add_meshes ::
  "(string \<times> PartInfo) list \<Rightarrow> string \<Rightarrow> (string \<times> MeshData) list
   \<Rightarrow> stage \<times> (string \<times> string) list \<Rightarrow> error + stage \<times> (string \<times> string) list" where
  \<comment> \<open>the loop \<open>for part_id, data in mesh_data.items()\<close>\<close>
  "add_meshes m root_path [] (stage, part_paths) = Inr (stage, part_paths)"
| "add_meshes m root_path ((part_id, data) # rest) (stage, part_paths) =
     (let part_name = part_name_of m part_id
      in case add_mesh_prim stage root_path part_name
                (vertices data) (faces data) (normals data) None of
           Inl e \<Rightarrow> Inl e
         | Inr (stage, prim_path) \<Rightarrow>
             add_meshes m root_path rest (stage, AList.update part_id prim_path part_paths))"

definition build_from_parts ::
  "string \<Rightarrow> string \<Rightarrow> (string \<times> MeshData) list \<Rightarrow> PartInfo list
   \<Rightarrow> error + stage \<times> (string \<times> string) list" where
  "build_from_parts filename model_name mesh_data part_info =
     (case create_stage filename model_name ''Z'' 1 of
        Inl e \<Rightarrow> Inl e
      | Inr stage \<Rightarrow>
          let root_path = defaultPrim stage
          in case add_physics_scene stage of
               Inl e \<Rightarrow> Inl e
             | Inr (stage, scene_path) \<Rightarrow>
                 add_meshes (part_info_map part_info []) root_path mesh_data (stage, []))"

section \<open>Articulation data\<close>

text \<open>
  The pydantic models of \<open>schemas.py\<close>. \<open>Joint.type\<close> is the type its \<open>Literal\<close>
  declares: the chain of tests on it in \<open>inject_physics\<close> has no final \<open>else\<close>, and a
  value outside the three is refused when the model is validated. The other \<open>Literal\<close>
  fields hold a string at run time and the code tests them against string constants with
  a branch for everything else, so they stay strings; the values the schema admits are
  given by the predicates below.
\<close>

datatype JointType = Fixed | Revolute | Prismatic

record Part =
  part_id :: string
  part_name :: string
  part_type :: string
  role :: string
  mobility :: string
  mass :: "real option"
  density :: "real option"
  center_of_mass :: "(real \<times> real \<times> real) option"
  collision_type :: string

record 'ty JointFields =
  joint_name :: string
  parent :: string
  child :: string
  joint_type :: 'ty
  axis :: "real \<times> real \<times> real"
  anchor :: "real \<times> real \<times> real"
  lower_limit :: "real option"
  upper_limit :: "real option"
  drive_stiffness :: "real option"
  drive_damping :: "real option"
  drive_max_force :: "real option"
  drive_type :: string

type_synonym Joint = "JointType JointFields"

record ArticulationData =
  model_name :: string
  parts :: "Part list"
  joints :: "Joint list"

subsection \<open>Validation of a request\<close>

text \<open>
  The body of an export request before validation: the joint type is still the string of
  the JSON document. FastAPI validates the body against \<open>ExportRequest\<close> before the
  route runs, and answers with a validation error when a field does not fit its
  declaration.
\<close>

type_synonym JointJSON = "string JointFields"

record ExportRequestJSON =
  json_glb_filename :: string
  json_model_name :: string
  json_parts :: "Part list"
  json_joints :: "JointJSON list"

record ExportRequest =
  glb_filename :: string
  articulation :: ArticulationData

definition Part_type_Literal :: "string \<Rightarrow> bool" where
  "Part_type_Literal t = (t = ''link'' \<or> t = ''joint'' \<or> t = ''base'' \<or> t = ''tool'')"

definition Part_role_Literal :: "string \<Rightarrow> bool" where
  "Part_role_Literal t =
     (t = ''actuator'' \<or> t = ''support'' \<or> t = ''gripper'' \<or> t = ''sensor'' \<or> t = ''other'')"

definition Part_mobility_Literal :: "string \<Rightarrow> bool" where
  "Part_mobility_Literal t = (t = ''fixed'' \<or> t = ''revolute'' \<or> t = ''prismatic'')"

definition Part_collision_type_Literal :: "string \<Rightarrow> bool" where
  "Part_collision_type_Literal t =
     (t = ''mesh'' \<or> t = ''convexHull'' \<or> t = ''convexDecomposition'' \<or> t = ''none'')"

definition Joint_type_Literal :: "string \<Rightarrow> bool" where
  \<comment> \<open>\<open>Joint.type: Literal["fixed", "revolute", "prismatic"]\<close>\<close>
  "Joint_type_Literal t = (t = ''fixed'' \<or> t = ''revolute'' \<or> t = ''prismatic'')"

definition JointType_value :: "JointType \<Rightarrow> string" where
  \<comment> \<open>the string of a joint type\<close>
  "JointType_value t =
     (case t of Fixed \<Rightarrow> ''fixed'' | Revolute \<Rightarrow> ''revolute'' | Prismatic \<Rightarrow> ''prismatic'')"

definition Joint_drive_type_Literal :: "string \<Rightarrow> bool" where
  "Joint_drive_type_Literal t = (t = ''position'' \<or> t = ''velocity'' \<or> t = ''none'')"

definition validate_Part :: "Part \<Rightarrow> error + Part" where
  "validate_Part p =
     (if Part_type_Literal (part_type p) \<and> Part_role_Literal (role p)
         \<and> Part_mobility_Literal (mobility p) \<and> Part_collision_type_Literal (collision_type p)
      then Inr p else Inl RequestValidationError)"

definition validate_Joint :: "JointJSON \<Rightarrow> error + Joint" where
  "validate_Joint j =
     (if Joint_drive_type_Literal (drive_type j) then
        (let typed = (\<lambda>t. \<lparr>joint_name = joint_name j, parent = parent j, child = child j,
                           joint_type = t, axis = axis j, anchor = anchor j,
                           lower_limit = lower_limit j, upper_limit = upper_limit j,
                           drive_stiffness = drive_stiffness j,
                           drive_damping = drive_damping j,
                           drive_max_force = drive_max_force j, drive_type = drive_type j\<rparr>)
         in if joint_type j = ''fixed'' then Inr (typed Fixed)
            else if joint_type j = ''revolute'' then Inr (typed Revolute)
            else if joint_type j = ''prismatic'' then Inr (typed Prismatic)
            else Inl RequestValidationError)
      else Inl RequestValidationError)"

fun validate_all :: "('a \<Rightarrow> error + 'b) \<Rightarrow> 'a list \<Rightarrow> error + 'b list" where
  "validate_all f [] = Inr []"
| "validate_all f (x # xs) =
     (case f x of
        Inl e \<Rightarrow> Inl e
      | Inr y \<Rightarrow> (case validate_all f xs of Inl e \<Rightarrow> Inl e | Inr ys \<Rightarrow> Inr (y # ys)))"

definition validate_ExportRequest :: "ExportRequestJSON \<Rightarrow> error + ExportRequest" where
  "validate_ExportRequest body =
     (case validate_all validate_Part (json_parts body) of
        Inl e \<Rightarrow> Inl e
      | Inr ps \<Rightarrow>
          (case validate_all validate_Joint (json_joints body) of
             Inl e \<Rightarrow> Inl e
           | Inr js \<Rightarrow>
               Inr \<lparr>glb_filename = json_glb_filename body,
                    articulation = \<lparr>model_name = json_model_name body, parts = ps,
                                    joints = js\<rparr>\<rparr>))"

section \<open>Joint axis\<close>

definition axis_to_token :: "real \<times> real \<times> real \<Rightarrow> string" where
  \<comment> \<open>\<open>PhysicsInjector._axis_to_token\<close>\<close>
  "axis_to_token ax =
     (case ax of (a0, a1, a2) \<Rightarrow>
        let x = \<bar>a0\<bar>; y = \<bar>a1\<bar>; z = \<bar>a2\<bar>
        in if x \<ge> y \<and> x \<ge> z then ''X''
           else if y \<ge> x \<and> y \<ge> z then ''Y''
           else ''Z'')"

section \<open>Physics injector\<close>

record PhysicsInjector =
  default_density :: real

definition physics_injector :: PhysicsInjector where
  \<comment> \<open>the module's singleton, \<open>PhysicsInjector()\<close>\<close>
  "physics_injector = \<lparr>default_density = 1000\<rparr>"

definition apply_articulation_root :: "stage \<Rightarrow> string \<Rightarrow> error + stage" where
  "apply_articulation_root stage prim_path =
     (if \<not> IsValid stage prim_path then Inl (ValueError (''Prim not found: '' @ prim_path))
      else Inr (Apply stage prim_path ''PhysicsArticulationRootAPI''))"

definition apply_rigid_body ::
  "PhysicsInjector \<Rightarrow> stage \<Rightarrow> string \<Rightarrow> bool \<Rightarrow> real option \<Rightarrow> real option
   \<Rightarrow> (real \<times> real \<times> real) option \<Rightarrow> error + stage" where
  \<comment> \<open>\<open>density or self.default_density\<close> takes the default for \<open>None\<close> and for \<open>0.0\<close>\<close>
  "apply_rigid_body self stage prim_path is_kinematic m d com =
     (if \<not> IsValid stage prim_path then Inl (ValueError (''Prim not found: '' @ prim_path))
      else
        let stage = Apply stage prim_path ''PhysicsRigidBodyAPI'';
            stage = (if is_kinematic
                     then CreateAttr stage prim_path ''physics:kinematicEnabled'' (VBool True)
                     else stage);
            stage = Apply stage prim_path ''PhysicsMassAPI'';
            stage = (case m of
                       Some mass_value \<Rightarrow>
                         CreateAttr stage prim_path ''physics:mass'' (VFloat mass_value)
                     | None \<Rightarrow>
                         CreateAttr stage prim_path ''physics:density''
                           (VFloat (case d of None \<Rightarrow> default_density self
                                    | Some dv \<Rightarrow> if dv = 0 then default_density self else dv)));
            stage = (case com of None \<Rightarrow> stage
                     | Some (c0, c1, c2) \<Rightarrow>
                         CreateAttr stage prim_path ''physics:centerOfMass'' (VVec3f c0 c1 c2))
        in Inr stage)"

definition apply_collision :: "stage \<Rightarrow> string \<Rightarrow> string \<Rightarrow> error + stage" where
  "apply_collision stage prim_path ctype =
     (if \<not> IsValid stage prim_path then Inl (ValueError (''Prim not found: '' @ prim_path))
      else
        let stage = Apply stage prim_path ''PhysicsCollisionAPI'';
            stage = (if IsA stage prim_path ''Mesh'' then
                       let stage = Apply stage prim_path ''PhysicsMeshCollisionAPI''
                       in if ctype = ''convexHull''
                          then CreateAttr stage prim_path ''physics:approximation''
                                 (VToken ''convexHull'')
                          else if ctype = ''convexDecomposition''
                          then CreateAttr stage prim_path ''physics:approximation''
                                 (VToken ''convexDecomposition'')
                          else CreateAttr stage prim_path ''physics:approximation''
                                 (VToken ''none'')
                     else stage)
        in Inr stage)"

definition apply_joint_drive ::
  "stage \<Rightarrow> string \<Rightarrow> string \<Rightarrow> real option \<Rightarrow> real option \<Rightarrow> real option \<Rightarrow> bool \<Rightarrow> stage" where
  \<comment> \<open>\<open>_apply_joint_drive\<close>; both branches of the drive-type test write \<open>force\<close>.\<close>
  "apply_joint_drive stage joint_prim dtype stiffness damping max_force is_angular =
     (let drive_name = (if is_angular then ''angular'' else ''linear'');
          pre = ''drive:'' @ drive_name @ '':physics:'';
          stage = Apply stage joint_prim (''PhysicsDriveAPI:'' @ drive_name);
          stage = (if dtype = ''position''
                   then CreateAttr stage joint_prim (pre @ ''type'') (VToken ''force'')
                   else CreateAttr stage joint_prim (pre @ ''type'') (VToken ''force''));
          stage = (case stiffness of None \<Rightarrow> stage
                   | Some v \<Rightarrow> CreateAttr stage joint_prim (pre @ ''stiffness'') (VFloat v));
          stage = (case damping of None \<Rightarrow> stage
                   | Some v \<Rightarrow> CreateAttr stage joint_prim (pre @ ''damping'') (VFloat v));
          stage = (case max_force of None \<Rightarrow> stage
                   | Some v \<Rightarrow> CreateAttr stage joint_prim (pre @ ''maxForce'') (VFloat v))
      in if dtype = ''position''
         then CreateAttr stage joint_prim (pre @ ''targetPosition'') (VFloat 0)
         else if dtype = ''velocity''
         then CreateAttr stage joint_prim (pre @ ''targetVelocity'') (VFloat 0)
         else stage)"

definition joints_parent :: "stage \<Rightarrow> string option \<Rightarrow> error + stage \<times> string" where
  \<comment> \<open>the head of the three \<open>create_*_joint\<close> methods: the container of the joints,
      \<open>root/Joints\<close> unless one is given, created when it is not there\<close>
  "joints_parent stage joints_parent_path =
     (case joints_parent_path of
        Some jp \<Rightarrow> Inr (stage, jp)
      | None \<Rightarrow>
          let jp = defaultPrim stage @ ''/Joints''
          in if \<not> IsValid stage jp
             then (case Define stage jp ''Xform'' of
                     Inl e \<Rightarrow> Inl e
                   | Inr stage \<Rightarrow> Inr (stage, jp))
             else Inr (stage, jp))"

definition local_poses :: "stage \<Rightarrow> string \<Rightarrow> stage" where
  \<comment> \<open>the four \<open>CreateLocalPos/Rot\<close> calls of each \<open>create_*_joint\<close>\<close>
  "local_poses stage joint_path =
     (let stage = CreateAttr stage joint_path ''physics:localPos0'' (VVec3f 0 0 0);
          stage = CreateAttr stage joint_path ''physics:localPos1'' (VVec3f 0 0 0);
          stage = CreateAttr stage joint_path ''physics:localRot0'' (VQuatf 1 0 0 0)
      in CreateAttr stage joint_path ''physics:localRot1'' (VQuatf 1 0 0 0))"

definition set_limits :: "stage \<Rightarrow> string \<Rightarrow> real option \<Rightarrow> real option \<Rightarrow> stage" where
  "set_limits stage joint_path lower upper =
     (let stage = (case lower of None \<Rightarrow> stage
                   | Some v \<Rightarrow> CreateAttr stage joint_path ''physics:lowerLimit'' (VFloat v))
      in (case upper of None \<Rightarrow> stage
          | Some v \<Rightarrow> CreateAttr stage joint_path ''physics:upperLimit'' (VFloat v)))"

definition create_revolute_joint ::
  "stage \<Rightarrow> string \<Rightarrow> string \<Rightarrow> string \<Rightarrow> real \<times> real \<times> real \<Rightarrow> real option \<Rightarrow> real option
   \<Rightarrow> real option \<Rightarrow> real option \<Rightarrow> real option \<Rightarrow> string \<Rightarrow> string option
   \<Rightarrow> error + stage \<times> string" where
  "create_revolute_joint stage jname parent_path child_path ax lower upper
       stiffness damping max_force dtype joints_parent_path =
     (case joints_parent stage joints_parent_path of
        Inl e \<Rightarrow> Inl e
      | Inr (stage, jp) \<Rightarrow>
          let joint_path = jp @ ''/'' @ sanitize_name jname
          in case Define stage joint_path ''PhysicsRevoluteJoint'' of
               Inl e \<Rightarrow> Inl e
             | Inr stage \<Rightarrow>
                 let stage = CreateRel stage joint_path ''physics:body0'' [parent_path];
                     stage = CreateRel stage joint_path ''physics:body1'' [child_path];
                     stage = CreateAttr stage joint_path ''physics:axis''
                               (VToken (axis_to_token ax));
                     stage = set_limits stage joint_path lower upper;
                     stage = local_poses stage joint_path;
                     stage = (if dtype \<noteq> ''none'' \<and> stiffness \<noteq> None
                              then apply_joint_drive stage joint_path dtype stiffness damping
                                     max_force True
                              else stage)
                 in Inr (stage, joint_path))"

definition create_prismatic_joint ::
  "stage \<Rightarrow> string \<Rightarrow> string \<Rightarrow> string \<Rightarrow> real \<times> real \<times> real \<Rightarrow> real option \<Rightarrow> real option
   \<Rightarrow> real option \<Rightarrow> real option \<Rightarrow> real option \<Rightarrow> string \<Rightarrow> string option
   \<Rightarrow> error + stage \<times> string" where
  "create_prismatic_joint stage jname parent_path child_path ax lower upper
       stiffness damping max_force dtype joints_parent_path =
     (case joints_parent stage joints_parent_path of
        Inl e \<Rightarrow> Inl e
      | Inr (stage, jp) \<Rightarrow>
          let joint_path = jp @ ''/'' @ sanitize_name jname
          in case Define stage joint_path ''PhysicsPrismaticJoint'' of
               Inl e \<Rightarrow> Inl e
             | Inr stage \<Rightarrow>
                 let stage = CreateRel stage joint_path ''physics:body0'' [parent_path];
                     stage = CreateRel stage joint_path ''physics:body1'' [child_path];
                     stage = CreateAttr stage joint_path ''physics:axis''
                               (VToken (axis_to_token ax));
                     stage = set_limits stage joint_path lower upper;
                     stage = local_poses stage joint_path;
                     stage = (if dtype \<noteq> ''none'' \<and> stiffness \<noteq> None
                              then apply_joint_drive stage joint_path dtype stiffness damping
                                     max_force False
                              else stage)
                 in Inr (stage, joint_path))"

definition create_fixed_joint ::
  "stage \<Rightarrow> string \<Rightarrow> string \<Rightarrow> string \<Rightarrow> string option \<Rightarrow> error + stage \<times> string" where
  "create_fixed_joint stage jname parent_path child_path joints_parent_path =
     (case joints_parent stage joints_parent_path of
        Inl e \<Rightarrow> Inl e
      | Inr (stage, jp) \<Rightarrow>
          let joint_path = jp @ ''/'' @ sanitize_name jname
          in case Define stage joint_path ''PhysicsFixedJoint'' of
               Inl e \<Rightarrow> Inl e
             | Inr stage \<Rightarrow>
                 let stage = CreateRel stage joint_path ''physics:body0'' [parent_path];
                     stage = CreateRel stage joint_path ''physics:body1'' [child_path];
                     stage = local_poses stage joint_path
                 in Inr (stage, joint_path))"

fun find_base_part :: "Part list \<Rightarrow> Part option" where
  "find_base_part [] = None"
| "find_base_part (part # rest) =
     (if part_type part = ''base'' then Some part else find_base_part rest)"

text \<open>
  \<open>inject_physics\<close> in its three phases. Beside the stage each phase returns the warnings
  it logs, oldest first; the \<open>info\<close> records of the logger are left out. The method
  returns nothing else.
\<close>

definition mark_root :: "stage \<Rightarrow> Part list \<Rightarrow> (string \<times> string) list \<Rightarrow> error + stage" where
  \<comment> \<open>the root marking, lines 388 to 398\<close>
  "mark_root stage ps part_paths =
     (case find_base_part ps of
        None \<Rightarrow>
          (if part_paths \<noteq> [] then apply_articulation_root stage (snd (hd part_paths))
           else Inr stage)
      | Some base_part \<Rightarrow>
          (case map_of part_paths (part_id base_part) of
             Some path \<Rightarrow> apply_articulation_root stage path
           | None \<Rightarrow>
               (if part_paths \<noteq> [] then apply_articulation_root stage (snd (hd part_paths))
                else Inr stage)))"

definition annotate_part ::
  "PhysicsInjector \<Rightarrow> (string \<times> string) list \<Rightarrow> Part \<Rightarrow> stage \<Rightarrow> error + stage \<times> string list" where
  \<comment> \<open>the body of the loop over the parts, lines 401 to 424\<close>
  "annotate_part self part_paths part stage =
     (case map_of part_paths (part_id part) of
        None \<Rightarrow> Inr (stage, [''Part '' @ part_id part @ '' not found in USD stage''])
      | Some prim_path \<Rightarrow>
          let is_kinematic = (part_type part = ''base'')
          in (case apply_rigid_body self stage prim_path is_kinematic
                     (mass part) (density part) (center_of_mass part) of
                Inl e \<Rightarrow> Inl e
              | Inr stage \<Rightarrow>
                  let mesh_path = prim_path @ ''/mesh''
                  in if IsValid stage mesh_path
                     then (case apply_collision stage mesh_path (collision_type part) of
                             Inl e \<Rightarrow> Inl e
                           | Inr stage \<Rightarrow> Inr (stage, []))
                     else Inr (stage, [])))"

fun annotate_parts ::
  "PhysicsInjector \<Rightarrow> (string \<times> string) list \<Rightarrow> Part list \<Rightarrow> stage \<Rightarrow> error + stage \<times> string list" where
  "annotate_parts self part_paths [] stage = Inr (stage, [])"
| "annotate_parts self part_paths (part # rest) stage =
     (case annotate_part self part_paths part stage of
        Inl e \<Rightarrow> Inl e
      | Inr (stage, w) \<Rightarrow>
          (case annotate_parts self part_paths rest stage of
             Inl e \<Rightarrow> Inl e
           | Inr (stage, ws) \<Rightarrow> Inr (stage, w @ ws)))"

definition create_joint ::
  "(string \<times> string) list \<Rightarrow> Joint \<Rightarrow> stage \<Rightarrow> error + stage \<times> string list" where
  \<comment> \<open>the body of the loop over the joints, lines 427 to 469\<close>
  "create_joint part_paths joint stage =
     (case (map_of part_paths (parent joint), map_of part_paths (child joint)) of
        (Some parent_path, Some child_path) \<Rightarrow>
          (case joint_type joint of
             Revolute \<Rightarrow>
               (case create_revolute_joint stage (joint_name joint) parent_path child_path
                       (axis joint) (lower_limit joint) (upper_limit joint)
                       (drive_stiffness joint) (drive_damping joint) (drive_max_force joint)
                       (drive_type joint) None of
                  Inl e \<Rightarrow> Inl e
                | Inr (stage, joint_path) \<Rightarrow> Inr (stage, []))
           | Prismatic \<Rightarrow>
               (case create_prismatic_joint stage (joint_name joint) parent_path child_path
                       (axis joint) (lower_limit joint) (upper_limit joint)
                       (drive_stiffness joint) (drive_damping joint) (drive_max_force joint)
                       (drive_type joint) None of
                  Inl e \<Rightarrow> Inl e
                | Inr (stage, joint_path) \<Rightarrow> Inr (stage, []))
           | Fixed \<Rightarrow>
               (case create_fixed_joint stage (joint_name joint) parent_path child_path None of
                  Inl e \<Rightarrow> Inl e
                | Inr (stage, joint_path) \<Rightarrow> Inr (stage, [])))
      | _ \<Rightarrow> Inr (stage, [''Joint '' @ joint_name joint @ '': parent or child not found'']))"

fun create_joints ::
  "(string \<times> string) list \<Rightarrow> Joint list \<Rightarrow> stage \<Rightarrow> error + stage \<times> string list" where
  "create_joints part_paths [] stage = Inr (stage, [])"
| "create_joints part_paths (joint # rest) stage =
     (case create_joint part_paths joint stage of
        Inl e \<Rightarrow> Inl e
      | Inr (stage, w) \<Rightarrow>
          (case create_joints part_paths rest stage of
             Inl e \<Rightarrow> Inl e
           | Inr (stage, ws) \<Rightarrow> Inr (stage, w @ ws)))"

definition inject_physics ::
  "PhysicsInjector \<Rightarrow> stage \<Rightarrow> ArticulationData \<Rightarrow> (string \<times> string) list
   \<Rightarrow> error + stage \<times> string list" where
  "inject_physics self stage articulation_data part_paths =
     (case mark_root stage (parts articulation_data) part_paths of
        Inl e \<Rightarrow> Inl e
      | Inr stage \<Rightarrow>
          (case annotate_parts self part_paths (parts articulation_data) stage of
             Inl e \<Rightarrow> Inl e
           | Inr (stage, w) \<Rightarrow>
               (case create_joints part_paths (joints articulation_data) stage of
                  Inl e \<Rightarrow> Inl e
                | Inr (stage, ws) \<Rightarrow> Inr (stage, w @ ws))))"

section \<open>Export route\<close>

definition export_usd ::
  "string \<Rightarrow> (string \<times> MeshData) list \<Rightarrow> ExportRequestJSON \<Rightarrow> error + stage" where
  \<comment> \<open>\<open>export_usd\<close> of \<open>routes.py\<close> on a file that exists: \<open>mesh_data\<close> is what the mesh
      reader returns for it, \<open>output_filename\<close> the name drawn for the document. The body
      is validated before the route runs; an exception in the route becomes the response
      500, whose detail is left out.\<close>
  "export_usd output_filename mesh_data body =
     (case validate_ExportRequest body of
        Inl e \<Rightarrow> Inl e
      | Inr request \<Rightarrow>
          if mesh_data = [] then Inl (HTTPException 500)
          else
            let part_info = map (\<lambda>part. \<lparr>info_id = part_id part,
                                          info_name = Some (part_name part)\<rparr>)
                              (parts (articulation request))
            in case build_from_parts output_filename (model_name (articulation request))
                      mesh_data part_info of
                 Inl e \<Rightarrow> Inl (HTTPException 500)
               | Inr (stage, part_paths) \<Rightarrow>
                   (case inject_physics physics_injector stage (articulation request)
                           part_paths of
                      Inl e \<Rightarrow> Inl (HTTPException 500)
                    | Inr (stage, w) \<Rightarrow> Inr stage))"

section \<open>Observations on a document\<close>

definition drive_apis :: "string set" where
  "drive_apis = {''PhysicsDriveAPI:angular'', ''PhysicsDriveAPI:linear''}"

definition body_apis :: "string set" where
  "body_apis = {''PhysicsRigidBodyAPI'', ''PhysicsMassAPI'', ''PhysicsCollisionAPI'',
     ''PhysicsMeshCollisionAPI''}"

definition body_attrs :: "string set" where
  "body_attrs = {''physics:kinematicEnabled'', ''physics:mass'', ''physics:density'',
     ''physics:centerOfMass'', ''physics:approximation''}"

definition prim_paths :: "stage \<Rightarrow> string list" where
  "prim_paths st = map fst (prims st)"

definition paths_with_api :: "string \<Rightarrow> stage \<Rightarrow> string list" where
  "paths_with_api a st = map fst (filter (\<lambda>(p, pr). a \<in> set (apiSchemas pr)) (prims st))"

definition paths_of_type :: "string \<Rightarrow> stage \<Rightarrow> string list" where
  "paths_of_type ty st = map fst (filter (\<lambda>(p, pr). typeName pr = ty) (prims st))"

definition attr_at :: "string \<Rightarrow> string \<Rightarrow> stage \<Rightarrow> attr_value option" where
  "attr_at path name st = attr st path name"

definition node_types :: "stage \<Rightarrow> (string \<times> string) list" where
  "node_types st = map (\<lambda>(p, pr). (p, typeName pr)) (prims st)"






text \<open>
  The node of a joint, the type of node each joint type is given, and the part-path map
  having both ends of a joint.
\<close>

definition joint_path :: "stage \<Rightarrow> Joint \<Rightarrow> string" where
  "joint_path st j = defaultPrim st @ ''/Joints/'' @ sanitize_name (joint_name j)"

definition joint_type_name :: "JointType \<Rightarrow> string" where
  "joint_type_name t =
     (case t of Fixed \<Rightarrow> ''PhysicsFixedJoint'' | Revolute \<Rightarrow> ''PhysicsRevoluteJoint''
      | Prismatic \<Rightarrow> ''PhysicsPrismaticJoint'')"

definition is_joint_node :: "stage \<Rightarrow> string \<Rightarrow> bool" where
  "is_joint_node st p =
     (IsA st p ''PhysicsFixedJoint'' \<or> IsA st p ''PhysicsRevoluteJoint''
      \<or> IsA st p ''PhysicsPrismaticJoint'')"

definition resolved :: "(string \<times> string) list \<Rightarrow> Joint \<Rightarrow> bool" where
  "resolved part_paths j =
     (map_of part_paths (parent j) \<noteq> None \<and> map_of part_paths (child j) \<noteq> None)"

section \<open>Example inputs\<close>

text \<open>
  A one-triangle mesh, parts and joints with the defaults of the schema, and the document
  the builder makes of the meshes with the given ids, in that order, without part info.
\<close>

definition ex_mesh :: MeshData where
  "ex_mesh = \<lparr>vertices = [(0, 0, 0), (1, 0, 0), (0, 1, 0)], faces = [(0, 1, 2)],
     normals = None\<rparr>"

definition ex_part :: "string \<Rightarrow> string \<Rightarrow> Part" where
  "ex_part pid ty = \<lparr>part_id = pid, part_name = pid, part_type = ty, role = ''other'',
     mobility = ''fixed'', mass = None, density = Some 1000, center_of_mass = None,
     collision_type = ''convexHull''\<rparr>"

definition ex_joint :: "string \<Rightarrow> string \<Rightarrow> string \<Rightarrow> 'ty \<Rightarrow> 'ty JointFields" where
  "ex_joint nm pa ch ty = \<lparr>joint_name = nm, parent = pa, child = ch, joint_type = ty,
     axis = (0, 0, 1), anchor = (0, 0, 0), lower_limit = Some (- 180), upper_limit = Some 180,
     drive_stiffness = Some 1000, drive_damping = Some 100, drive_max_force = Some 1000,
     drive_type = ''position''\<rparr>"

definition the_doc ::
  "error + stage \<times> (string \<times> string) list \<Rightarrow> stage \<times> (string \<times> string) list" where
  \<comment> \<open>the document and path map of a build that succeeded\<close>
  "the_doc r =
     (case r of
        Inl e \<Rightarrow> (\<lparr>prims = [], defaultPrim = [], upAxis = [], metersPerUnit = 0,
                    rootLayer = []\<rparr>, [])
      | Inr d \<Rightarrow> d)"

definition ex_doc :: "string list \<Rightarrow> stage \<times> (string \<times> string) list" where
  "ex_doc ids = the_doc (build_from_parts ''m.usda'' ''m'' (map (\<lambda>i. (i, ex_mesh)) ids) [])"

section \<open>Properties\<close>

subsection \<open>Strings and paths\<close>

lemma set_replace_dunder: "set (replace_dunder s) \<subseteq> set s"
  by (induction s rule: replace_dunder.induct) auto

lemma set_collapse_loop: "set (collapse_loop s) \<subseteq> set s"
proof (induction s rule: collapse_loop.induct)
  case (1 s)
  show ?case
  proof (cases "has_dunder s")
    case True
    with 1 set_replace_dunder [of s] show ?thesis
      by (subst collapse_loop.simps) auto
  next
    case False
    then show ?thesis by (subst collapse_loop.simps) simp
  qed
qed

lemma sanitize_prim_name_no_slash: "CHR ''/'' \<notin> set (sanitize_prim_name name)"
proof -
  have a: "\<not> py_isalnum CHR ''/''" by (simp add: py_isalnum_def)
  let ?s = "map (\<lambda>c. if py_isalnum c \<or> c = CHR ''_'' then c else CHR ''_'') name"
  have 1: "CHR ''/'' \<notin> set ?s" using a by auto
  have 2: "CHR ''/'' \<notin> set (if ?s \<noteq> [] \<and> py_isdigit (hd ?s) then CHR ''_'' # ?s else ?s)"
    (is "_ \<notin> set ?t") using 1 by simp
  have 3: "CHR ''/'' \<notin> set (if ?t = [] then ''_unnamed'' else ?t)"
    using 2 by simp
  with set_collapse_loop show ?thesis
    unfolding sanitize_prim_name_def Let_def by blast
qed

lemma sanitize_name_eq: "sanitize_name name = sanitize_prim_name name"
  by (simp add: sanitize_prim_name_def sanitize_name_def)

lemma sanitize_name_no_slash: "CHR ''/'' \<notin> set (sanitize_name name)"
  by (simp add: sanitize_name_eq sanitize_prim_name_no_slash)

lemma split_on_nonempty: "split_on sep s \<noteq> []"
  by (induction s) (auto split: list.splits)

lemma split_on_append: "split_on sep (a @ sep # b) = split_on sep a @ split_on sep b"
proof (induction a)
  case Nil
  then show ?case by simp
next
  case (Cons c a)
  then show ?case
    using split_on_nonempty [of sep a] by (cases "split_on sep a") auto
qed

lemma split_on_no_sep: "sep \<notin> set n \<Longrightarrow> split_on sep n = [n]"
  by (induction n) auto

lemma valid_prim_path_child:
  "CHR ''/'' \<notin> set n \<Longrightarrow>
   valid_prim_path (p @ CHR ''/'' # n) = ((p = [] \<or> valid_prim_path p) \<and> usd_identifier n)"
  by (cases p) (auto simp: valid_prim_path_def split_on_append split_on_no_sep)

lemma usd_identifier_Joints: "usd_identifier ''Joints''"
  by code_simp

lemma valid_joints_path:
  "valid_prim_path (d @ ''/Joints'') = (d = [] \<or> valid_prim_path d)"
  using valid_prim_path_child [of "''Joints''" d] usd_identifier_Joints by simp

lemma valid_joint_path:
  "CHR ''/'' \<notin> set n \<Longrightarrow>
   valid_prim_path ((d @ ''/Joints'') @ ''/'' @ n) = ((d = [] \<or> valid_prim_path d) \<and> usd_identifier n)"
  using valid_prim_path_child [of n "d @ ''/Joints''"] valid_joints_path [of d] by simp

subsection \<open>The stage operations\<close>

lemma GetPrimAtPath_modify_prim:
  "GetPrimAtPath (modify_prim st q f) p =
     (if p = q then map_option f (GetPrimAtPath st p) else GetPrimAtPath st p)"
  by (auto simp: GetPrimAtPath_def modify_prim_def map_of_map_entry split: option.splits)

lemma GetPrimAtPath_define_prim:
  "GetPrimAtPath (define_prim st q ty) p =
     (if p = q
      then Some ((case GetPrimAtPath st q of
                    None \<Rightarrow> \<lparr>typeName = [], apiSchemas = [], attributes = [],
                              attrMetadata = [], relationships = []\<rparr>
                  | Some pr \<Rightarrow> pr)\<lparr>typeName := ty\<rparr>)
      else GetPrimAtPath st p)"
  by (simp add: GetPrimAtPath_def define_prim_def update_conv')

lemma Define_Inr:
  "Define st q ty = Inr st' \<longleftrightarrow> valid_prim_path q \<and> st' = define_prim st q ty"
  by (auto simp: Define_def)

lemma Define_valid: "valid_prim_path q \<Longrightarrow> Define st q ty = Inr (define_prim st q ty)"
  by (simp add: Define_def)

lemma Define_invalid: "\<not> valid_prim_path q \<Longrightarrow> Define st q ty = Inl (TfErrorException q)"
  by (simp add: Define_def)

lemma defaultPrim_ops [simp]:
  "defaultPrim (modify_prim st q f) = defaultPrim st"
  "defaultPrim (define_prim st q ty) = defaultPrim st"
  "defaultPrim (Apply st q a) = defaultPrim st"
  "defaultPrim (CreateAttr st q n v) = defaultPrim st"
  "defaultPrim (SetAttrMetadata st q n k x) = defaultPrim st"
  "defaultPrim (CreateRel st q n ts) = defaultPrim st"
  by (simp_all add: modify_prim_def define_prim_def Apply_def CreateAttr_def CreateRel_def
      SetAttrMetadata_def)

lemma IsValid_ops [simp]:
  "IsValid (Apply st q a) p = IsValid st p"
  "IsValid (CreateAttr st q n v) p = IsValid st p"
  "IsValid (SetAttrMetadata st q n k x) p = IsValid st p"
  "IsValid (CreateRel st q n ts) p = IsValid st p"
  "IsValid (define_prim st q ty) p = (p = q \<or> IsValid st p)"
  by (auto simp: IsValid_def Apply_def CreateAttr_def CreateRel_def SetAttrMetadata_def
      GetPrimAtPath_modify_prim GetPrimAtPath_define_prim)

lemma IsA_ops [simp]:
  "IsA (Apply st q a) p t = IsA st p t"
  "IsA (CreateAttr st q n v) p t = IsA st p t"
  "IsA (SetAttrMetadata st q n k x) p t = IsA st p t"
  "IsA (CreateRel st q n ts) p t = IsA st p t"
  "IsA (define_prim st q ty) p t = (if p = q then t = ty else IsA st p t)"
  by (auto simp: IsA_def Apply_def CreateAttr_def CreateRel_def SetAttrMetadata_def
      GetPrimAtPath_modify_prim GetPrimAtPath_define_prim split: option.splits)

lemma apis_ops [simp]:
  "apis (Apply st q a) p = (if p = q \<and> IsValid st q then insert a (apis st p) else apis st p)"
  "apis (CreateAttr st q n v) p = apis st p"
  "apis (SetAttrMetadata st q n k x) p = apis st p"
  "apis (CreateRel st q n ts) p = apis st p"
  "apis (define_prim st q ty) p = apis st p"
  by (auto simp: apis_def IsValid_def Apply_def CreateAttr_def CreateRel_def SetAttrMetadata_def
      GetPrimAtPath_modify_prim GetPrimAtPath_define_prim split: option.splits)

lemma attr_ops [simp]:
  "attr (Apply st q a) p n = attr st p n"
  "attr (CreateAttr st q m v) p n =
     (if p = q \<and> n = m \<and> IsValid st q then Some v else attr st p n)"
  "attr (CreateRel st q m ts) p n = attr st p n"
  "attr (define_prim st q ty) p n = attr st p n"
  "attr (SetAttrMetadata st q m k x) p n = attr st p n"
  by (auto simp: attr_def IsValid_def Apply_def CreateAttr_def CreateRel_def SetAttrMetadata_def
      GetPrimAtPath_modify_prim GetPrimAtPath_define_prim update_conv' split: option.splits)

lemma IsA_IsValid: "IsA st p t \<Longrightarrow> IsValid st p"
  by (simp add: IsA_def IsValid_def split: option.splits)

subsection \<open>Joint creation\<close>

lemma apis_local_poses: "apis (local_poses st q) p = apis st p"
  by (simp add: local_poses_def Let_def)

lemma apis_set_limits: "apis (set_limits st q lo up) p = apis st p"
  by (simp add: set_limits_def Let_def split: option.splits)

lemma apis_apply_joint_drive:
  "a \<notin> drive_apis \<Longrightarrow>
   a \<in> apis (apply_joint_drive st q dt s d m ang) p \<longleftrightarrow> a \<in> apis st p"
  by (auto simp: apply_joint_drive_def Let_def drive_apis_def split: option.splits if_splits)

lemma attr_CreateAttr_other:
  "n \<noteq> m \<Longrightarrow> attr (CreateAttr st q m v) p n = attr st p n"
  by simp

lemma body_attrs_neq:
  assumes "n \<in> body_attrs"
  shows "n \<noteq> ''physics:axis''" "n \<noteq> ''physics:lowerLimit''" "n \<noteq> ''physics:upperLimit''"
    "n \<noteq> ''physics:localPos0''" "n \<noteq> ''physics:localPos1''"
    "n \<noteq> ''physics:localRot0''" "n \<noteq> ''physics:localRot1''"
    "n \<noteq> ''drive:angular:physics:type''" "n \<noteq> ''drive:angular:physics:stiffness''"
    "n \<noteq> ''drive:angular:physics:damping''" "n \<noteq> ''drive:angular:physics:maxForce''"
    "n \<noteq> ''drive:angular:physics:targetPosition''"
    "n \<noteq> ''drive:angular:physics:targetVelocity''"
    "n \<noteq> ''drive:linear:physics:type''" "n \<noteq> ''drive:linear:physics:stiffness''"
    "n \<noteq> ''drive:linear:physics:damping''" "n \<noteq> ''drive:linear:physics:maxForce''"
    "n \<noteq> ''drive:linear:physics:targetPosition''"
    "n \<noteq> ''drive:linear:physics:targetVelocity''"
  using assms by (auto simp: body_attrs_def)

lemma attr_local_poses:
  "n \<in> body_attrs \<Longrightarrow> attr (local_poses st q) p n = attr st p n"
  by (simp add: local_poses_def Let_def attr_CreateAttr_other body_attrs_neq del: attr_ops(2))

lemma attr_set_limits:
  "n \<in> body_attrs \<Longrightarrow> attr (set_limits st q lo up) p n = attr st p n"
  by (simp add: set_limits_def Let_def attr_CreateAttr_other body_attrs_neq del: attr_ops
      split: option.splits)

lemma attr_apply_joint_drive:
  "n \<in> body_attrs \<Longrightarrow> attr (apply_joint_drive st q dt s d m ang) p n = attr st p n"
  by (cases ang)
    (simp_all add: apply_joint_drive_def Let_def attr_CreateAttr_other body_attrs_neq
      del: attr_ops(2) split: option.splits)

lemma axis_local_poses:
  "attr (local_poses st q) p ''physics:axis'' = attr st p ''physics:axis''"
  by (simp add: local_poses_def Let_def)

lemma axis_set_limits:
  "attr (set_limits st q lo up) p ''physics:axis'' = attr st p ''physics:axis''"
  by (simp add: set_limits_def Let_def split: option.splits)

lemma axis_apply_joint_drive:
  "attr (apply_joint_drive st q dt s d m ang) p ''physics:axis'' = attr st p ''physics:axis''"
  by (cases ang) (simp_all add: apply_joint_drive_def Let_def split: option.splits)

lemma pose_ops [simp]:
  "defaultPrim (local_poses st q) = defaultPrim st"
  "defaultPrim (set_limits st q lo up) = defaultPrim st"
  "defaultPrim (apply_joint_drive st q dt s d m ang) = defaultPrim st"
  "IsValid (local_poses st q) p = IsValid st p"
  "IsValid (set_limits st q lo up) p = IsValid st p"
  "IsValid (apply_joint_drive st q dt s d m ang) p = IsValid st p"
  "IsA (local_poses st q) p t = IsA st p t"
  "IsA (set_limits st q lo up) p t = IsA st p t"
  "IsA (apply_joint_drive st q dt s d m ang) p t = IsA st p t"
  by (simp_all add: local_poses_def set_limits_def apply_joint_drive_def Let_def
      split: option.splits)

text \<open>
  The three methods that create a joint, with the container of the joints left to be
  found: they raise exactly when the path of the joint's node is no prim path.
\<close>

lemma joints_parent_None:
  "joints_parent st None =
     (if IsValid st (defaultPrim st @ ''/Joints'') then Inr (st, defaultPrim st @ ''/Joints'')
      else if valid_prim_path (defaultPrim st @ ''/Joints'')
      then Inr (define_prim st (defaultPrim st @ ''/Joints'') ''Xform'',
                defaultPrim st @ ''/Joints'')
      else Inl (TfErrorException (defaultPrim st @ ''/Joints'')))"
  by (simp add: joints_parent_def Let_def Define_def)

lemma valid_joint_path_parent:
  "valid_prim_path ((d @ ''/Joints'') @ ''/'' @ sanitize_name n) \<Longrightarrow>
   valid_prim_path (d @ ''/Joints'')"
  using valid_joint_path [OF sanitize_name_no_slash, of d n] valid_joints_path [of d] by simp

lemma create_revolute_joint_None:
  "create_revolute_joint st n pa ch ax lo up s d m dt None =
     (let jp = defaultPrim st @ ''/Joints'';
          q = jp @ ''/'' @ sanitize_name n;
          st1 = (if IsValid st jp then st else define_prim st jp ''Xform'')
      in if valid_prim_path q then
           (let stage = define_prim st1 q ''PhysicsRevoluteJoint'';
                stage = CreateRel stage q ''physics:body0'' [pa];
                stage = CreateRel stage q ''physics:body1'' [ch];
                stage = CreateAttr stage q ''physics:axis'' (VToken (axis_to_token ax));
                stage = set_limits stage q lo up;
                stage = local_poses stage q;
                stage = (if dt \<noteq> ''none'' \<and> s \<noteq> None
                         then apply_joint_drive stage q dt s d m True else stage)
            in Inr (stage, q))
         else Inl (TfErrorException (if IsValid st jp \<or> valid_prim_path jp then q else jp)))"
proof (cases "valid_prim_path ((defaultPrim st @ ''/Joints'') @ ''/'' @ sanitize_name n)")
  case True
  from True valid_joint_path_parent [OF True] show ?thesis
    by (simp add: create_revolute_joint_def joints_parent_None Define_def Let_def)
next
  case False
  then show ?thesis
    by (simp add: create_revolute_joint_def joints_parent_None Define_def Let_def)
qed

lemma create_prismatic_joint_None:
  "create_prismatic_joint st n pa ch ax lo up s d m dt None =
     (let jp = defaultPrim st @ ''/Joints'';
          q = jp @ ''/'' @ sanitize_name n;
          st1 = (if IsValid st jp then st else define_prim st jp ''Xform'')
      in if valid_prim_path q then
           (let stage = define_prim st1 q ''PhysicsPrismaticJoint'';
                stage = CreateRel stage q ''physics:body0'' [pa];
                stage = CreateRel stage q ''physics:body1'' [ch];
                stage = CreateAttr stage q ''physics:axis'' (VToken (axis_to_token ax));
                stage = set_limits stage q lo up;
                stage = local_poses stage q;
                stage = (if dt \<noteq> ''none'' \<and> s \<noteq> None
                         then apply_joint_drive stage q dt s d m False else stage)
            in Inr (stage, q))
         else Inl (TfErrorException (if IsValid st jp \<or> valid_prim_path jp then q else jp)))"
proof (cases "valid_prim_path ((defaultPrim st @ ''/Joints'') @ ''/'' @ sanitize_name n)")
  case True
  from True valid_joint_path_parent [OF True] show ?thesis
    by (simp add: create_prismatic_joint_def joints_parent_None Define_def Let_def)
next
  case False
  then show ?thesis
    by (simp add: create_prismatic_joint_def joints_parent_None Define_def Let_def)
qed

lemma create_fixed_joint_None:
  "create_fixed_joint st n pa ch None =
     (let jp = defaultPrim st @ ''/Joints'';
          q = jp @ ''/'' @ sanitize_name n;
          st1 = (if IsValid st jp then st else define_prim st jp ''Xform'')
      in if valid_prim_path q then
           (let stage = define_prim st1 q ''PhysicsFixedJoint'';
                stage = CreateRel stage q ''physics:body0'' [pa];
                stage = CreateRel stage q ''physics:body1'' [ch];
                stage = local_poses stage q
            in Inr (stage, q))
         else Inl (TfErrorException (if IsValid st jp \<or> valid_prim_path jp then q else jp)))"
proof (cases "valid_prim_path ((defaultPrim st @ ''/Joints'') @ ''/'' @ sanitize_name n)")
  case True
  from True valid_joint_path_parent [OF True] show ?thesis
    by (simp add: create_fixed_joint_def joints_parent_None Define_def Let_def)
next
  case False
  then show ?thesis
    by (simp add: create_fixed_joint_def joints_parent_None Define_def Let_def)
qed

lemmas create_joint_None =
  create_revolute_joint_None create_prismatic_joint_None create_fixed_joint_None

lemma joint_path_eq:
  "joint_path st j = (defaultPrim st @ ''/Joints'') @ ''/'' @ sanitize_name (joint_name j)"
  by (simp add: joint_path_def)

lemma joint_path_neq_container: "joint_path st j \<noteq> defaultPrim st @ ''/Joints''"
  by (simp add: joint_path_def)

lemma create_joint_dangling:
  "\<not> resolved pp j \<Longrightarrow>
   create_joint pp j st = Inr (st, [''Joint '' @ joint_name j @ '': parent or child not found''])"
  by (auto simp: create_joint_def resolved_def split: option.splits)

lemma create_joint_isl:
  "resolved pp j \<Longrightarrow> isl (create_joint pp j st) \<longleftrightarrow> \<not> valid_prim_path (joint_path st j)"
  by (cases "joint_type j")
    (auto simp: create_joint_def resolved_def create_joint_None joint_path_eq Let_def)

lemma create_joint_warnings:
  "create_joint pp j st = Inr (st', w) \<Longrightarrow>
   w = (if resolved pp j then []
        else [''Joint '' @ joint_name j @ '': parent or child not found''])"
  by (cases "joint_type j")
    (auto simp: create_joint_def resolved_def split: option.splits sum.splits)

lemma create_joint_defaultPrim:
  "create_joint pp j st = Inr (st', w) \<Longrightarrow> defaultPrim st' = defaultPrim st"
  by (cases "joint_type j")
    (auto simp: create_joint_def create_joint_None Let_def
      split: option.splits sum.splits if_splits)

lemma apis_create_joint:
  "create_joint pp j st = Inr (st', w) \<Longrightarrow> a \<notin> drive_apis \<Longrightarrow>
   a \<in> apis st' p \<longleftrightarrow> a \<in> apis st p"
  by (cases "joint_type j")
    (auto simp: create_joint_def create_joint_None Let_def apis_apply_joint_drive
      apis_local_poses apis_set_limits split: option.splits sum.splits if_splits)

lemma attr_create_joint:
  "create_joint pp j st = Inr (st', w) \<Longrightarrow> n \<in> body_attrs \<Longrightarrow> attr st' p n = attr st p n"
  by (cases "joint_type j")
    (auto simp: create_joint_def create_joint_None Let_def attr_apply_joint_drive
      attr_local_poses attr_set_limits attr_CreateAttr_other body_attrs_neq
      simp del: attr_ops(2) split: option.splits sum.splits if_splits)

lemma IsValid_create_joint:
  "create_joint pp j st = Inr (st', w) \<Longrightarrow>
   IsValid st' p \<longleftrightarrow>
     IsValid st p \<or> (resolved pp j \<and> (p = joint_path st j \<or> p = defaultPrim st @ ''/Joints''))"
  by (cases "joint_type j")
    (auto simp: create_joint_def create_joint_None Let_def joint_path_eq resolved_def
      split: option.splits sum.splits if_splits)

lemma IsA_create_joint:
  "create_joint pp j st = Inr (st', w) \<Longrightarrow>
   IsA st' p t \<longleftrightarrow>
     (if resolved pp j \<and> p = joint_path st j then t = joint_type_name (joint_type j)
      else if resolved pp j \<and> p = defaultPrim st @ ''/Joints''
              \<and> \<not> IsValid st (defaultPrim st @ ''/Joints'')
      then t = ''Xform''
      else IsA st p t)"
  by (cases "joint_type j")
    (auto simp: create_joint_def create_joint_None Let_def joint_path_eq resolved_def
      joint_type_name_def split: option.splits sum.splits if_splits)

lemma axis_create_joint:
  "create_joint pp j st = Inr (st', w) \<Longrightarrow> resolved pp j \<Longrightarrow>
   attr st' (joint_path st j) ''physics:axis'' =
     (if joint_type j = Fixed then attr st (joint_path st j) ''physics:axis''
      else Some (VToken (axis_to_token (axis j))))"
  by (cases "joint_type j")
    (auto simp: create_joint_def create_joint_None Let_def joint_path_eq resolved_def
      axis_apply_joint_drive axis_local_poses axis_set_limits
      split: option.splits sum.splits if_splits)

subsection \<open>What root marking and part annotation leave alone\<close>

lemma apis_apply_articulation_root:
  "apply_articulation_root st q = Inr st' \<Longrightarrow>
   apis st' p = (if p = q then insert ''PhysicsArticulationRootAPI'' (apis st p) else apis st p)"
  by (auto simp: apply_articulation_root_def split: if_splits)

lemma apis_apply_rigid_body:
  "apply_rigid_body self st q k m d c = Inr st' \<Longrightarrow> a \<notin> body_apis \<Longrightarrow>
   a \<in> apis st' p \<longleftrightarrow> a \<in> apis st p"
  by (auto simp: apply_rigid_body_def Let_def body_apis_def split: if_splits option.splits)

lemma apis_apply_collision:
  "apply_collision st q ct = Inr st' \<Longrightarrow> a \<notin> body_apis \<Longrightarrow>
   a \<in> apis st' p \<longleftrightarrow> a \<in> apis st p"
  by (auto simp: apply_collision_def Let_def body_apis_def split: if_splits)

lemma apis_annotate_part:
  "annotate_part self pp part st = Inr (st', w) \<Longrightarrow> a \<notin> body_apis \<Longrightarrow>
   a \<in> apis st' p \<longleftrightarrow> a \<in> apis st p"
  by (auto simp: annotate_part_def Let_def apis_apply_rigid_body apis_apply_collision
      split: option.splits sum.splits if_splits)

lemma apis_annotate_parts:
  "annotate_parts self pp ps st = Inr (st', w) \<Longrightarrow> a \<notin> body_apis \<Longrightarrow>
   a \<in> apis st' p \<longleftrightarrow> a \<in> apis st p"
proof (induction ps arbitrary: st st' w)
  case Nil
  then show ?case by simp
next
  case (Cons part ps)
  from Cons.prems(1) obtain st1 w1 w2 where
    1: "annotate_part self pp part st = Inr (st1, w1)" and
    2: "annotate_parts self pp ps st1 = Inr (st', w2)"
    by (auto split: sum.splits prod.splits)
  from apis_annotate_part [OF 1 Cons.prems(2)] Cons.IH [OF 2 Cons.prems(2)]
  show ?case by simp
qed

lemma find_base_part_None:
  "find_base_part ps = None \<longleftrightarrow> (\<forall>q \<in> set ps. part_type q \<noteq> ''base'')"
  by (induction ps) auto

lemma find_base_part_Some:
  "find_base_part ps = Some b \<Longrightarrow>
   \<exists>pre post. ps = pre @ b # post \<and> part_type b = ''base''
      \<and> (\<forall>q \<in> set pre. part_type q \<noteq> ''base'')"
proof (induction ps)
  case Nil
  then show ?case by simp
next
  case (Cons q ps)
  show ?case
  proof (cases "part_type q = ''base''")
    case True
    with Cons.prems have "q = b" by simp
    with True have "q # ps = [] @ b # ps \<and> part_type b = ''base''
        \<and> (\<forall>q \<in> set []. part_type q \<noteq> ''base'')" by simp
    then show ?thesis by blast
  next
    case False
    with Cons.prems have "find_base_part ps = Some b" by simp
    from Cons.IH [OF this] obtain pre post where
      "ps = pre @ b # post" "part_type b = ''base''" "\<forall>q \<in> set pre. part_type q \<noteq> ''base''"
      by blast
    with False have "q # ps = (q # pre) @ b # post \<and> part_type b = ''base''
        \<and> (\<forall>x \<in> set (q # pre). part_type x \<noteq> ''base'')" by simp
    then show ?thesis by blast
  qed
qed

lemma apis_mark_root:
  "mark_root st ps pp = Inr st' \<Longrightarrow>
   ''PhysicsArticulationRootAPI'' \<in> apis st' p \<longleftrightarrow>
     ((case find_base_part ps of
         None \<Rightarrow> (if pp = [] then None else Some (snd (hd pp)))
       | Some b \<Rightarrow>
           (case map_of pp (part_id b) of
              Some path \<Rightarrow> Some path
            | None \<Rightarrow> (if pp = [] then None else Some (snd (hd pp))))) = Some p
      \<or> ''PhysicsArticulationRootAPI'' \<in> apis st p)"
  by (auto simp: mark_root_def apis_apply_articulation_root split: option.splits if_splits)

lemma inject_physics_Inr:
  "inject_physics self st art pp = Inr (st', w) \<Longrightarrow>
   \<exists>st1 st2 w1 w2. mark_root st (parts art) pp = Inr st1
     \<and> annotate_parts self pp (parts art) st1 = Inr (st2, w1)
     \<and> create_joints pp (joints art) st2 = Inr (st', w2) \<and> w = w1 @ w2"
  by (auto simp: inject_physics_def Let_def split: sum.splits prod.splits)

subsection \<open>Rigid body and collision on one node\<close>

lemma apply_rigid_body_Inr:
  "apply_rigid_body self st q k m d c = Inr st' \<Longrightarrow> IsValid st q"
  by (auto simp: apply_rigid_body_def split: if_splits)

lemma apply_rigid_body_valid:
  "IsValid st q \<Longrightarrow> \<exists>st'. apply_rigid_body self st q k m d c = Inr st'"
  by (simp add: apply_rigid_body_def Let_def)

lemma IsValid_apply_rigid_body:
  "apply_rigid_body self st q k m d c = Inr st' \<Longrightarrow> IsValid st' p = IsValid st p"
  by (auto simp: apply_rigid_body_def Let_def split: if_splits option.splits)

lemma IsA_apply_rigid_body:
  "apply_rigid_body self st q k m d c = Inr st' \<Longrightarrow> IsA st' p t = IsA st p t"
  by (auto simp: apply_rigid_body_def Let_def split: if_splits option.splits)

lemma apis_apply_rigid_body_eq:
  "apply_rigid_body self st q k m d c = Inr st' \<Longrightarrow>
   apis st' p = (if p = q then {''PhysicsRigidBodyAPI'', ''PhysicsMassAPI''} \<union> apis st p
                 else apis st p)"
  by (auto simp: apply_rigid_body_def Let_def split: if_splits option.splits)

lemma attr_apply_rigid_body_other:
  "apply_rigid_body self st q k m d c = Inr st' \<Longrightarrow>
   n \<notin> {''physics:kinematicEnabled'', ''physics:mass'', ''physics:density'',
          ''physics:centerOfMass''} \<Longrightarrow>
   attr st' p n = attr st p n"
  by (auto simp: apply_rigid_body_def Let_def split: if_splits option.splits)

lemma attr_apply_rigid_body_mass:
  "apply_rigid_body self st q k m d c = Inr st' \<Longrightarrow>
   attr st' q ''physics:mass'' =
     (case m of Some v \<Rightarrow> Some (VFloat v) | None \<Rightarrow> attr st q ''physics:mass'')"
  by (auto simp: apply_rigid_body_def Let_def split: if_splits option.splits)

lemma attr_apply_rigid_body_density:
  "apply_rigid_body self st q k m d c = Inr st' \<Longrightarrow>
   attr st' q ''physics:density'' =
     (case m of
        Some v \<Rightarrow> attr st q ''physics:density''
      | None \<Rightarrow> Some (VFloat (case d of None \<Rightarrow> default_density self
                    | Some dv \<Rightarrow> if dv = 0 then default_density self else dv)))"
  by (auto simp: apply_rigid_body_def Let_def split: if_splits option.splits)

lemma apis_apply_collision_eq:
  "apply_collision st q ct = Inr st' \<Longrightarrow>
   apis st' p =
     (if p = q
      then (if IsA st q ''Mesh'' then {''PhysicsCollisionAPI'', ''PhysicsMeshCollisionAPI''}
            else {''PhysicsCollisionAPI''}) \<union> apis st p
      else apis st p)"
  by (auto simp: apply_collision_def Let_def split: if_splits)

lemma attr_apply_collision_other:
  "apply_collision st q ct = Inr st' \<Longrightarrow> p \<noteq> q \<or> n \<noteq> ''physics:approximation'' \<Longrightarrow>
   attr st' p n = attr st p n"
  by (auto simp: apply_collision_def Let_def split: if_splits)

lemma attr_apply_collision_approximation:
  "apply_collision st q ct = Inr st' \<Longrightarrow> IsA st q ''Mesh'' \<Longrightarrow>
   attr st' q ''physics:approximation'' =
     Some (VToken (if ct = ''convexHull'' then ''convexHull''
                   else if ct = ''convexDecomposition'' then ''convexDecomposition''
                   else ''none''))"
  by (auto simp: apply_collision_def Let_def split: if_splits)

lemma apply_collision_valid:
  "IsValid st q \<Longrightarrow> \<exists>st'. apply_collision st q ct = Inr st'"
  by (simp add: apply_collision_def Let_def)

lemma mesh_path_neq: "prim_path @ ''/mesh'' \<noteq> prim_path"
  by simp

subsection \<open>The phases of injection\<close>

lemma attr_mark_root: "mark_root st ps pp = Inr st' \<Longrightarrow> attr st' p n = attr st p n"
  by (auto simp: mark_root_def apply_articulation_root_def split: option.splits if_splits)

lemma mark_root_frame:
  assumes "mark_root st ps pp = Inr st'"
  shows "defaultPrim st' = defaultPrim st" "IsValid st' p = IsValid st p"
    "IsA st' p t = IsA st p t"
  using assms
  by (auto simp: mark_root_def apply_articulation_root_def split: option.splits if_splits)

lemma mark_root_empty:
  "mark_root st [] pp =
     (if pp = [] then Inr st
      else if IsValid st (snd (hd pp))
      then Inr (Apply st (snd (hd pp)) ''PhysicsArticulationRootAPI'')
      else Inl (ValueError (''Prim not found: '' @ snd (hd pp))))"
  by (simp add: mark_root_def apply_articulation_root_def)

lemma apply_rigid_body_frame:
  assumes "apply_rigid_body self st q k m d c = Inr st'"
  shows "defaultPrim st' = defaultPrim st"
  using assms
  by (auto simp: apply_rigid_body_def Let_def split: if_splits option.splits)

lemma apply_collision_frame:
  assumes "apply_collision st q ct = Inr st'"
  shows "defaultPrim st' = defaultPrim st" "IsValid st' p = IsValid st p"
    "IsA st' p t = IsA st p t"
  using assms
  by (auto simp: apply_collision_def Let_def split: if_splits)

lemma annotate_part_frame:
  assumes "annotate_part self pp part st = Inr (st', w)"
  shows "defaultPrim st' = defaultPrim st" "IsValid st' p = IsValid st p"
    "IsA st' p t = IsA st p t"
proof -
  from assms have "st' = st \<or> (\<exists>q st1. apply_rigid_body self st q (part_type part = ''base'')
        (mass part) (density part) (center_of_mass part) = Inr st1
      \<and> (st' = st1 \<or> apply_collision st1 (q @ ''/mesh'') (collision_type part) = Inr st'))"
    by (auto simp: annotate_part_def Let_def split: option.splits sum.splits if_splits)
  then show "defaultPrim st' = defaultPrim st" "IsValid st' p = IsValid st p"
    "IsA st' p t = IsA st p t"
    by (auto simp: apply_rigid_body_frame IsValid_apply_rigid_body IsA_apply_rigid_body
        apply_collision_frame)
qed

lemma annotate_parts_frame:
  assumes "annotate_parts self pp ps st = Inr (st', w)"
  shows "defaultPrim st' = defaultPrim st \<and> IsValid st' p = IsValid st p
    \<and> IsA st' p t = IsA st p t"
  using assms
proof (induction ps arbitrary: st st' w)
  case Nil
  then show ?case by simp
next
  case (Cons part ps)
  from Cons.prems obtain st1 w1 w2 where
    1: "annotate_part self pp part st = Inr (st1, w1)" and
    2: "annotate_parts self pp ps st1 = Inr (st', w2)"
    by (auto split: sum.splits prod.splits)
  from annotate_part_frame(1) [OF 1] annotate_part_frame(2) [OF 1, of p]
    annotate_part_frame(3) [OF 1, of p t] Cons.IH [OF 2]
  show ?case by simp
qed

lemma annotate_part_body:
  assumes "annotate_part self pp part st = Inr (st', w)"
    and "map_of pp (part_id part) = Some path"
  shows "''PhysicsRigidBodyAPI'' \<in> apis st' path \<and> ''PhysicsMassAPI'' \<in> apis st' path"
proof -
  from assms obtain st1 where
    1: "apply_rigid_body self st path (part_type part = ''base'') (mass part)
          (density part) (center_of_mass part) = Inr st1" and
    2: "st' = st1 \<or> apply_collision st1 (path @ ''/mesh'') (collision_type part) = Inr st'"
    by (auto simp: annotate_part_def Let_def split: sum.splits if_splits)
  from apis_apply_rigid_body_eq [OF 1, of path]
  have "''PhysicsRigidBodyAPI'' \<in> apis st1 path \<and> ''PhysicsMassAPI'' \<in> apis st1 path"
    by simp
  with 2 apis_apply_collision_eq [of st1 "path @ ''/mesh''" "collision_type part" st' path]
  show ?thesis by auto
qed

lemma apis_annotate_part_mono:
  assumes "annotate_part self pp part st = Inr (st', w)" and "a \<in> apis st p"
  shows "a \<in> apis st' p"
proof -
  from assms(1) have "st' = st \<or> (\<exists>q st1. apply_rigid_body self st q (part_type part = ''base'')
        (mass part) (density part) (center_of_mass part) = Inr st1
      \<and> (st' = st1 \<or> apply_collision st1 (q @ ''/mesh'') (collision_type part) = Inr st'))"
    by (auto simp: annotate_part_def Let_def split: option.splits sum.splits if_splits)
  with assms(2) show ?thesis
    by (auto simp: apis_apply_rigid_body_eq apis_apply_collision_eq)
qed

lemma apis_annotate_parts_mono:
  "annotate_parts self pp ps st = Inr (st', w) \<Longrightarrow> a \<in> apis st p \<Longrightarrow> a \<in> apis st' p"
proof (induction ps arbitrary: st st' w)
  case Nil
  then show ?case by simp
next
  case (Cons part ps)
  from Cons.prems(1) obtain st1 w1 w2 where
    1: "annotate_part self pp part st = Inr (st1, w1)" and
    2: "annotate_parts self pp ps st1 = Inr (st', w2)"
    by (auto split: sum.splits prod.splits)
  from apis_annotate_part_mono [OF 1 Cons.prems(2)] Cons.IH [OF 2] show ?case by simp
qed

lemma annotate_parts_body:
  "annotate_parts self pp ps st = Inr (st', w) \<Longrightarrow> part \<in> set ps \<Longrightarrow>
   map_of pp (part_id part) = Some path \<Longrightarrow>
   ''PhysicsRigidBodyAPI'' \<in> apis st' path \<and> ''PhysicsMassAPI'' \<in> apis st' path"
proof (induction ps arbitrary: st st' w)
  case Nil
  then show ?case by simp
next
  case (Cons q ps)
  from Cons.prems(1) obtain st1 w1 w2 where
    1: "annotate_part self pp q st = Inr (st1, w1)" and
    2: "annotate_parts self pp ps st1 = Inr (st', w2)"
    by (auto split: sum.splits prod.splits)
  show ?case
  proof (cases "part = q")
    case True
    with annotate_part_body [OF 1] Cons.prems(3)
    have "''PhysicsRigidBodyAPI'' \<in> apis st1 path \<and> ''PhysicsMassAPI'' \<in> apis st1 path"
      by simp
    with apis_annotate_parts_mono [OF 2] show ?thesis by blast
  next
    case False
    with Cons.prems(2) have "part \<in> set ps" by simp
    from Cons.IH [OF 2 this Cons.prems(3)] show ?thesis .
  qed
qed

subsection \<open>The loop over the joints\<close>

lemma create_joints_Cons_Inr:
  "create_joints pp (j # js) st = Inr (st', w) \<longleftrightarrow>
     (\<exists>st1 w1 w2. create_joint pp j st = Inr (st1, w1)
        \<and> create_joints pp js st1 = Inr (st', w2) \<and> w = w1 @ w2)"
  by (auto split: sum.splits prod.splits)

lemma joint_path_cong: "defaultPrim st' = defaultPrim st \<Longrightarrow> joint_path st' j = joint_path st j"
  by (simp add: joint_path_def)

lemma create_joints_defaultPrim:
  "create_joints pp js st = Inr (st', w) \<Longrightarrow> defaultPrim st' = defaultPrim st"
proof (induction js arbitrary: st st' w)
  case Nil
  then show ?case by simp
next
  case (Cons j js)
  from Cons.prems obtain st1 w1 w2 where
    1: "create_joint pp j st = Inr (st1, w1)" and 2: "create_joints pp js st1 = Inr (st', w2)"
    unfolding create_joints_Cons_Inr by blast
  from create_joint_defaultPrim [OF 1] Cons.IH [OF 2] show ?case by simp
qed

lemma apis_create_joints:
  "create_joints pp js st = Inr (st', w) \<Longrightarrow> a \<notin> drive_apis \<Longrightarrow>
   a \<in> apis st' p \<longleftrightarrow> a \<in> apis st p"
proof (induction js arbitrary: st st' w)
  case Nil
  then show ?case by simp
next
  case (Cons j js)
  from Cons.prems(1) obtain st1 w1 w2 where
    1: "create_joint pp j st = Inr (st1, w1)" and 2: "create_joints pp js st1 = Inr (st', w2)"
    unfolding create_joints_Cons_Inr by blast
  from apis_create_joint [OF 1 Cons.prems(2)] Cons.IH [OF 2 Cons.prems(2)] show ?case by simp
qed

lemma attr_create_joints:
  "create_joints pp js st = Inr (st', w) \<Longrightarrow> n \<in> body_attrs \<Longrightarrow> attr st' p n = attr st p n"
proof (induction js arbitrary: st st' w)
  case Nil
  then show ?case by simp
next
  case (Cons j js)
  from Cons.prems(1) obtain st1 w1 w2 where
    1: "create_joint pp j st = Inr (st1, w1)" and 2: "create_joints pp js st1 = Inr (st', w2)"
    unfolding create_joints_Cons_Inr by blast
  from attr_create_joint [OF 1 Cons.prems(2)] Cons.IH [OF 2 Cons.prems(2)] show ?case by simp
qed

lemma is_joint_node_create_joint:
  assumes "create_joint pp j st = Inr (st', w)"
  shows "is_joint_node st' p \<longleftrightarrow> is_joint_node st p \<or> (resolved pp j \<and> p = joint_path st j)"
proof -
  have c: "\<not> IsValid st q \<Longrightarrow> \<not> IsA st q t" for q t
    using IsA_IsValid by blast
  show ?thesis
    unfolding is_joint_node_def IsA_create_joint [OF assms]
    using c [of "defaultPrim st @ ''/Joints''"]
    by (cases "joint_type j") (auto simp: joint_type_name_def)
qed

lemma is_joint_node_create_joints:
  "create_joints pp js st = Inr (st', w) \<Longrightarrow>
   is_joint_node st' p \<longleftrightarrow>
     is_joint_node st p \<or> (\<exists>j \<in> set js. resolved pp j \<and> p = joint_path st j)"
proof (induction js arbitrary: st st' w)
  case Nil
  then show ?case by simp
next
  case (Cons j js)
  from Cons.prems obtain st1 w1 w2 where
    1: "create_joint pp j st = Inr (st1, w1)" and 2: "create_joints pp js st1 = Inr (st', w2)"
    unfolding create_joints_Cons_Inr by blast
  have jp: "joint_path st1 k = joint_path st k" for k
    by (rule joint_path_cong) (rule create_joint_defaultPrim [OF 1])
  from is_joint_node_create_joint [OF 1, of p] Cons.IH [OF 2] show ?case
    unfolding jp by auto
qed

lemma create_joints_warnings:
  "create_joints pp js st = Inr (st', w) \<Longrightarrow>
   w = map (\<lambda>j. ''Joint '' @ joint_name j @ '': parent or child not found'')
         (filter (\<lambda>j. \<not> resolved pp j) js)"
proof (induction js arbitrary: st st' w)
  case Nil
  then show ?case by simp
next
  case (Cons j js)
  from Cons.prems obtain st1 w1 w2 where
    1: "create_joint pp j st = Inr (st1, w1)" and 2: "create_joints pp js st1 = Inr (st', w2)"
    and w: "w = w1 @ w2"
    unfolding create_joints_Cons_Inr by blast
  from create_joint_warnings [OF 1] Cons.IH [OF 2] w show ?case by simp
qed

lemma create_joints_isl:
  "isl (create_joints pp js st) \<longleftrightarrow>
     (\<exists>j \<in> set js. resolved pp j \<and> \<not> valid_prim_path (joint_path st j))"
proof (induction js arbitrary: st)
  case Nil
  then show ?case by simp
next
  case (Cons j js)
  show ?case
  proof (cases "create_joint pp j st")
    case (Inl e)
    then have "isl (create_joint pp j st)" by simp
    with create_joint_dangling [of pp j st] create_joint_isl [of pp j st]
    have "resolved pp j \<and> \<not> valid_prim_path (joint_path st j)" by (cases "resolved pp j") auto
    with Inl show ?thesis by simp
  next
    case (Inr r)
    obtain st1 w1 where r: "r = (st1, w1)" by (cases r)
    from Inr r have 1: "create_joint pp j st = Inr (st1, w1)" by simp
    have jp: "joint_path st1 k = joint_path st k" for k
      by (rule joint_path_cong) (rule create_joint_defaultPrim [OF 1])
    from 1 create_joint_isl [of pp j st]
    have ok: "resolved pp j \<longrightarrow> valid_prim_path (joint_path st j)" by auto
    have "isl (create_joints pp (j # js) st) \<longleftrightarrow> isl (create_joints pp js st1)"
      using 1 by (auto split: sum.splits)
    with Cons.IH [of st1] ok show ?thesis unfolding jp by auto
  qed
qed

lemma create_joints_no_paths:
  "create_joints [] js st =
     Inr (st, map (\<lambda>j. ''Joint '' @ joint_name j @ '': parent or child not found'') js)"
  by (induction js) (simp_all add: create_joint_def)

lemma map_sum_fst_case:
  "map_sum id fst (case x of Inl e \<Rightarrow> Inl e | Inr (st, ws) \<Rightarrow> Inr (st, f ws)) = map_sum id fst x"
  by (cases x) auto

lemma create_joints_drop:
  assumes "\<not> resolved pp j"
  shows "map_sum id fst (create_joints pp (js1 @ j # js2) s)
       = map_sum id fst (create_joints pp (js1 @ js2) s)"
proof (induction js1 arbitrary: s)
  case Nil
  show ?case
    by (cases "create_joints pp js2 s") (auto simp: create_joint_dangling [OF assms])
next
  case (Cons k js1)
  show ?case
  proof (cases "create_joint pp k s")
    case (Inl e)
    then show ?thesis by simp
  next
    case (Inr r)
    obtain s1 w1 where "r = (s1, w1)" by (cases r)
    with Inr Cons.IH [of s1] show ?thesis
      by (cases "create_joints pp (js1 @ j # js2) s1"; cases "create_joints pp (js1 @ js2) s1")
        auto
  qed
qed

lemma inject_physics_stage:
  "map_sum id fst (inject_physics self st art pp) =
     (case mark_root st (parts art) pp of
        Inl e \<Rightarrow> Inl e
      | Inr st1 \<Rightarrow>
          (case annotate_parts self pp (parts art) st1 of
             Inl e \<Rightarrow> Inl e
           | Inr r \<Rightarrow> map_sum id fst (create_joints pp (joints art) (fst r))))"
  by (auto simp: inject_physics_def split: sum.splits)

lemma inject_physics_stage_cong:
  assumes "\<And>s. map_sum id fst (create_joints pp js s) = map_sum id fst (create_joints pp js' s)"
  shows "map_sum id fst (inject_physics self st \<lparr>model_name = n, parts = ps, joints = js\<rparr> pp)
       = map_sum id fst (inject_physics self st \<lparr>model_name = n, parts = ps, joints = js'\<rparr> pp)"
  unfolding inject_physics_stage ArticulationData.simps assms ..

lemma not_isl_result: "\<not> isl r \<Longrightarrow> \<exists>st w. r = Inr (st, w)"
  by (cases r) auto

subsection \<open>Empty part list\<close>

text \<open>
  Claim C1, amended. With an empty part list \<open>inject_physics\<close> adds no rigid-body,
  mass or collision annotation: no node gains or loses one of the four body schemas, and
  none of the body attributes changes. The rest is not skipped. The root marking goes to
  the first entry of the part-path map, and nowhere when the map is empty. Every joint
  whose two parts resolve gets its node \<open>root/Joints/name\<close>, and no other joint node
  appears; every other joint is dropped with its warning. The call returns when the first
  path of the map is a node of the stage (or the map is empty), the paths of the map are
  prim paths and the node path of every resolved joint is a prim path. It raises
  \<open>ValueError\<close> when the first path of the map is no node of the stage, and it raises when
  the node path of a resolved joint is no prim path. With an empty part-path map the
  document is returned as it was, with no error.
\<close>

theorem empty_parts:
  "(\<forall>st' w. inject_physics self st \<lparr>model_name = n, parts = [], joints = js\<rparr> pp = Inr (st', w) \<longrightarrow>
        (\<forall>p. \<forall>a \<in> body_apis. a \<in> apis st' p \<longleftrightarrow> a \<in> apis st p)
        \<and> (\<forall>p. \<forall>k \<in> body_attrs. attr st' p k = attr st p k)
        \<and> (\<forall>p. ''PhysicsArticulationRootAPI'' \<in> apis st' p \<longleftrightarrow>
              (pp \<noteq> [] \<and> p = snd (hd pp)) \<or> ''PhysicsArticulationRootAPI'' \<in> apis st p)
        \<and> (\<forall>p. is_joint_node st' p \<longleftrightarrow>
              is_joint_node st p \<or> (\<exists>j \<in> set js. resolved pp j \<and> p = joint_path st j))
        \<and> w = map (\<lambda>j. ''Joint '' @ joint_name j @ '': parent or child not found'')
                 (filter (\<lambda>j. \<not> resolved pp j) js))
   \<and> ((pp = [] \<or> IsValid st (snd (hd pp))) \<and> list_all valid_prim_path (map snd pp)
        \<and> (\<forall>j \<in> set js. resolved pp j \<longrightarrow> valid_prim_path (joint_path st j)) \<longrightarrow>
      (\<exists>st' w. inject_physics self st \<lparr>model_name = n, parts = [], joints = js\<rparr> pp
                  = Inr (st', w)))
   \<and> (pp \<noteq> [] \<and> \<not> IsValid st (snd (hd pp)) \<longrightarrow>
        inject_physics self st \<lparr>model_name = n, parts = [], joints = js\<rparr> pp
          = Inl (ValueError (''Prim not found: '' @ snd (hd pp))))
   \<and> ((\<exists>j \<in> set js. resolved pp j \<and> \<not> valid_prim_path (joint_path st j)) \<longrightarrow>
        isl (inject_physics self st \<lparr>model_name = n, parts = [], joints = js\<rparr> pp))
   \<and> inject_physics self st \<lparr>model_name = n, parts = [], joints = js\<rparr> []
        = Inr (st, map (\<lambda>j. ''Joint '' @ joint_name j @ '': parent or child not found'') js)"
proof (intro conjI impI allI)
  let ?r = "inject_physics self st \<lparr>model_name = n, parts = [], joints = js\<rparr> pp"
  show "inject_physics self st \<lparr>model_name = n, parts = [], joints = js\<rparr> []
        = Inr (st, map (\<lambda>j. ''Joint '' @ joint_name j @ '': parent or child not found'') js)"
    by (simp add: inject_physics_def mark_root_def create_joints_no_paths)
  show "?r = Inl (ValueError (''Prim not found: '' @ snd (hd pp)))"
    if "pp \<noteq> [] \<and> \<not> IsValid st (snd (hd pp))"
    using that by (simp add: inject_physics_def mark_root_empty)
  have run: "?r = (case mark_root st [] pp of Inl e \<Rightarrow> Inl e
      | Inr st1 \<Rightarrow> (case create_joints pp js st1 of Inl e \<Rightarrow> Inl e
                     | Inr (st2, ws) \<Rightarrow> Inr (st2, ws)))"
    by (simp add: inject_physics_def split: sum.splits)
  show "isl ?r" if h: "\<exists>j \<in> set js. resolved pp j \<and> \<not> valid_prim_path (joint_path st j)"
  proof (cases "mark_root st [] pp")
    case (Inl e)
    then show ?thesis unfolding run by simp
  next
    case (Inr st1)
    have jp: "joint_path st1 k = joint_path st k" for k
      by (rule joint_path_cong) (rule mark_root_frame(1) [OF Inr])
    from h have "isl (create_joints pp js st1)"
      unfolding create_joints_isl jp .
    with Inr show ?thesis unfolding run by (auto split: sum.splits)
  qed
  show "\<exists>st' w. ?r = Inr (st', w)"
    if h: "(pp = [] \<or> IsValid st (snd (hd pp))) \<and> list_all valid_prim_path (map snd pp)
        \<and> (\<forall>j \<in> set js. resolved pp j \<longrightarrow> valid_prim_path (joint_path st j))"
  proof -
    from h have "\<exists>st1. mark_root st [] pp = Inr st1"
      by (cases "pp = []") (simp_all add: mark_root_empty)
    then obtain st1 where 1: "mark_root st [] pp = Inr st1" ..
    have jp: "joint_path st1 k = joint_path st k" for k
      by (rule joint_path_cong) (rule mark_root_frame(1) [OF 1])
    from h have "\<not> isl (create_joints pp js st1)"
      unfolding create_joints_isl jp by blast
    then obtain st2 ws where "create_joints pp js st1 = Inr (st2, ws)"
      using not_isl_result by blast
    with 1 show ?thesis unfolding run by simp
  qed
  fix st' w
  assume r: "?r = Inr (st', w)"
  from inject_physics_Inr [OF r] obtain st1 where
    1: "mark_root st [] pp = Inr st1" and 3: "create_joints pp js st1 = Inr (st', w)"
    by auto
  have jp: "joint_path st1 k = joint_path st k" for k
    by (rule joint_path_cong) (rule mark_root_frame(1) [OF 1])
  have rt: "''PhysicsArticulationRootAPI'' \<notin> drive_apis"
    by (simp add: drive_apis_def)
  show "w = map (\<lambda>j. ''Joint '' @ joint_name j @ '': parent or child not found'')
                 (filter (\<lambda>j. \<not> resolved pp j) js)"
    by (rule create_joints_warnings [OF 3])
  show "\<forall>a \<in> body_apis. a \<in> apis st' p \<longleftrightarrow> a \<in> apis st p" for p
  proof
    fix a assume a: "a \<in> body_apis"
    then have na: "a \<notin> drive_apis" "a \<noteq> ''PhysicsArticulationRootAPI''"
      by (auto simp: body_apis_def drive_apis_def)
    have "a \<in> apis st' p \<longleftrightarrow> a \<in> apis st1 p"
      by (rule apis_create_joints [OF 3 na(1)])
    also have "\<dots> \<longleftrightarrow> a \<in> apis st p"
      using 1 na(2)
      by (auto simp: mark_root_def apis_apply_articulation_root split: if_splits)
    finally show "a \<in> apis st' p \<longleftrightarrow> a \<in> apis st p" .
  qed
  show "\<forall>k \<in> body_attrs. attr st' p k = attr st p k" for p
  proof
    fix k assume k: "k \<in> body_attrs"
    have "attr st' p k = attr st1 p k" by (rule attr_create_joints [OF 3 k])
    also have "\<dots> = attr st p k" by (rule attr_mark_root [OF 1])
    finally show "attr st' p k = attr st p k" .
  qed
  show "''PhysicsArticulationRootAPI'' \<in> apis st' p \<longleftrightarrow>
      (pp \<noteq> [] \<and> p = snd (hd pp)) \<or> ''PhysicsArticulationRootAPI'' \<in> apis st p" for p
  proof -
    have "''PhysicsArticulationRootAPI'' \<in> apis st' p
        \<longleftrightarrow> ''PhysicsArticulationRootAPI'' \<in> apis st1 p"
      by (rule apis_create_joints [OF 3 rt])
    also have "\<dots> \<longleftrightarrow> (pp \<noteq> [] \<and> p = snd (hd pp))
        \<or> ''PhysicsArticulationRootAPI'' \<in> apis st p"
      using apis_mark_root [OF 1, of p] by auto
    finally show ?thesis .
  qed
  show "is_joint_node st' p \<longleftrightarrow>
      is_joint_node st p \<or> (\<exists>j \<in> set js. resolved pp j \<and> p = joint_path st j)" for p
    using is_joint_node_create_joints [OF 3, of p] mark_root_frame(3) [OF 1]
    unfolding jp by (simp add: is_joint_node_def)
qed

theorem empty_parts_witness:
  "\<exists>st' w.
     inject_physics physics_injector (fst (ex_doc [''a'', ''b'']))
       \<lparr>model_name = ''m'', parts = [],
        joints = [ex_joint ''j'' ''a'' ''b'' Fixed, ex_joint ''k'' ''a'' ''ghost'' Revolute]\<rparr>
       (snd (ex_doc [''a'', ''b''])) = Inr (st', w)
     \<and> ''PhysicsRigidBodyAPI'' \<notin> apis st' ''/m/a''
     \<and> attr st' ''/m/a'' ''physics:density'' = None
     \<and> ''PhysicsArticulationRootAPI'' \<in> apis st' ''/m/a''
     \<and> ''PhysicsArticulationRootAPI'' \<notin> apis st' ''/m/b''
     \<and> is_joint_node st' ''/m/Joints/j''
     \<and> \<not> is_joint_node st' ''/m/Joints/k''
     \<and> w = [''Joint k: parent or child not found'']"
proof -
  let ?js = "[ex_joint ''j'' ''a'' ''b'' Fixed, ex_joint ''k'' ''a'' ''ghost'' Revolute]"
  let ?d = "ex_doc [''a'', ''b'']"
  let ?r = "inject_physics physics_injector (fst ?d)
          \<lparr>model_name = ''m'', parts = [], joints = ?js\<rparr> (snd ?d)"
  note t = empty_parts [where self = physics_injector and st = "fst ?d" and n = "''m''"
      and js = ?js and pp = "snd ?d"]
  have h: "(snd ?d = [] \<or> IsValid (fst ?d) (snd (hd (snd ?d))))
      \<and> list_all valid_prim_path (map snd (snd ?d))
      \<and> (\<forall>j \<in> set ?js. resolved (snd ?d) j \<longrightarrow> valid_prim_path (joint_path (fst ?d) j))"
    by code_simp
  from t [THEN conjunct2, THEN conjunct1, THEN mp, OF h]
  obtain st' w where r: "?r = Inr (st', w)" by blast
  note c = t [THEN conjunct1, THEN spec, THEN spec, THEN mp, OF r]
  have m: "''PhysicsRigidBodyAPI'' \<in> body_apis" "''physics:density'' \<in> body_attrs"
    by (simp_all add: body_apis_def body_attrs_def)
  have 0: "''PhysicsRigidBodyAPI'' \<notin> apis (fst ?d) ''/m/a''"
    "attr (fst ?d) ''/m/a'' ''physics:density'' = None"
    "''PhysicsArticulationRootAPI'' \<notin> apis (fst ?d) ''/m/b''"
    "\<not> is_joint_node (fst ?d) ''/m/Joints/j''"
    "\<not> is_joint_node (fst ?d) ''/m/Joints/k''"
    by code_simp+
  have e: "snd ?d \<noteq> []" "snd (hd (snd ?d)) = ''/m/a''"
    "map (\<lambda>j. ''Joint '' @ joint_name j @ '': parent or child not found'')
       (filter (\<lambda>j. \<not> resolved (snd ?d) j) ?js) = [''Joint k: parent or child not found'']"
    by code_simp+
  have jn: "(\<exists>j \<in> set ?js. resolved (snd ?d) j \<and> p = joint_path (fst ?d) j)
      \<longleftrightarrow> p = ''/m/Joints/j''" for p
  proof -
    have "resolved (snd ?d) (ex_joint ''j'' ''a'' ''b'' Fixed)"
      "\<not> resolved (snd ?d) (ex_joint ''k'' ''a'' ''ghost'' Revolute)"
      "joint_path (fst ?d) (ex_joint ''j'' ''a'' ''b'' Fixed) = ''/m/Joints/j''"
      by code_simp+
    then show ?thesis by auto
  qed
  from c [THEN conjunct1, THEN spec, THEN bspec, OF m(1), of "''/m/a''"] 0
  have 1: "''PhysicsRigidBodyAPI'' \<notin> apis st' ''/m/a''" by simp
  from c [THEN conjunct2, THEN conjunct1, THEN spec, THEN bspec, OF m(2), of "''/m/a''"] 0
  have 2: "attr st' ''/m/a'' ''physics:density'' = None" by simp
  note c3 = c [THEN conjunct2, THEN conjunct2, THEN conjunct1]
  from c3 [THEN spec, of "''/m/a''"] e
  have 3: "''PhysicsArticulationRootAPI'' \<in> apis st' ''/m/a''" by simp
  from c3 [THEN spec, of "''/m/b''"] e 0
  have 4: "''PhysicsArticulationRootAPI'' \<notin> apis st' ''/m/b''" by simp
  note c4 = c [THEN conjunct2, THEN conjunct2, THEN conjunct2, THEN conjunct1]
  from c4 [THEN spec, of "''/m/Joints/j''"] jn [of "''/m/Joints/j''"]
  have 5: "is_joint_node st' ''/m/Joints/j''" by simp
  from c4 [THEN spec, of "''/m/Joints/k''"] jn [of "''/m/Joints/k''"] 0
  have 6: "\<not> is_joint_node st' ''/m/Joints/k''" by simp
  from c [THEN conjunct2, THEN conjunct2, THEN conjunct2, THEN conjunct2] e
  have 7: "w = [''Joint k: parent or child not found'']" by simp
  from r 1 2 3 4 5 6 7 show ?thesis by blast
qed

text \<open>
  The claim as stated fails. With no parts, two resolved paths and one fixed joint between
  them, the first entry of the part-path map is marked as articulation root and the joint
  node is created. With no parts and a part-path map whose first path is no node of the
  stage, \<open>ValueError\<close> is raised. With no parts and a resolved joint named by the
  superscript two, which the sanitizer keeps and which no prim name may contain, the
  definition of the joint node raises.
\<close>

theorem empty_parts_counterexample:
  "paths_with_api ''PhysicsArticulationRootAPI'' (fst (ex_doc [''a'', ''b''])) = []
   \<and> map_sum id (paths_with_api ''PhysicsArticulationRootAPI'' \<circ> fst)
        (inject_physics physics_injector (fst (ex_doc [''a'', ''b'']))
          \<lparr>model_name = ''m'', parts = [], joints = [ex_joint ''j'' ''a'' ''b'' Fixed]\<rparr>
          (snd (ex_doc [''a'', ''b''])))
     = Inr [''/m/a'']
   \<and> map_sum id (paths_of_type ''PhysicsFixedJoint'' \<circ> fst)
        (inject_physics physics_injector (fst (ex_doc [''a'', ''b'']))
          \<lparr>model_name = ''m'', parts = [], joints = [ex_joint ''j'' ''a'' ''b'' Fixed]\<rparr>
          (snd (ex_doc [''a'', ''b''])))
     = Inr [''/m/Joints/j'']
   \<and> inject_physics physics_injector (fst (ex_doc [''a'']))
        \<lparr>model_name = ''m'', parts = [], joints = []\<rparr> [(''x'', ''/m/x'')]
     = Inl (ValueError ''Prim not found: /m/x'')
   \<and> sanitize_name [CHR 0xB2] = [CHR ''_'', CHR 0xB2]
   \<and> inject_physics physics_injector (fst (ex_doc [''a'', ''b'']))
        \<lparr>model_name = ''m'', parts = [], joints = [ex_joint [CHR 0xB2] ''a'' ''b'' Fixed]\<rparr>
        (snd (ex_doc [''a'', ''b'']))
     = Inl (TfErrorException (''/m/Joints/_'' @ [CHR 0xB2]))"
  by code_simp

subsection \<open>Root selection\<close>

text \<open>
  Claim C2. \<open>_find_base_part\<close> returns the first part of type \<open>base\<close> in input
  order, and none exactly when no part has that type. The articulation-root marking goes
  to the path of that part when its id is a key of the part-path map. When there is no
  base part, or its id has no path, the marking goes to the first entry of the part-path
  map in insertion order, and nowhere when the map is empty: not to the node of the first
  part, as the claim and the comment in the code have it. In the returned document the
  marked nodes are that target and the nodes marked before.
\<close>

theorem root_selection:
  "(find_base_part ps = None \<longleftrightarrow> (\<forall>q \<in> set ps. part_type q \<noteq> ''base''))
   \<and> (\<forall>b. find_base_part ps = Some b \<longrightarrow>
         (\<exists>pre post. ps = pre @ b # post \<and> part_type b = ''base''
            \<and> (\<forall>q \<in> set pre. part_type q \<noteq> ''base'')))
   \<and> (inject_physics self st \<lparr>model_name = n, parts = ps, joints = js\<rparr> pp = Inr (st', w) \<longrightarrow>
         (\<forall>p. ''PhysicsArticulationRootAPI'' \<in> apis st' p \<longleftrightarrow>
           ((case find_base_part ps of
               None \<Rightarrow> (if pp = [] then None else Some (snd (hd pp)))
             | Some b \<Rightarrow>
                 (case map_of pp (part_id b) of
                    Some path \<Rightarrow> Some path
                  | None \<Rightarrow> (if pp = [] then None else Some (snd (hd pp))))) = Some p
            \<or> ''PhysicsArticulationRootAPI'' \<in> apis st p)))"
proof (intro conjI allI impI)
  show "find_base_part ps = None \<longleftrightarrow> (\<forall>q \<in> set ps. part_type q \<noteq> ''base'')"
    by (rule find_base_part_None)
next
  fix b assume "find_base_part ps = Some b"
  then show "\<exists>pre post. ps = pre @ b # post \<and> part_type b = ''base''
            \<and> (\<forall>q \<in> set pre. part_type q \<noteq> ''base'')"
    by (rule find_base_part_Some)
next
  fix p
  assume r: "inject_physics self st \<lparr>model_name = n, parts = ps, joints = js\<rparr> pp = Inr (st', w)"
  from inject_physics_Inr [OF r] obtain st1 st2 w1 w2 where
    1: "mark_root st ps pp = Inr st1" and
    2: "annotate_parts self pp ps st1 = Inr (st2, w1)" and
    3: "create_joints pp js st2 = Inr (st', w2)"
    by auto
  have a: "''PhysicsArticulationRootAPI'' \<notin> body_apis"
    "''PhysicsArticulationRootAPI'' \<notin> drive_apis"
    by (simp_all add: body_apis_def drive_apis_def)
  have "''PhysicsArticulationRootAPI'' \<in> apis st' p
      \<longleftrightarrow> ''PhysicsArticulationRootAPI'' \<in> apis st2 p"
    by (rule apis_create_joints [OF 3 a(2)])
  also have "\<dots> \<longleftrightarrow> ''PhysicsArticulationRootAPI'' \<in> apis st1 p"
    by (rule apis_annotate_parts [OF 2 a(1)])
  also note apis_mark_root [OF 1]
  finally show "''PhysicsArticulationRootAPI'' \<in> apis st' p \<longleftrightarrow>
           ((case find_base_part ps of
               None \<Rightarrow> (if pp = [] then None else Some (snd (hd pp)))
             | Some b \<Rightarrow>
                 (case map_of pp (part_id b) of
                    Some path \<Rightarrow> Some path
                  | None \<Rightarrow> (if pp = [] then None else Some (snd (hd pp))))) = Some p
            \<or> ''PhysicsArticulationRootAPI'' \<in> apis st p)"
    .
qed

theorem root_selection_witness:
  "\<exists>st' w.
     inject_physics physics_injector (fst (ex_doc [''a'', ''b'', ''c'']))
       \<lparr>model_name = ''m'',
        parts = [ex_part ''a'' ''link'', ex_part ''b'' ''base'', ex_part ''c'' ''link''],
        joints = []\<rparr>
       (snd (ex_doc [''a'', ''b'', ''c''])) = Inr (st', w)
     \<and> ''PhysicsArticulationRootAPI'' \<in> apis st' ''/m/b''
     \<and> ''PhysicsArticulationRootAPI'' \<notin> apis st' ''/m/a''"
proof -
  let ?ps = "[ex_part ''a'' ''link'', ex_part ''b'' ''base'', ex_part ''c'' ''link'']"
  let ?d = "ex_doc [''a'', ''b'', ''c'']"
  let ?r = "inject_physics physics_injector (fst ?d)
       \<lparr>model_name = ''m'', parts = ?ps, joints = []\<rparr> (snd ?d)"
  have "\<not> isl ?r" by code_simp
  then obtain st' w where r: "?r = Inr (st', w)"
    using not_isl_result by blast
  have t: "(case find_base_part ?ps of
               None \<Rightarrow> (if snd ?d = [] then None else Some (snd (hd (snd ?d))))
             | Some b \<Rightarrow>
                 (case map_of (snd ?d) (part_id b) of
                    Some path \<Rightarrow> Some path
                  | None \<Rightarrow> (if snd ?d = [] then None else Some (snd (hd (snd ?d))))))
           = Some ''/m/b''"
    by code_simp
  have 0: "''PhysicsArticulationRootAPI'' \<notin> apis (fst ?d) ''/m/a''"
    by code_simp
  from root_selection [where self = physics_injector and st = "fst ?d" and n = "''m''"
      and ps = ?ps and js = "[]" and pp = "snd ?d" and st' = st' and w = w] r
  have "\<forall>p. ''PhysicsArticulationRootAPI'' \<in> apis st' p \<longleftrightarrow>
           (Some ''/m/b'' = Some p \<or> ''PhysicsArticulationRootAPI'' \<in> apis (fst ?d) p)"
    unfolding t by blast
  with 0 have "''PhysicsArticulationRootAPI'' \<in> apis st' ''/m/b''
     \<and> ''PhysicsArticulationRootAPI'' \<notin> apis st' ''/m/a''"
    by simp
  with r show ?thesis by blast
qed

text \<open>
  The code departs from the claim, and from its own comment \<open>Apply to first part if no
  base defined\<close>, when no part is a base. With the meshes a and b and the one part b, a
  link, the node marked is \<open>/m/a\<close>, the first entry of the part-path map: a node that is
  no part of the articulation and carries no rigid body, while the node of the first part,
  \<open>/m/b\<close>, is left unmarked. With the meshes in the order b, a and the link parts in the
  order a, b the node marked is \<open>/m/b\<close>, not the node \<open>/m/a\<close> of the first part.
\<close>

theorem root_selection_counterexample:
  "map_of (snd (ex_doc [''a'', ''b''])) ''b'' = Some ''/m/b''
   \<and> map_sum id (paths_with_api ''PhysicsArticulationRootAPI'' \<circ> fst)
        (inject_physics physics_injector (fst (ex_doc [''a'', ''b'']))
          \<lparr>model_name = ''m'', parts = [ex_part ''b'' ''link''], joints = []\<rparr>
          (snd (ex_doc [''a'', ''b''])))
     = Inr [''/m/a'']
   \<and> map_sum id (paths_with_api ''PhysicsRigidBodyAPI'' \<circ> fst)
        (inject_physics physics_injector (fst (ex_doc [''a'', ''b'']))
          \<lparr>model_name = ''m'', parts = [ex_part ''b'' ''link''], joints = []\<rparr>
          (snd (ex_doc [''a'', ''b''])))
     = Inr [''/m/b'']
   \<and> map_of (snd (ex_doc [''b'', ''a''])) ''a'' = Some ''/m/a''
   \<and> map_sum id (paths_with_api ''PhysicsArticulationRootAPI'' \<circ> fst)
        (inject_physics physics_injector (fst (ex_doc [''b'', ''a'']))
          \<lparr>model_name = ''m'', parts = [ex_part ''a'' ''link'', ex_part ''b'' ''link''],
           joints = []\<rparr>
          (snd (ex_doc [''b'', ''a''])))
     = Inr [''/m/b'']"
  by code_simp

subsection \<open>Joints of an unrecognized type\<close>

lemma validate_all_Inl:
  assumes "\<And>y e. f y = Inl e \<Longrightarrow> e = E"
  shows "x \<in> set xs \<Longrightarrow> isl (f x) \<Longrightarrow> validate_all f xs = Inl E"
proof (induction xs)
  case Nil
  then show ?case by simp
next
  case (Cons a xs)
  show ?case
  proof (cases "f a")
    case (Inl e)
    with assms [OF Inl] show ?thesis by simp
  next
    case (Inr y)
    with Cons.prems have "x \<in> set xs" by auto
    from Cons.IH [OF this Cons.prems(2)] Inr show ?thesis by simp
  qed
qed

lemma validate_all_error:
  assumes "\<And>y e. f y = Inl e \<Longrightarrow> e = E"
  shows "validate_all f xs = Inl e \<Longrightarrow> e = E"
proof (induction xs arbitrary: e)
  case Nil
  then show ?case by simp
next
  case (Cons a xs)
  then show ?case using assms by (auto split: sum.splits)
qed

lemma validate_Part_error: "validate_Part p = Inl e \<Longrightarrow> e = RequestValidationError"
  by (auto simp: validate_Part_def split: if_splits)

lemma validate_Joint_error: "validate_Joint j = Inl e \<Longrightarrow> e = RequestValidationError"
  by (auto simp: validate_Joint_def Let_def split: if_splits)

lemma validate_Joint_isl: "\<not> Joint_type_Literal (joint_type j) \<Longrightarrow> isl (validate_Joint j)"
  by (simp add: validate_Joint_def Joint_type_Literal_def Let_def)

lemma validate_Joint_Inr:
  "validate_Joint j = Inr k \<Longrightarrow> JointType_value (joint_type k) = joint_type j"
  by (auto simp: validate_Joint_def Let_def JointType_value_def split: if_splits)

lemma validate_all_Joint_Inr:
  "validate_all validate_Joint js = Inr ks \<Longrightarrow>
   map (JointType_value \<circ> joint_type) ks = map joint_type js"
proof (induction js arbitrary: ks)
  case Nil
  then show ?case by simp
next
  case (Cons j js)
  from Cons.prems obtain k ks' where k: "validate_Joint j = Inr k"
    and ks': "validate_all validate_Joint js = Inr ks'" and ks: "ks = k # ks'"
    by (auto split: sum.splits)
  from validate_Joint_Inr [OF k] Cons.IH [OF ks'] ks show ?case by simp
qed

text \<open>
  Claim C3. \<open>Joint.type\<close> is declared as one of \<open>fixed\<close>, \<open>revolute\<close> and
  \<open>prismatic\<close>, and the body of an export request is validated against that declaration
  before the route runs. A request with a joint of any other type is refused as a whole:
  the export returns the validation error, and no document is built. The joints of a
  request that passes carry the types of the request. \<open>inject_physics\<close> skips none of
  them: a joint whose two parts resolve either makes the call raise or has a node of its
  type when its turn is over.
\<close>

theorem unrecognized_joint_type:
  "(j \<in> set (json_joints body) \<and> \<not> Joint_type_Literal (joint_type j) \<longrightarrow>
      export_usd output_filename mesh_data body = Inl RequestValidationError)
   \<and> (\<forall>request. validate_ExportRequest body = Inr request \<longrightarrow>
         map (JointType_value \<circ> joint_type) (joints (articulation request))
           = map joint_type (json_joints body))
   \<and> (resolved pp k \<longrightarrow>
         isl (create_joint pp k st)
         \<or> (\<exists>st'. create_joint pp k st = Inr (st', [])
               \<and> IsA st' (joint_path st k) (joint_type_name (joint_type k))))"
proof (intro conjI impI allI)
  assume h: "j \<in> set (json_joints body) \<and> \<not> Joint_type_Literal (joint_type j)"
  then have "validate_all validate_Joint (json_joints body) = Inl RequestValidationError"
    using validate_all_Inl [of validate_Joint RequestValidationError j "json_joints body"]
      validate_Joint_error validate_Joint_isl by blast
  moreover have "e = RequestValidationError"
    if "validate_all validate_Part (json_parts body) = Inl e" for e
    using validate_all_error [of validate_Part RequestValidationError "json_parts body" e]
      validate_Part_error that by blast
  ultimately have "validate_ExportRequest body = Inl RequestValidationError"
    by (auto simp: validate_ExportRequest_def split: sum.splits)
  then show "export_usd output_filename mesh_data body = Inl RequestValidationError"
    by (simp add: export_usd_def)
next
  fix request
  assume "validate_ExportRequest body = Inr request"
  then obtain ks where "validate_all validate_Joint (json_joints body) = Inr ks"
    and "joints (articulation request) = ks"
    by (auto simp: validate_ExportRequest_def split: sum.splits)
  with validate_all_Joint_Inr
  show "map (JointType_value \<circ> joint_type) (joints (articulation request))
           = map joint_type (json_joints body)"
    by blast
next
  assume r: "resolved pp k"
  show "isl (create_joint pp k st)
         \<or> (\<exists>st'. create_joint pp k st = Inr (st', [])
               \<and> IsA st' (joint_path st k) (joint_type_name (joint_type k)))"
  proof (cases "create_joint pp k st")
    case (Inl e)
    then show ?thesis by simp
  next
    case (Inr res)
    obtain st' w where "res = (st', w)" by (cases res)
    with Inr have c: "create_joint pp k st = Inr (st', w)" by simp
    from create_joint_warnings [OF c] r have "w = []" by simp
    with c IsA_create_joint [OF c, of "joint_path st k" "joint_type_name (joint_type k)"] r
    show ?thesis by simp
  qed
qed

theorem unrecognized_joint_type_witness:
  "export_usd ''m.usda'' [(''a'', ex_mesh), (''b'', ex_mesh)]
      \<lparr>json_glb_filename = ''m.glb'', json_model_name = ''m'',
       json_parts = [ex_part ''a'' ''base'', ex_part ''b'' ''link''],
       json_joints = [ex_joint ''h'' ''a'' ''b'' ''fixed'', ex_joint ''j'' ''a'' ''b'' ''ball'']\<rparr>
     = Inl RequestValidationError
   \<and> map_sum id (paths_of_type ''PhysicsFixedJoint'')
       (export_usd ''m.usda'' [(''a'', ex_mesh), (''b'', ex_mesh)]
         \<lparr>json_glb_filename = ''m.glb'', json_model_name = ''m'',
          json_parts = [ex_part ''a'' ''base'', ex_part ''b'' ''link''],
          json_joints = [ex_joint ''h'' ''a'' ''b'' ''fixed'']\<rparr>)
     = Inr [''/m/Joints/h'']"
proof -
  let ?j = "ex_joint ''j'' ''a'' ''b'' ''ball''"
  let ?body = "\<lparr>json_glb_filename = ''m.glb'', json_model_name = ''m'',
       json_parts = [ex_part ''a'' ''base'', ex_part ''b'' ''link''],
       json_joints = [ex_joint ''h'' ''a'' ''b'' ''fixed'', ?j]\<rparr>"
  have h: "?j \<in> set (json_joints ?body) \<and> \<not> Joint_type_Literal (joint_type ?j)"
    by (simp add: ex_joint_def Joint_type_Literal_def)
  have 2: "map_sum id (paths_of_type ''PhysicsFixedJoint'')
       (export_usd ''m.usda'' [(''a'', ex_mesh), (''b'', ex_mesh)]
         \<lparr>json_glb_filename = ''m.glb'', json_model_name = ''m'',
          json_parts = [ex_part ''a'' ''base'', ex_part ''b'' ''link''],
          json_joints = [ex_joint ''h'' ''a'' ''b'' ''fixed'']\<rparr>)
     = Inr [''/m/Joints/h'']"
    by code_simp
  from unrecognized_joint_type [where j = ?j and body = ?body
      and output_filename = "''m.usda''" and mesh_data = "[(''a'', ex_mesh), (''b'', ex_mesh)]",
      THEN conjunct1, THEN mp, OF h] 2
  show ?thesis by simp
qed

subsection \<open>Dangling joints\<close>

text \<open>
  Claim C6, amended. A joint whose parent or child id is not a key of the part-path map is
  dropped: the loop body leaves the stage as it is and logs the warning \<open>Joint name:
  parent or child not found\<close>. That warning is the only record of the drop; nothing
  carries a reason \<open>dangling-reference\<close>, and the method returns no list of drops. The
  drop is not fatal: the document returned, or the error raised, is the one of the
  articulation without that joint. In the document returned every other joint whose two
  parts resolve has its joint node, no joint node is there for another reason (it was in
  the document before, or it is the node of a resolved joint), and every part with a
  resolved path carries the rigid-body and the mass schema.
\<close>

theorem dangling_joint:
  "map_of pp (parent j) = None \<or> map_of pp (child j) = None \<longrightarrow>
   create_joint pp j st
     = Inr (st, [''Joint '' @ joint_name j @ '': parent or child not found''])
   \<and> map_sum id fst
        (inject_physics self st0 \<lparr>model_name = n, parts = ps, joints = js1 @ j # js2\<rparr> pp)
     = map_sum id fst
        (inject_physics self st0 \<lparr>model_name = n, parts = ps, joints = js1 @ js2\<rparr> pp)
   \<and> (\<forall>st' w.
        inject_physics self st0 \<lparr>model_name = n, parts = ps, joints = js1 @ j # js2\<rparr> pp
          = Inr (st', w) \<longrightarrow>
        ''Joint '' @ joint_name j @ '': parent or child not found'' \<in> set w
        \<and> (\<forall>k \<in> set (js1 @ js2). resolved pp k \<longrightarrow> is_joint_node st' (joint_path st0 k))
        \<and> (\<forall>p. is_joint_node st' p \<longrightarrow>
              is_joint_node st0 p
              \<or> (\<exists>k \<in> set (js1 @ js2). resolved pp k \<and> p = joint_path st0 k))
        \<and> (\<forall>part \<in> set ps. \<forall>path. map_of pp (part_id part) = Some path \<longrightarrow>
              ''PhysicsRigidBodyAPI'' \<in> apis st' path \<and> ''PhysicsMassAPI'' \<in> apis st' path))"
proof (intro impI conjI allI ballI)
  let ?W = "''Joint '' @ joint_name j @ '': parent or child not found''"
  assume h: "map_of pp (parent j) = None \<or> map_of pp (child j) = None"
  then have nr: "\<not> resolved pp j" by (auto simp: resolved_def)
  show "create_joint pp j st = Inr (st, [?W])"
    by (rule create_joint_dangling [OF nr])
  show "map_sum id fst
        (inject_physics self st0 \<lparr>model_name = n, parts = ps, joints = js1 @ j # js2\<rparr> pp)
     = map_sum id fst
        (inject_physics self st0 \<lparr>model_name = n, parts = ps, joints = js1 @ js2\<rparr> pp)"
    by (rule inject_physics_stage_cong) (rule create_joints_drop [OF nr])
  fix st' w
  assume r: "inject_physics self st0 \<lparr>model_name = n, parts = ps, joints = js1 @ j # js2\<rparr> pp
          = Inr (st', w)"
  from inject_physics_Inr [OF r] obtain st1 st2 w1 w2 where
    1: "mark_root st0 ps pp = Inr st1" and
    2: "annotate_parts self pp ps st1 = Inr (st2, w1)" and
    3: "create_joints pp (js1 @ j # js2) st2 = Inr (st', w2)" and w: "w = w1 @ w2"
    by auto
  from mark_root_frame(1) [OF 1] annotate_parts_frame [OF 2]
  have d: "defaultPrim st2 = defaultPrim st0" by simp
  have jp: "joint_path st2 k = joint_path st0 k" for k
    by (rule joint_path_cong) (rule d)
  have jn2: "is_joint_node st2 p = is_joint_node st0 p" for p
    using mark_root_frame(3) [OF 1] annotate_parts_frame [OF 2]
    by (simp add: is_joint_node_def)
  note jn = is_joint_node_create_joints [OF 3, unfolded jp jn2]
  from create_joints_warnings [OF 3] nr have "?W \<in> set w2" by auto
  with w show "?W \<in> set w" by simp
  show "is_joint_node st' (joint_path st0 k)" if "k \<in> set (js1 @ js2)" "resolved pp k" for k
    using that jn [of "joint_path st0 k"] by auto
  show "is_joint_node st0 p \<or> (\<exists>k \<in> set (js1 @ js2). resolved pp k \<and> p = joint_path st0 k)"
    if "is_joint_node st' p" for p
    using that jn [of p] nr by auto
  fix part path
  assume p: "part \<in> set ps" "map_of pp (part_id part) = Some path"
  have dr: "''PhysicsRigidBodyAPI'' \<notin> drive_apis" "''PhysicsMassAPI'' \<notin> drive_apis"
    by (simp_all add: drive_apis_def)
  from annotate_parts_body [OF 2 p] apis_create_joints [OF 3 dr(1), of path]
    apis_create_joints [OF 3 dr(2), of path]
  show "''PhysicsRigidBodyAPI'' \<in> apis st' path" "''PhysicsMassAPI'' \<in> apis st' path"
    by simp_all
qed

theorem dangling_joint_witness:
  "create_joint (snd (ex_doc [''a'', ''b''])) (ex_joint ''j'' ''a'' ''ghost'' Revolute)
      (fst (ex_doc [''a'', ''b'']))
     = Inr (fst (ex_doc [''a'', ''b'']), [''Joint j: parent or child not found''])
   \<and> (\<exists>st' w.
        inject_physics physics_injector (fst (ex_doc [''a'', ''b'']))
          \<lparr>model_name = ''m'', parts = [ex_part ''a'' ''base'', ex_part ''b'' ''link''],
           joints = [ex_joint ''h'' ''a'' ''b'' Fixed] @ ex_joint ''j'' ''a'' ''ghost'' Revolute
              # [ex_joint ''k'' ''b'' ''a'' Prismatic]\<rparr>
          (snd (ex_doc [''a'', ''b'']))
          = Inr (st', w)
        \<and> ''Joint j: parent or child not found'' \<in> set w
        \<and> is_joint_node st' ''/m/Joints/h''
        \<and> is_joint_node st' ''/m/Joints/k''
        \<and> \<not> is_joint_node st' ''/m/Joints/j''
        \<and> ''PhysicsRigidBodyAPI'' \<in> apis st' ''/m/a''
        \<and> ''PhysicsMassAPI'' \<in> apis st' ''/m/b''
        \<and> Inr st' = map_sum id fst
            (inject_physics physics_injector (fst (ex_doc [''a'', ''b'']))
              \<lparr>model_name = ''m'', parts = [ex_part ''a'' ''base'', ex_part ''b'' ''link''],
               joints = [ex_joint ''h'' ''a'' ''b'' Fixed]
                  @ [ex_joint ''k'' ''b'' ''a'' Prismatic]\<rparr>
              (snd (ex_doc [''a'', ''b'']))))"
proof -
  let ?j = "ex_joint ''j'' ''a'' ''ghost'' Revolute"
  let ?js1 = "[ex_joint ''h'' ''a'' ''b'' Fixed]"
  let ?js2 = "[ex_joint ''k'' ''b'' ''a'' Prismatic]"
  let ?ps = "[ex_part ''a'' ''base'', ex_part ''b'' ''link'']"
  let ?d = "ex_doc [''a'', ''b'']"
  let ?r = "inject_physics physics_injector (fst ?d)
          \<lparr>model_name = ''m'', parts = ?ps, joints = ?js1 @ ?j # ?js2\<rparr> (snd ?d)"
  have h: "map_of (snd ?d) (parent ?j) = None \<or> map_of (snd ?d) (child ?j) = None"
    by code_simp
  have nm: "joint_name ?j = ''j''" by (simp add: ex_joint_def)
  have "\<not> isl ?r" by code_simp
  then obtain st' w where r: "?r = Inr (st', w)"
    using not_isl_result by blast
  note d = dangling_joint [where j = ?j and pp = "snd ?d" and st = "fst ?d"
      and self = physics_injector and ?st0.0 = "fst ?d" and n = "''m''"
      and ps = ?ps and ?js1.0 = ?js1 and ?js2.0 = ?js2, THEN mp, OF h]
  note c = d [THEN conjunct2, THEN conjunct2, THEN spec, THEN spec, THEN mp, OF r]
  from d [THEN conjunct1] have 1: "create_joint (snd ?d) ?j (fst ?d)
     = Inr (fst ?d, [''Joint j: parent or child not found''])"
    by (simp add: nm)
  from c [THEN conjunct1] have 2: "''Joint j: parent or child not found'' \<in> set w"
    by (simp add: nm)
  have e: "resolved (snd ?d) (ex_joint ''h'' ''a'' ''b'' Fixed)"
    "resolved (snd ?d) (ex_joint ''k'' ''b'' ''a'' Prismatic)"
    "joint_path (fst ?d) (ex_joint ''h'' ''a'' ''b'' Fixed) = ''/m/Joints/h''"
    "joint_path (fst ?d) (ex_joint ''k'' ''b'' ''a'' Prismatic) = ''/m/Joints/k''"
    "\<not> is_joint_node (fst ?d) ''/m/Joints/j''"
    "map_of (snd ?d) (part_id (ex_part ''a'' ''base'')) = Some ''/m/a''"
    "map_of (snd ?d) (part_id (ex_part ''b'' ''link'')) = Some ''/m/b''"
    by code_simp+
  from c [THEN conjunct2, THEN conjunct1] e
  have 3: "is_joint_node st' ''/m/Joints/h''" "is_joint_node st' ''/m/Joints/k''"
    by auto
  from c [THEN conjunct2, THEN conjunct2, THEN conjunct1, THEN spec, of "''/m/Joints/j''"] e
  have 4: "\<not> is_joint_node st' ''/m/Joints/j''" by auto
  note c5 = c [THEN conjunct2, THEN conjunct2, THEN conjunct2]
  from c5 [THEN bspec, of "ex_part ''a'' ''base''", THEN spec, THEN mp, OF _ e(6)]
    c5 [THEN bspec, of "ex_part ''b'' ''link''", THEN spec, THEN mp, OF _ e(7)]
  have 5: "''PhysicsRigidBodyAPI'' \<in> apis st' ''/m/a''" "''PhysicsMassAPI'' \<in> apis st' ''/m/b''"
    by simp_all
  from d [THEN conjunct2, THEN conjunct1] r have 6: "Inr st' = map_sum id fst
            (inject_physics physics_injector (fst ?d)
              \<lparr>model_name = ''m'', parts = ?ps, joints = ?js1 @ ?js2\<rparr> (snd ?d))"
    by simp
  from 1 2 3 4 5 6 r show ?thesis by blast
qed

text \<open>
  The claim as stated fails in its last clause. For the articulation with the part a and
  one joint from a to \<open>ghost\<close> the document has no joint node and part a is annotated, but
  all that is recorded of the drop is the text of the warning: no reason
  \<open>dangling-reference\<close> is among the records.
\<close>

theorem dangling_joint_counterexample:
  "map_sum id snd
     (inject_physics physics_injector (fst (ex_doc [''a'']))
        \<lparr>model_name = ''m'', parts = [ex_part ''a'' ''base''],
         joints = [ex_joint ''j'' ''a'' ''ghost'' Revolute]\<rparr> (snd (ex_doc [''a''])))
     = Inr [''Joint j: parent or child not found'']
   \<and> map_sum id (prim_paths \<circ> fst)
        (inject_physics physics_injector (fst (ex_doc [''a'']))
          \<lparr>model_name = ''m'', parts = [ex_part ''a'' ''base''],
           joints = [ex_joint ''j'' ''a'' ''ghost'' Revolute]\<rparr> (snd (ex_doc [''a''])))
     = Inr [''/m'', ''/m/PhysicsScene'', ''/m/a'', ''/m/a/mesh'']
   \<and> map_sum id (paths_with_api ''PhysicsRigidBodyAPI'' \<circ> fst)
        (inject_physics physics_injector (fst (ex_doc [''a'']))
          \<lparr>model_name = ''m'', parts = [ex_part ''a'' ''base''],
           joints = [ex_joint ''j'' ''a'' ''ghost'' Revolute]\<rparr> (snd (ex_doc [''a''])))
     = Inr [''/m/a'']"
  by code_simp

subsection \<open>Mass precedence\<close>

text \<open>
  Claim C8. For a part with a resolved path that is annotated: if its mass is set, the
  node records that mass and no density is written (the density attribute of the node
  stays as it was, absent on a node fresh from the builder); if its mass is absent, no
  mass is written and the node records the part's density when that is present and not
  zero. When the density is absent or zero the node records the injector's default
  density, 1000 for the module's injector: \<open>density or self.default_density\<close> takes a
  density of \<open>0.0\<close> for a missing one, against the claim and against the docstring of
  the method, which has the default used only if the density is not given. The values are
  those handed to the stage, which keeps them in single precision.
\<close>

theorem mass_precedence:
  "map_of pp (part_id part) = Some prim_path
     \<and> annotate_part self pp part st = Inr (st', w) \<longrightarrow>
   (\<forall>m. mass part = Some m \<longrightarrow>
      attr st' prim_path ''physics:mass'' = Some (VFloat m)
      \<and> attr st' prim_path ''physics:density'' = attr st prim_path ''physics:density'')
   \<and> (mass part = None \<longrightarrow>
      attr st' prim_path ''physics:mass'' = attr st prim_path ''physics:mass''
      \<and> (\<forall>d. density part = Some d \<and> d \<noteq> 0 \<longrightarrow>
            attr st' prim_path ''physics:density'' = Some (VFloat d))
      \<and> (density part = None \<or> density part = Some 0 \<longrightarrow>
            attr st' prim_path ''physics:density'' = Some (VFloat (default_density self))))
   \<and> default_density physics_injector = 1000"
proof (intro impI conjI allI)
  show "default_density physics_injector = 1000" by (simp add: physics_injector_def)
next
  assume h: "map_of pp (part_id part) = Some prim_path
     \<and> annotate_part self pp part st = Inr (st', w)"
  then obtain st1 where
    1: "apply_rigid_body self st prim_path (part_type part = ''base'') (mass part)
          (density part) (center_of_mass part) = Inr st1" and
    2: "st' = st1 \<or> apply_collision st1 (prim_path @ ''/mesh'') (collision_type part) = Inr st'"
    by (auto simp: annotate_part_def Let_def split: sum.splits if_splits)
  have keep: "attr st' prim_path n = attr st1 prim_path n" for n
    using 2 attr_apply_collision_other [of st1 "prim_path @ ''/mesh''" "collision_type part" st'
        prim_path n]
    by auto
  note ms = attr_apply_rigid_body_mass [OF 1] and ds = attr_apply_rigid_body_density [OF 1]
  {
    fix m assume "mass part = Some m"
    with ms ds keep show "attr st' prim_path ''physics:mass'' = Some (VFloat m)"
      and "attr st' prim_path ''physics:density'' = attr st prim_path ''physics:density''"
      by simp_all
  }
  {
    assume "mass part = None"
    with ms ds keep show "attr st' prim_path ''physics:mass'' = attr st prim_path ''physics:mass''"
      by simp
  }
  {
    fix d assume "mass part = None" "density part = Some d \<and> d \<noteq> 0"
    with ms ds keep show "attr st' prim_path ''physics:density'' = Some (VFloat d)"
      by simp
  }
  {
    assume "mass part = None" "density part = None \<or> density part = Some 0"
    with ms ds keep
    show "attr st' prim_path ''physics:density'' = Some (VFloat (default_density self))"
      by auto
  }
qed

theorem mass_precedence_witness:
  "(\<exists>st' w. annotate_part physics_injector (snd (ex_doc [''a'']))
             ((ex_part ''a'' ''link'')\<lparr>mass := Some (5 / 2), density := Some 500\<rparr>)
             (fst (ex_doc [''a''])) = Inr (st', w)
         \<and> attr st' ''/m/a'' ''physics:mass'' = Some (VFloat (5 / 2))
         \<and> attr st' ''/m/a'' ''physics:density'' = None)
   \<and> (\<exists>st' w. annotate_part physics_injector (snd (ex_doc [''a'']))
             ((ex_part ''a'' ''link'')\<lparr>mass := None, density := Some 500\<rparr>)
             (fst (ex_doc [''a''])) = Inr (st', w)
         \<and> attr st' ''/m/a'' ''physics:mass'' = None
         \<and> attr st' ''/m/a'' ''physics:density'' = Some (VFloat 500))
   \<and> (\<exists>st' w. annotate_part physics_injector (snd (ex_doc [''a'']))
             ((ex_part ''a'' ''link'')\<lparr>mass := None, density := None\<rparr>)
             (fst (ex_doc [''a''])) = Inr (st', w)
         \<and> attr st' ''/m/a'' ''physics:density'' = Some (VFloat 1000))"
proof -
  let ?d = "ex_doc [''a'']"
  have 0: "attr (fst ?d) ''/m/a'' ''physics:mass'' = None"
    "attr (fst ?d) ''/m/a'' ''physics:density'' = None"
    by code_simp+
  have dd: "default_density physics_injector = 1000"
    by (simp add: physics_injector_def)
  have pth: "map_of (snd ?d) ''a'' = Some ''/m/a''" by code_simp
  have run: "\<exists>st' w. annotate_part physics_injector (snd ?d)
      ((ex_part ''a'' ''link'')\<lparr>mass := m, density := d\<rparr>) (fst ?d) = Inr (st', w)" for m d
  proof -
    have "IsValid (fst ?d) ''/m/a''" by code_simp
    from apply_rigid_body_valid [OF this] obtain st1 where
      "apply_rigid_body physics_injector (fst ?d) ''/m/a'' False m d None = Inr st1"
      by blast
    with pth show ?thesis
      using apply_collision_valid [of st1 "''/m/a/mesh''" "''convexHull''"]
      by (auto simp: annotate_part_def ex_part_def Let_def)
  qed
  have sel: "part_id ((ex_part ''a'' ''link'')\<lparr>mass := m, density := d\<rparr>) = ''a''"
    "mass ((ex_part ''a'' ''link'')\<lparr>mass := m, density := d\<rparr>) = m"
    "density ((ex_part ''a'' ''link'')\<lparr>mass := m, density := d\<rparr>) = d" for m d
    by (simp_all add: ex_part_def)
  from run [where m = "Some (5 / 2)" and d = "Some 500"] obtain s1 w1 where
    r1: "annotate_part physics_injector (snd ?d)
      ((ex_part ''a'' ''link'')\<lparr>mass := Some (5 / 2), density := Some 500\<rparr>) (fst ?d)
      = Inr (s1, w1)" by blast
  from r1 pth have h1: "map_of (snd ?d)
        (part_id ((ex_part ''a'' ''link'')\<lparr>mass := Some (5 / 2), density := Some 500\<rparr>))
       = Some ''/m/a''
     \<and> annotate_part physics_injector (snd ?d)
      ((ex_part ''a'' ''link'')\<lparr>mass := Some (5 / 2), density := Some 500\<rparr>) (fst ?d)
      = Inr (s1, w1)"
    by (simp add: sel)
  from mass_precedence [THEN mp, OF h1, THEN conjunct1, THEN spec, THEN mp, OF sel(2)] 0
  have 1: "attr s1 ''/m/a'' ''physics:mass'' = Some (VFloat (5 / 2))
         \<and> attr s1 ''/m/a'' ''physics:density'' = None"
    by simp
  from run [where m = None and d = "Some 500"] obtain s2 w2 where
    r2: "annotate_part physics_injector (snd ?d)
      ((ex_part ''a'' ''link'')\<lparr>mass := None, density := Some 500\<rparr>) (fst ?d)
      = Inr (s2, w2)" by blast
  from r2 pth have h2: "map_of (snd ?d)
        (part_id ((ex_part ''a'' ''link'')\<lparr>mass := None, density := Some 500\<rparr>))
       = Some ''/m/a''
     \<and> annotate_part physics_injector (snd ?d)
      ((ex_part ''a'' ''link'')\<lparr>mass := None, density := Some 500\<rparr>) (fst ?d)
      = Inr (s2, w2)"
    by (simp add: sel)
  note c2 = mass_precedence [THEN mp, OF h2, THEN conjunct2, THEN conjunct1, THEN mp, OF sel(2)]
  have nz: "density ((ex_part ''a'' ''link'')\<lparr>mass := None, density := Some 500\<rparr>) = Some 500
      \<and> (500 :: real) \<noteq> 0"
    by (simp add: sel)
  from c2 [THEN conjunct1] c2 [THEN conjunct2, THEN conjunct1, THEN spec, THEN mp, OF nz] 0
  have 2: "attr s2 ''/m/a'' ''physics:mass'' = None
         \<and> attr s2 ''/m/a'' ''physics:density'' = Some (VFloat 500)"
    by simp
  from run [where m = None and d = None] obtain s3 w3 where
    r3: "annotate_part physics_injector (snd ?d)
      ((ex_part ''a'' ''link'')\<lparr>mass := None, density := None\<rparr>) (fst ?d)
      = Inr (s3, w3)" by blast
  from r3 pth have h3: "map_of (snd ?d)
        (part_id ((ex_part ''a'' ''link'')\<lparr>mass := None, density := None\<rparr>))
       = Some ''/m/a''
     \<and> annotate_part physics_injector (snd ?d)
      ((ex_part ''a'' ''link'')\<lparr>mass := None, density := None\<rparr>) (fst ?d)
      = Inr (s3, w3)"
    by (simp add: sel)
  note c3 = mass_precedence [THEN mp, OF h3, THEN conjunct2, THEN conjunct1, THEN mp, OF sel(2)]
  have ab: "density ((ex_part ''a'' ''link'')\<lparr>mass := None, density := None\<rparr>) = None
      \<or> density ((ex_part ''a'' ''link'')\<lparr>mass := None, density := None\<rparr>) = Some 0"
    by (simp add: sel)
  from c3 [THEN conjunct2, THEN conjunct2, THEN mp, OF ab] dd
  have 3: "attr s3 ''/m/a'' ''physics:density'' = Some (VFloat 1000)"
    by simp
  from r1 1 r2 2 r3 3 show ?thesis by blast
qed

text \<open>
  The code departs from the claim for a part without mass whose density is \<open>0.0\<close>: the
  density is present, and the document records the default 1000, not the part's density.
\<close>

theorem mass_precedence_counterexample:
  "density ((ex_part ''a'' ''link'')\<lparr>density := Some 0\<rparr>) = Some 0
   \<and> mass ((ex_part ''a'' ''link'')\<lparr>density := Some 0\<rparr>) = None
   \<and> map_sum id (attr_at ''/m/a'' ''physics:density'' \<circ> fst)
       (inject_physics physics_injector (fst (ex_doc [''a'']))
         \<lparr>model_name = ''m'', parts = [(ex_part ''a'' ''link'')\<lparr>density := Some 0\<rparr>],
          joints = []\<rparr> (snd (ex_doc [''a''])))
     = Inr (Some (VFloat 1000))"
  by code_simp

subsection \<open>Collision funnel\<close>

text \<open>
  Claim C9. For an annotated part whose node has its geometry sub-node, the \<open>mesh\<close> child
  of type Mesh, collision is applied on that sub-node and not on the transform node: the
  sub-node gets the collision schemas and the approximation attribute, the transform node
  gets neither. The collision shape maps three ways: \<open>convexHull\<close> to \<open>convexHull\<close>,
  \<open>convexDecomposition\<close> to \<open>convexDecomposition\<close>, anything else, \<open>mesh\<close> and \<open>none\<close>
  included, to \<open>none\<close>.
\<close>

theorem collision_funnel:
  "map_of pp (part_id part) = Some prim_path \<and> IsValid st prim_path
     \<and> IsA st (prim_path @ ''/mesh'') ''Mesh'' \<longrightarrow>
   (\<exists>st'. annotate_part self pp part st = Inr (st', [])
      \<and> ''PhysicsCollisionAPI'' \<in> apis st' (prim_path @ ''/mesh'')
      \<and> ''PhysicsMeshCollisionAPI'' \<in> apis st' (prim_path @ ''/mesh'')
      \<and> (''PhysicsCollisionAPI'' \<in> apis st' prim_path
            \<longleftrightarrow> ''PhysicsCollisionAPI'' \<in> apis st prim_path)
      \<and> (''PhysicsMeshCollisionAPI'' \<in> apis st' prim_path
            \<longleftrightarrow> ''PhysicsMeshCollisionAPI'' \<in> apis st prim_path)
      \<and> attr st' prim_path ''physics:approximation'' = attr st prim_path ''physics:approximation''
      \<and> (collision_type part = ''convexHull'' \<longrightarrow>
            attr st' (prim_path @ ''/mesh'') ''physics:approximation''
              = Some (VToken ''convexHull''))
      \<and> (collision_type part = ''convexDecomposition'' \<longrightarrow>
            attr st' (prim_path @ ''/mesh'') ''physics:approximation''
              = Some (VToken ''convexDecomposition''))
      \<and> (collision_type part \<noteq> ''convexHull''
            \<and> collision_type part \<noteq> ''convexDecomposition'' \<longrightarrow>
            attr st' (prim_path @ ''/mesh'') ''physics:approximation''
              = Some (VToken ''none'')))"
proof (intro impI)
  let ?mesh = "prim_path @ ''/mesh''"
  assume h: "map_of pp (part_id part) = Some prim_path \<and> IsValid st prim_path
     \<and> IsA st ?mesh ''Mesh''"
  from h apply_rigid_body_valid obtain st1 where
    1: "apply_rigid_body self st prim_path (part_type part = ''base'') (mass part)
          (density part) (center_of_mass part) = Inr st1"
    by blast
  from h have m1: "IsA st1 ?mesh ''Mesh''" by (simp add: IsA_apply_rigid_body [OF 1])
  then have v1: "IsValid st1 ?mesh" by (rule IsA_IsValid)
  from apply_collision_valid [OF v1] obtain st2 where
    2: "apply_collision st1 ?mesh (collision_type part) = Inr st2"
    by blast
  from h 1 2 v1 have r: "annotate_part self pp part st = Inr (st2, [])"
    by (simp add: annotate_part_def Let_def)
  have a2: "apis st2 ?mesh = {''PhysicsCollisionAPI'', ''PhysicsMeshCollisionAPI''} \<union> apis st1 ?mesh"
    using apis_apply_collision_eq [OF 2, of ?mesh] m1 by simp
  have b2: "apis st2 prim_path = apis st1 prim_path"
    using apis_apply_collision_eq [OF 2, of prim_path] by simp
  have b1: "apis st1 prim_path = {''PhysicsRigidBodyAPI'', ''PhysicsMassAPI''} \<union> apis st prim_path"
    using apis_apply_rigid_body_eq [OF 1, of prim_path] by simp
  have c: "attr st2 prim_path ''physics:approximation'' = attr st prim_path ''physics:approximation''"
    using attr_apply_collision_other [OF 2, of prim_path "''physics:approximation''"]
      attr_apply_rigid_body_other [OF 1, of "''physics:approximation''" prim_path]
    by simp
  note d = attr_apply_collision_approximation [OF 2 m1]
  from r a2 b2 b1 c d show "\<exists>st'. annotate_part self pp part st = Inr (st', [])
      \<and> ''PhysicsCollisionAPI'' \<in> apis st' ?mesh
      \<and> ''PhysicsMeshCollisionAPI'' \<in> apis st' ?mesh
      \<and> (''PhysicsCollisionAPI'' \<in> apis st' prim_path
            \<longleftrightarrow> ''PhysicsCollisionAPI'' \<in> apis st prim_path)
      \<and> (''PhysicsMeshCollisionAPI'' \<in> apis st' prim_path
            \<longleftrightarrow> ''PhysicsMeshCollisionAPI'' \<in> apis st prim_path)
      \<and> attr st' prim_path ''physics:approximation'' = attr st prim_path ''physics:approximation''
      \<and> (collision_type part = ''convexHull'' \<longrightarrow>
            attr st' ?mesh ''physics:approximation'' = Some (VToken ''convexHull''))
      \<and> (collision_type part = ''convexDecomposition'' \<longrightarrow>
            attr st' ?mesh ''physics:approximation'' = Some (VToken ''convexDecomposition''))
      \<and> (collision_type part \<noteq> ''convexHull''
            \<and> collision_type part \<noteq> ''convexDecomposition'' \<longrightarrow>
            attr st' ?mesh ''physics:approximation'' = Some (VToken ''none''))"
    by simp
qed

theorem collision_funnel_witness:
  "(\<exists>st'. annotate_part physics_injector (snd (ex_doc [''a'']))
             ((ex_part ''a'' ''link'')\<lparr>collision_type := ''convexHull''\<rparr>) (fst (ex_doc [''a'']))
           = Inr (st', [])
         \<and> ''PhysicsCollisionAPI'' \<in> apis st' ''/m/a/mesh''
         \<and> ''PhysicsCollisionAPI'' \<notin> apis st' ''/m/a''
         \<and> attr st' ''/m/a/mesh'' ''physics:approximation'' = Some (VToken ''convexHull''))
   \<and> (\<exists>st'. annotate_part physics_injector (snd (ex_doc [''a'']))
             ((ex_part ''a'' ''link'')\<lparr>collision_type := ''convexDecomposition''\<rparr>)
             (fst (ex_doc [''a'']))
           = Inr (st', [])
         \<and> attr st' ''/m/a/mesh'' ''physics:approximation''
            = Some (VToken ''convexDecomposition''))
   \<and> (\<exists>st'. annotate_part physics_injector (snd (ex_doc [''a'']))
             ((ex_part ''a'' ''link'')\<lparr>collision_type := ''mesh''\<rparr>) (fst (ex_doc [''a'']))
           = Inr (st', [])
         \<and> attr st' ''/m/a/mesh'' ''physics:approximation'' = Some (VToken ''none''))"
proof -
  let ?d = "ex_doc [''a'']"
  have h: "map_of (snd ?d) (part_id ((ex_part ''a'' ''link'')\<lparr>collision_type := ct\<rparr>))
        = Some ''/m/a''
      \<and> IsValid (fst ?d) ''/m/a'' \<and> IsA (fst ?d) (''/m/a'' @ ''/mesh'') ''Mesh''" for ct
  proof -
    have "map_of (snd ?d) ''a'' = Some ''/m/a''
      \<and> IsValid (fst ?d) ''/m/a'' \<and> IsA (fst ?d) (''/m/a'' @ ''/mesh'') ''Mesh''"
      by code_simp
    then show ?thesis by (simp add: ex_part_def)
  qed
  have 0: "''PhysicsCollisionAPI'' \<notin> apis (fst ?d) ''/m/a''"
    by code_simp
  have ct: "collision_type ((ex_part ''a'' ''link'')\<lparr>collision_type := c\<rparr>) = c" for c
    by simp
  from collision_funnel [where pp = "snd ?d" and st = "fst ?d" and self = physics_injector
      and prim_path = "''/m/a''"
      and part = "(ex_part ''a'' ''link'')\<lparr>collision_type := ''convexHull''\<rparr>"] h 0
  have 1: "\<exists>st'. annotate_part physics_injector (snd ?d)
             ((ex_part ''a'' ''link'')\<lparr>collision_type := ''convexHull''\<rparr>) (fst ?d)
           = Inr (st', [])
         \<and> ''PhysicsCollisionAPI'' \<in> apis st' ''/m/a/mesh''
         \<and> ''PhysicsCollisionAPI'' \<notin> apis st' ''/m/a''
         \<and> attr st' ''/m/a/mesh'' ''physics:approximation'' = Some (VToken ''convexHull'')"
    unfolding ct by auto
  from collision_funnel [where pp = "snd ?d" and st = "fst ?d" and self = physics_injector
      and prim_path = "''/m/a''"
      and part = "(ex_part ''a'' ''link'')\<lparr>collision_type := ''convexDecomposition''\<rparr>"] h
  have 2: "\<exists>st'. annotate_part physics_injector (snd ?d)
             ((ex_part ''a'' ''link'')\<lparr>collision_type := ''convexDecomposition''\<rparr>) (fst ?d)
           = Inr (st', [])
         \<and> attr st' ''/m/a/mesh'' ''physics:approximation''
            = Some (VToken ''convexDecomposition'')"
    unfolding ct by auto
  from collision_funnel [where pp = "snd ?d" and st = "fst ?d" and self = physics_injector
      and prim_path = "''/m/a''"
      and part = "(ex_part ''a'' ''link'')\<lparr>collision_type := ''mesh''\<rparr>"] h
  have 3: "\<exists>st'. annotate_part physics_injector (snd ?d)
             ((ex_part ''a'' ''link'')\<lparr>collision_type := ''mesh''\<rparr>) (fst ?d)
           = Inr (st', [])
         \<and> attr st' ''/m/a/mesh'' ''physics:approximation'' = Some (VToken ''none'')"
    unfolding ct by auto
  from 1 2 3 show ?thesis by blast
qed

subsection \<open>The document of the builder\<close>

lemma map_type_update:
  "map (\<lambda>(p, pr). (p, g pr)) (AList.update q v xs)
     = AList.update q (g v) (map (\<lambda>(p, pr). (p, g pr)) xs)"
  by (induction xs) auto

lemma map_type_map_entry:
  "(\<And>pr. g (f pr) = g pr) \<Longrightarrow>
   map (\<lambda>(p, pr). (p, g pr)) (AList.map_entry q f xs) = map (\<lambda>(p, pr). (p, g pr)) xs"
  by (induction xs) auto

lemma node_types_ops [simp]:
  "node_types (Apply st q a) = node_types st"
  "node_types (CreateAttr st q n v) = node_types st"
  "node_types (SetAttrMetadata st q n k x) = node_types st"
  "node_types (CreateRel st q n ts) = node_types st"
  "node_types (define_prim st q ty) = AList.update q ty (node_types st)"
  by (simp_all add: node_types_def Apply_def CreateAttr_def CreateRel_def SetAttrMetadata_def
      modify_prim_def define_prim_def map_type_update map_type_map_entry)


























subsection \<open>Part identifiers\<close>

lemma unique_loop_fresh: "unique_loop s used u c |\<notin>| used"
proof (induction s used u c rule: unique_loop.induct)
  case (1 s used u c)
  then show ?case by (subst unique_loop.simps) simp
qed

lemma unique_loop_result:
  "unique_loop s used u c = u \<and> u |\<notin>| used
   \<or> u |\<in>| used \<and> (\<exists>k \<ge> c. unique_loop s used u c = candidate s k
        \<and> (\<forall>j. c \<le> j \<and> j < k \<longrightarrow> candidate s j |\<in>| used))"
proof (induction s used u c rule: unique_loop.induct)
  case (1 s used u c)
  show ?case
  proof (cases "u |\<in>| used")
    case False
    then show ?thesis by (subst unique_loop.simps) simp
  next
    case True
    have eq: "unique_loop s used u c = unique_loop s used (candidate s c) (c + 1)"
      using True by (subst unique_loop.simps) simp
    from 1 [OF True] consider
      (now) "unique_loop s used (candidate s c) (c + 1) = candidate s c"
        "candidate s c |\<notin>| used"
      | (later) k where "candidate s c |\<in>| used" "c + 1 \<le> k"
        "unique_loop s used (candidate s c) (c + 1) = candidate s k"
        "\<forall>j. c + 1 \<le> j \<and> j < k \<longrightarrow> candidate s j |\<in>| used"
      by blast
    then show ?thesis
    proof cases
      case now
      then have "c \<le> c \<and> unique_loop s used u c = candidate s c
        \<and> (\<forall>j. c \<le> j \<and> j < c \<longrightarrow> candidate s j |\<in>| used)"
        using eq by auto
      with True show ?thesis by blast
    next
      case later
      have "\<forall>j. c \<le> j \<and> j < k \<longrightarrow> candidate s j |\<in>| used"
      proof (intro allI impI)
        fix j assume j: "c \<le> j \<and> j < k"
        show "candidate s j |\<in>| used"
        proof (cases "j = c")
          case True
          with later(1) show ?thesis by simp
        next
          case False
          with j have "c + 1 \<le> j \<and> j < k" by simp
          with later(4) show ?thesis by blast
        qed
      qed
      with later eq have "c \<le> k \<and> unique_loop s used u c = candidate s k
        \<and> (\<forall>j. c \<le> j \<and> j < k \<longrightarrow> candidate s j |\<in>| used)"
        by simp
      with True show ?thesis by blast
    qed
  qed
qed

lemma str_of_nat_digits: "\<forall>c \<in> set (str_of_nat n). 48 \<le> (of_char c :: nat) \<and> (of_char c :: nat) \<le> 57"
proof (induction n rule: str_of_nat.induct)
  case (1 n)
  show ?case
  proof (cases "n < 10")
    case True
    then show ?thesis by (subst str_of_nat.simps) simp
  next
    case False
    have "(of_char (char_of (48 + n mod 10 :: nat)) :: nat) = 48 + n mod 10" by simp
    moreover have "n mod 10 < 10" by simp
    ultimately have "48 \<le> (of_char (char_of (48 + n mod 10 :: nat)) :: nat)
        \<and> (of_char (char_of (48 + n mod 10 :: nat)) :: nat) \<le> 57"
      by linarith
    with 1 False show ?thesis by (subst str_of_nat.simps) simp
  qed
qed

lemma str_of_nat_nonempty: "str_of_nat n \<noteq> []"
  by (subst str_of_nat.simps) simp

lemma set_split_on: "\<forall>w \<in> set (split_on sep s). set w \<subseteq> set s"
proof (induction s)
  case Nil
  then show ?case by simp
next
  case (Cons c s)
  show ?case
  proof (cases "split_on sep s")
    case Nil
    then show ?thesis by simp
  next
    case (Cons w ws)
    with Cons.IH have "set w \<subseteq> set s" "\<forall>v \<in> set ws. set v \<subseteq> set s" by simp_all
    with Cons show ?thesis by auto
  qed
qed

lemma set_join_with: "set (join_with sep ws) \<subseteq> insert sep (\<Union> (set ` set ws))"
  by (induction sep ws rule: join_with.induct) auto

lemma us_not_alnum: "\<not> py_isalnum CHR ''_''"
  by (simp add: py_isalnum_def)

lemma join_with_Cons:
  "join_with sep (w # ws) = w @ (if ws = [] then [] else sep # join_with sep ws)"
  by (cases ws) simp_all

lemma join_with_empty:
  "\<forall>w \<in> set ws. w \<noteq> [] \<Longrightarrow> join_with sep ws = [] \<longleftrightarrow> ws = []"
  by (cases ws) (simp_all add: join_with_Cons)

lemma code_core_Nil: "code_core [] = []"
  by (simp add: code_core_def)

lemma code_core_sep: "\<not> py_isalnum c \<Longrightarrow> code_core (c # t) = code_core t"
  by (simp add: code_core_def)

lemma code_core_alnum:
  assumes "py_isalnum c"
  shows "code_core (c # t) =
     c # (if t \<noteq> [] \<and> py_isalnum (hd t) then code_core t
          else if code_core t = [] then [] else CHR ''_'' # code_core t)"
proof -
  let ?f = "\<lambda>c. if py_isalnum c then c else CHR ''_''"
  from assms us_not_alnum have c: "c \<noteq> CHR ''_''" by auto
  obtain w ws where sp: "split_on CHR ''_'' (map ?f t) = w # ws"
    using split_on_nonempty by (cases "split_on CHR ''_'' (map ?f t)") auto
  have ne: "\<forall>v \<in> set (filter (\<lambda>w. w \<noteq> []) ws). v \<noteq> []" by simp
  from assms c sp have l: "code_core (c # t) =
      c # w @ (if filter (\<lambda>w. w \<noteq> []) ws = [] then []
               else CHR ''_'' # join_with CHR ''_'' (filter (\<lambda>w. w \<noteq> []) ws))"
    by (simp add: code_core_def join_with_Cons)
  show ?thesis
  proof (cases t)
    case Nil
    with sp have "w = []" "ws = []" by simp_all
    with l Nil show ?thesis by (simp add: code_core_Nil)
  next
    case (Cons d t')
    show ?thesis
    proof (cases "py_isalnum d")
      case True
      with us_not_alnum have "d \<noteq> CHR ''_''" by auto
      with sp Cons True have w: "w \<noteq> []" by (auto split: list.splits)
      then have "code_core t = w @ (if filter (\<lambda>w. w \<noteq> []) ws = [] then []
               else CHR ''_'' # join_with CHR ''_'' (filter (\<lambda>w. w \<noteq> []) ws))"
        using sp by (simp add: code_core_def join_with_Cons)
      with l Cons True show ?thesis by simp
    next
      case False
      with sp Cons have w: "w = []" by simp
      then have r: "code_core t = join_with CHR ''_'' (filter (\<lambda>w. w \<noteq> []) ws)"
        using sp by (simp add: code_core_def)
      from join_with_empty [OF ne, of "CHR ''_''"] r
      have "code_core t = [] \<longleftrightarrow> filter (\<lambda>w. w \<noteq> []) ws = []" by simp
      with l r w Cons False show ?thesis by simp
    qed
  qed
qed

lemma rstrip_Nil: "rstrip [] = []"
  by (simp add: rstrip_def)

lemma rstrip_Cons:
  "rstrip (c # s) = (if rstrip s = [] \<and> c = CHR ''_'' then [] else c # rstrip s)"
  by (auto simp: rstrip_def dropWhile_append)

lemma strip_underscores_rstrip:
  "strip_underscores s = rstrip (dropWhile (\<lambda>c. c = CHR ''_'') s)"
  by (simp add: strip_underscores_def rstrip_def)

lemma collapse_runs_head:
  "s = [] \<or> py_isalnum (hd s) \<Longrightarrow>
   dropWhile (\<lambda>c. c = CHR ''_'') (collapse_runs s) = collapse_runs s"
  using us_not_alnum by (cases s) auto

lemma dropWhile_head: "dropWhile P s = [] \<or> \<not> P (hd (dropWhile P s))"
  by (induction s) auto

lemma lstrip_collapse_dropWhile:
  "dropWhile (\<lambda>c. c = CHR ''_'') (collapse_runs (dropWhile (\<lambda>d. \<not> py_isalnum d) t))
     = collapse_runs (dropWhile (\<lambda>d. \<not> py_isalnum d) t)"
  using dropWhile_head [of "\<lambda>d. \<not> py_isalnum d" t]
  by (intro collapse_runs_head) auto

lemma spec_core_Nil: "spec_core [] = []"
  by (simp add: spec_core_def strip_underscores_def)

lemma spec_core_sep_aux:
  "\<not> py_isalnum c \<Longrightarrow>
   spec_core (c # t) = rstrip (collapse_runs (dropWhile (\<lambda>d. \<not> py_isalnum d) t))"
  by (simp add: spec_core_def strip_underscores_rstrip lstrip_collapse_dropWhile)

lemma spec_core_dropWhile:
  "rstrip (collapse_runs (dropWhile (\<lambda>d. \<not> py_isalnum d) t)) = spec_core t"
proof (cases "t = [] \<or> py_isalnum (hd t)")
  case True
  then have "dropWhile (\<lambda>d. \<not> py_isalnum d) t = t" by (cases t) auto
  with True show ?thesis
    by (simp add: spec_core_def strip_underscores_rstrip collapse_runs_head)
next
  case False
  then obtain d t' where t: "t = d # t'" and d: "\<not> py_isalnum d" by (cases t) auto
  then show ?thesis by (simp add: spec_core_sep_aux)
qed

lemma spec_core_sep: "\<not> py_isalnum c \<Longrightarrow> spec_core (c # t) = spec_core t"
  by (simp add: spec_core_sep_aux spec_core_dropWhile)

lemma spec_core_alnum:
  assumes "py_isalnum c"
  shows "spec_core (c # t) =
     c # (if t \<noteq> [] \<and> py_isalnum (hd t) then spec_core t
          else if spec_core t = [] then [] else CHR ''_'' # spec_core t)"
proof -
  from assms us_not_alnum have c: "c \<noteq> CHR ''_''" by auto
  with assms have l: "spec_core (c # t) = c # rstrip (collapse_runs t)"
    by (simp add: spec_core_def strip_underscores_rstrip rstrip_Cons)
  show ?thesis
  proof (cases t)
    case Nil
    with l show ?thesis by (simp add: rstrip_Nil spec_core_Nil)
  next
    case (Cons d t')
    show ?thesis
    proof (cases "py_isalnum d")
      case True
      with Cons have "t = [] \<or> py_isalnum (hd t)" by simp
      then have "spec_core t = rstrip (collapse_runs t)"
        by (simp only: spec_core_def strip_underscores_rstrip collapse_runs_head)
      with l Cons True show ?thesis by simp
    next
      case False
      with Cons have "rstrip (collapse_runs t)
          = rstrip (CHR ''_'' # collapse_runs (dropWhile (\<lambda>d. \<not> py_isalnum d) t'))"
        by simp
      also have "\<dots> = (if spec_core t = [] then [] else CHR ''_'' # spec_core t)"
        using False Cons by (simp add: rstrip_Cons spec_core_sep_aux)
      finally show ?thesis using l Cons False by simp
    qed
  qed
qed

lemma code_core_spec_core: "code_core t = spec_core t"
proof (induction t)
  case Nil
  then show ?case by (simp add: code_core_Nil spec_core_Nil)
next
  case (Cons c t)
  then show ?case
    by (cases "py_isalnum c")
      (simp_all add: code_core_sep spec_core_sep code_core_alnum spec_core_alnum
        code_core_Nil spec_core_Nil)
qed

lemma sanitized_id_refines: "sanitized_id raw = spec_sanitized_id raw"
  using code_core_spec_core [of "map py_lower raw"]
  by (simp add: sanitized_id_def spec_sanitized_id_def Let_def code_core_def spec_core_def)

lemma sanitized_id_nonempty: "sanitized_id raw \<noteq> []"
  by (simp add: sanitized_id_def Let_def)

lemma sanitized_id_chars:
  "\<forall>c \<in> set (sanitized_id raw).
     c = CHR ''_'' \<or> c \<in> set ''part'' \<or> (\<exists>d \<in> set raw. c = py_lower d \<and> py_isalnum c)"
proof
  fix c assume c: "c \<in> set (sanitized_id raw)"
  let ?u = "map (\<lambda>c. if py_isalnum c then c else CHR ''_'') (map py_lower raw)"
  let ?ws = "filter (\<lambda>w. w \<noteq> []) (split_on CHR ''_'' ?u)"
  show "c = CHR ''_'' \<or> c \<in> set ''part'' \<or> (\<exists>d \<in> set raw. c = py_lower d \<and> py_isalnum c)"
  proof (cases "join_with CHR ''_'' ?ws = []")
    case True
    with c show ?thesis by (simp add: sanitized_id_def Let_def)
  next
    case False
    with c have "c \<in> set (join_with CHR ''_'' ?ws)"
      by (simp add: sanitized_id_def Let_def)
    with set_join_with [of "CHR ''_''" ?ws]
    have "c = CHR ''_'' \<or> (\<exists>w \<in> set ?ws. c \<in> set w)" by auto
    with set_split_on [of "CHR ''_''" ?u] have "c = CHR ''_'' \<or> c \<in> set ?u" by auto
    then show ?thesis by auto
  qed
qed

lemma ascii_lower_alnum:
  assumes "is_ascii d" "py_isalnum (py_lower d)"
  shows "id_char (py_lower d)"
proof (cases "65 \<le> (of_char d :: nat) \<and> (of_char d :: nat) \<le> 90")
  case True
  then have "py_lower d = char_of (of_char d + 32 :: nat)"
    by (simp add: py_lower_def Let_def)
  moreover from True have "(of_char (char_of (of_char d + 32 :: nat)) :: nat) = of_char d + 32"
    by simp
  ultimately show ?thesis using True by (simp add: id_char_def Let_def)
next
  case False
  with assms(1) have "py_lower d = d"
    by (auto simp: py_lower_def Let_def is_ascii_def)
  with assms False show ?thesis
    by (auto simp: id_char_def py_isalnum_def Let_def is_ascii_def)
qed

lemma part_chars: "\<forall>c \<in> set ''part''. id_char c \<and> py_isalnum c"
  by (simp add: id_char_def py_isalnum_def)

lemma digit_chars:
  "48 \<le> (of_char c :: nat) \<and> (of_char c :: nat) \<le> 57 \<Longrightarrow> id_char c \<and> py_isalnum c"
  by (simp add: id_char_def py_isalnum_def Let_def)

lemma generate_unique_id_cases:
  "generate_unique_id raw used = sanitized_id raw \<and> sanitized_id raw |\<notin>| used
   \<or> sanitized_id raw |\<in>| used
     \<and> (\<exists>k \<ge> 1. generate_unique_id raw used = sanitized_id raw @ ''_'' @ str_of_nat k
          \<and> (\<forall>j. 1 \<le> j \<and> j < k \<longrightarrow> sanitized_id raw @ ''_'' @ str_of_nat j |\<in>| used))"
  using unique_loop_result [of "sanitized_id raw" used "sanitized_id raw" 1]
  by (simp add: generate_unique_id_def Let_def candidate_def)

lemma generate_unique_id_chars:
  assumes "\<forall>c \<in> set (sanitized_id raw). P c" "P CHR ''_''"
    "\<And>c. 48 \<le> (of_char c :: nat) \<and> (of_char c :: nat) \<le> 57 \<Longrightarrow> P c"
  shows "\<forall>c \<in> set (generate_unique_id raw used). P c"
proof -
  from generate_unique_id_cases [of raw used] consider
    "generate_unique_id raw used = sanitized_id raw"
    | k where "generate_unique_id raw used = sanitized_id raw @ ''_'' @ str_of_nat k"
    by blast
  then show ?thesis
  proof cases
    case 1
    with assms(1) show ?thesis by simp
  next
    case 2
    with assms str_of_nat_digits [of k] show ?thesis by auto
  qed
qed

text \<open>
  Claim C4, amended. For every input string and every finite set \<open>usedIds\<close> the part-id
  sanitizer returns a non-empty string that is not in \<open>usedIds\<close> and consists of
  underscores and characters that are alphanumeric for Python; when the input is ASCII
  every character of the result is in \<open>[a-z0-9_]\<close>. The sanitized name is the one the
  specification words: lowercase, every run of non-alphanumeric characters collapsed to a
  single underscore, leading and trailing underscores stripped, \<open>part\<close> when nothing is
  left. The result is that name when it is unused, and otherwise the name with \<open>_k\<close>
  appended for the smallest \<open>k \<ge> 1\<close> that gives an unused string.
\<close>

theorem unique_part_id:
  "generate_unique_id raw used \<noteq> []
   \<and> generate_unique_id raw used |\<notin>| used
   \<and> (\<forall>c \<in> set (generate_unique_id raw used). c = CHR ''_'' \<or> py_isalnum c)
   \<and> ((\<forall>c \<in> set raw. is_ascii c) \<longrightarrow> (\<forall>c \<in> set (generate_unique_id raw used). id_char c))
   \<and> sanitized_id raw = spec_sanitized_id raw
   \<and> (sanitized_id raw |\<notin>| used \<longrightarrow> generate_unique_id raw used = sanitized_id raw)
   \<and> (sanitized_id raw |\<in>| used \<longrightarrow>
        (\<exists>k \<ge> 1. generate_unique_id raw used = sanitized_id raw @ ''_'' @ str_of_nat k
           \<and> (\<forall>j. 1 \<le> j \<and> j < k \<longrightarrow> sanitized_id raw @ ''_'' @ str_of_nat j |\<in>| used)))"
proof (intro conjI)
  note cases = generate_unique_id_cases [of raw used]
  show "generate_unique_id raw used \<noteq> []"
    using cases sanitized_id_nonempty [of raw] by auto
  show "generate_unique_id raw used |\<notin>| used"
    by (simp add: generate_unique_id_def Let_def unique_loop_fresh)
  show "\<forall>c \<in> set (generate_unique_id raw used). c = CHR ''_'' \<or> py_isalnum c"
  proof (rule generate_unique_id_chars)
    show "\<forall>c \<in> set (sanitized_id raw). c = CHR ''_'' \<or> py_isalnum c"
      using sanitized_id_chars [of raw] part_chars by blast
  qed (simp_all add: digit_chars)
  show "(\<forall>c \<in> set raw. is_ascii c) \<longrightarrow> (\<forall>c \<in> set (generate_unique_id raw used). id_char c)"
  proof
    assume a: "\<forall>c \<in> set raw. is_ascii c"
    show "\<forall>c \<in> set (generate_unique_id raw used). id_char c"
    proof (rule generate_unique_id_chars)
      show "\<forall>c \<in> set (sanitized_id raw). id_char c"
      proof
        fix c assume "c \<in> set (sanitized_id raw)"
        with sanitized_id_chars [of raw] consider "c = CHR ''_''" | "c \<in> set ''part''"
          | d where "d \<in> set raw" "c = py_lower d" "py_isalnum c"
          by blast
        then show "id_char c"
        proof cases
          case 1
          then show ?thesis by (simp add: id_char_def)
        next
          case 2
          with part_chars show ?thesis by blast
        next
          case 3
          with a ascii_lower_alnum [of d] show ?thesis by simp
        qed
      qed
    qed (simp_all add: digit_chars id_char_def)
  qed
  show "sanitized_id raw = spec_sanitized_id raw" by (rule sanitized_id_refines)
  show "sanitized_id raw |\<notin>| used \<longrightarrow> generate_unique_id raw used = sanitized_id raw"
    using cases by blast
  show "sanitized_id raw |\<in>| used \<longrightarrow>
        (\<exists>k \<ge> 1. generate_unique_id raw used = sanitized_id raw @ ''_'' @ str_of_nat k
           \<and> (\<forall>j. 1 \<le> j \<and> j < k \<longrightarrow> sanitized_id raw @ ''_'' @ str_of_nat j |\<in>| used))"
    using cases by blast
qed

theorem unique_part_id_witness:
  "generate_unique_id ''Arm  Left--1'' {|''arm_left_1'', ''arm_left_1_1''|} = ''arm_left_1_2''
   \<and> list_all id_char ''arm_left_1_2''
   \<and> ''arm_left_1_2'' |\<notin>| {|''arm_left_1'', ''arm_left_1_1''|}
   \<and> spec_sanitized_id ''Arm  Left--1'' = ''arm_left_1''
   \<and> generate_unique_id ''Base'' {||} = ''base''"
proof -
  let ?raw = "''Arm  Left--1''" and ?used = "{|''arm_left_1'', ''arm_left_1_1''|}"
  have a: "\<forall>c \<in> set ?raw. is_ascii c" by (simp add: is_ascii_def)
  have g: "generate_unique_id ?raw ?used = ''arm_left_1_2''" by code_simp
  have s1: "sanitized_id ?raw = ''arm_left_1''" by code_simp
  have s2: "sanitized_id ''Base'' = ''base''" by code_simp
  note t = unique_part_id [of ?raw ?used]
  from t a have "\<forall>c \<in> set (generate_unique_id ?raw ?used). id_char c" by blast
  then have 1: "list_all id_char ''arm_left_1_2''"
    unfolding g by (simp only: list_all_iff)
  from t have "generate_unique_id ?raw ?used |\<notin>| ?used" by blast
  then have 2: "''arm_left_1_2'' |\<notin>| ?used" unfolding g .
  from t have 3: "spec_sanitized_id ?raw = ''arm_left_1''" unfolding s1 by simp
  have "sanitized_id ''Base'' |\<notin>| {||}" by simp
  with unique_part_id [of "''Base''" "{||}"]
  have 4: "generate_unique_id ''Base'' {||} = ''base''" unfolding s2 by blast
  from g 1 2 3 4 show ?thesis by blast
qed

text \<open>
  The claim as stated fails outside ASCII: \<open>str.isalnum\<close> accepts the letter U+00E9, so
  the one-character name made of it is returned as it is, and it is not in \<open>[a-z0-9_]\<close>.
\<close>

theorem unique_part_id_counterexample:
  "generate_unique_id [CHR 0xE9] {||} = [CHR 0xE9] \<and> \<not> id_char (CHR 0xE9)"
  by (simp add: id_char_def) code_simp

subsection \<open>Axis reduction\<close>

text \<open>
  Claim C7. For every real vector \<open>(x, y, z)\<close> the stored joint axis token is X if
  \<open>|x| \<ge> |y|\<close> and \<open>|x| \<ge> |z|\<close>, else Y if \<open>|y| \<ge> |x|\<close> and \<open>|y| \<ge> |z|\<close>, else Z. Ties
  go to X, then to Y: Z is chosen only when \<open>|z|\<close> is strictly the largest, Y only when
  \<open>|y|\<close> strictly exceeds \<open>|x|\<close>. In particular \<open>(0.9, 0.9, 0)\<close> gives X, \<open>(0, 0, -5)\<close> gives
  Z and \<open>(1, 2, 3)\<close> gives Z. The token is what the document holds: for a revolute or
  prismatic joint with the axis \<open>(x, y, z)\<close> whose two parts resolve to prim paths and
  whose node path is a prim path, the loop body of \<open>inject_physics\<close> returns, and the
  attribute \<open>physics:axis\<close> of the joint node is that token.
\<close>

theorem axis_reduction:
  "(axis j = (x, y, z) \<and> joint_type j \<noteq> Fixed \<and> resolved pp j
      \<and> list_all valid_prim_path (map snd pp) \<and> valid_prim_path (joint_path st j) \<longrightarrow>
      (\<exists>st'. create_joint pp j st = Inr (st', [])
         \<and> attr st' (joint_path st j) ''physics:axis''
            = Some (VToken (if \<bar>x\<bar> \<ge> \<bar>y\<bar> \<and> \<bar>x\<bar> \<ge> \<bar>z\<bar> then ''X''
                           else if \<bar>y\<bar> \<ge> \<bar>x\<bar> \<and> \<bar>y\<bar> \<ge> \<bar>z\<bar> then ''Y'' else ''Z''))))
   \<and> (\<bar>x\<bar> \<ge> \<bar>y\<bar> \<and> \<bar>x\<bar> \<ge> \<bar>z\<bar> \<longrightarrow> axis_to_token (x, y, z) = ''X'')
   \<and> (\<not> (\<bar>x\<bar> \<ge> \<bar>y\<bar> \<and> \<bar>x\<bar> \<ge> \<bar>z\<bar>) \<and> \<bar>y\<bar> \<ge> \<bar>x\<bar> \<and> \<bar>y\<bar> \<ge> \<bar>z\<bar>
        \<longrightarrow> axis_to_token (x, y, z) = ''Y'')
   \<and> (\<not> (\<bar>x\<bar> \<ge> \<bar>y\<bar> \<and> \<bar>x\<bar> \<ge> \<bar>z\<bar>) \<and> \<not> (\<bar>y\<bar> \<ge> \<bar>x\<bar> \<and> \<bar>y\<bar> \<ge> \<bar>z\<bar>)
        \<longrightarrow> axis_to_token (x, y, z) = ''Z'')
   \<and> (axis_to_token (x, y, z) = ''Y'' \<longrightarrow> \<bar>y\<bar> > \<bar>x\<bar> \<and> \<bar>y\<bar> \<ge> \<bar>z\<bar>)
   \<and> (axis_to_token (x, y, z) = ''Z'' \<longrightarrow> \<bar>z\<bar> > \<bar>x\<bar> \<and> \<bar>z\<bar> > \<bar>y\<bar>)
   \<and> axis_to_token (9 / 10, 9 / 10, 0) = ''X''
   \<and> axis_to_token (0, 0, - 5) = ''Z''
   \<and> axis_to_token (1, 2, 3) = ''Z''"
proof -
  have tok: "axis_to_token (x, y, z) = (if \<bar>x\<bar> \<ge> \<bar>y\<bar> \<and> \<bar>x\<bar> \<ge> \<bar>z\<bar> then ''X''
        else if \<bar>y\<bar> \<ge> \<bar>x\<bar> \<and> \<bar>y\<bar> \<ge> \<bar>z\<bar> then ''Y'' else ''Z'')"
    by (simp add: axis_to_token_def Let_def)
  have stored: "\<exists>st'. create_joint pp j st = Inr (st', [])
         \<and> attr st' (joint_path st j) ''physics:axis''
            = Some (VToken (if \<bar>x\<bar> \<ge> \<bar>y\<bar> \<and> \<bar>x\<bar> \<ge> \<bar>z\<bar> then ''X''
                           else if \<bar>y\<bar> \<ge> \<bar>x\<bar> \<and> \<bar>y\<bar> \<ge> \<bar>z\<bar> then ''Y'' else ''Z''))"
    if h: "axis j = (x, y, z) \<and> joint_type j \<noteq> Fixed \<and> resolved pp j
      \<and> list_all valid_prim_path (map snd pp) \<and> valid_prim_path (joint_path st j)"
  proof -
    from h create_joint_isl [of pp j st] have "\<not> isl (create_joint pp j st)" by simp
    then obtain st' w where c: "create_joint pp j st = Inr (st', w)"
      using not_isl_result by blast
    from create_joint_warnings [OF c] h have "w = []" by simp
    with c axis_create_joint [OF c] h show ?thesis
      unfolding tok [symmetric] by simp
  qed
  have rest: "(\<bar>x\<bar> \<ge> \<bar>y\<bar> \<and> \<bar>x\<bar> \<ge> \<bar>z\<bar> \<longrightarrow> axis_to_token (x, y, z) = ''X'')
   \<and> (\<not> (\<bar>x\<bar> \<ge> \<bar>y\<bar> \<and> \<bar>x\<bar> \<ge> \<bar>z\<bar>) \<and> \<bar>y\<bar> \<ge> \<bar>x\<bar> \<and> \<bar>y\<bar> \<ge> \<bar>z\<bar>
        \<longrightarrow> axis_to_token (x, y, z) = ''Y'')
   \<and> (\<not> (\<bar>x\<bar> \<ge> \<bar>y\<bar> \<and> \<bar>x\<bar> \<ge> \<bar>z\<bar>) \<and> \<not> (\<bar>y\<bar> \<ge> \<bar>x\<bar> \<and> \<bar>y\<bar> \<ge> \<bar>z\<bar>)
        \<longrightarrow> axis_to_token (x, y, z) = ''Z'')
   \<and> (axis_to_token (x, y, z) = ''Y'' \<longrightarrow> \<bar>y\<bar> > \<bar>x\<bar> \<and> \<bar>y\<bar> \<ge> \<bar>z\<bar>)
   \<and> (axis_to_token (x, y, z) = ''Z'' \<longrightarrow> \<bar>z\<bar> > \<bar>x\<bar> \<and> \<bar>z\<bar> > \<bar>y\<bar>)
   \<and> axis_to_token (9 / 10, 9 / 10, 0) = ''X''
   \<and> axis_to_token (0, 0, - 5) = ''Z''
   \<and> axis_to_token (1, 2, 3) = ''Z''"
    by (simp add: axis_to_token_def Let_def) linarith
  from stored rest show ?thesis by blast
qed

theorem axis_reduction_witness:
  "(\<exists>st'. create_joint (snd (ex_doc [''a'', ''b'']))
            ((ex_joint ''j'' ''a'' ''b'' Prismatic)\<lparr>axis := (0, 0, - 5)\<rparr>)
            (fst (ex_doc [''a'', ''b''])) = Inr (st', [])
         \<and> attr st' ''/m/Joints/j'' ''physics:axis'' = Some (VToken ''Z''))
   \<and> (\<exists>st'. create_joint (snd (ex_doc [''a'', ''b'']))
            ((ex_joint ''j'' ''a'' ''b'' Revolute)\<lparr>axis := (9 / 10, 9 / 10, 0)\<rparr>)
            (fst (ex_doc [''a'', ''b''])) = Inr (st', [])
         \<and> attr st' ''/m/Joints/j'' ''physics:axis'' = Some (VToken ''X''))
   \<and> (\<exists>st'. create_joint (snd (ex_doc [''a'', ''b'']))
            ((ex_joint ''j'' ''a'' ''b'' Revolute)\<lparr>axis := (0, 3, - 3)\<rparr>)
            (fst (ex_doc [''a'', ''b''])) = Inr (st', [])
         \<and> attr st' ''/m/Joints/j'' ''physics:axis'' = Some (VToken ''Y''))
   \<and> axis_to_token (9 / 10, 9 / 10, 0) = ''X''
   \<and> axis_to_token (0, 3, - 3) = ''Y''
   \<and> axis_to_token (1, - 2, 3) = ''Z''"
proof -
  let ?d = "ex_doc [''a'', ''b'']"
  have g: "list_all valid_prim_path (map snd (snd ?d))" by code_simp
  have h: "axis ((ex_joint ''j'' ''a'' ''b'' t)\<lparr>axis := ax\<rparr>) = ax"
    "joint_type ((ex_joint ''j'' ''a'' ''b'' t)\<lparr>axis := ax\<rparr>) = t"
    "resolved (snd ?d) ((ex_joint ''j'' ''a'' ''b'' t)\<lparr>axis := ax\<rparr>)"
    "joint_path (fst ?d) ((ex_joint ''j'' ''a'' ''b'' t)\<lparr>axis := ax\<rparr>) = ''/m/Joints/j''"
    for t :: JointType and ax
  proof -
    have "map_of (snd ?d) ''a'' \<noteq> None \<and> map_of (snd ?d) ''b'' \<noteq> None
        \<and> defaultPrim (fst ?d) @ ''/Joints/'' @ sanitize_name ''j'' = ''/m/Joints/j''"
      by code_simp
    then show "axis ((ex_joint ''j'' ''a'' ''b'' t)\<lparr>axis := ax\<rparr>) = ax"
      "joint_type ((ex_joint ''j'' ''a'' ''b'' t)\<lparr>axis := ax\<rparr>) = t"
      "resolved (snd ?d) ((ex_joint ''j'' ''a'' ''b'' t)\<lparr>axis := ax\<rparr>)"
      "joint_path (fst ?d) ((ex_joint ''j'' ''a'' ''b'' t)\<lparr>axis := ax\<rparr>) = ''/m/Joints/j''"
      by (simp_all add: ex_joint_def resolved_def joint_path_def)
  qed
  have v: "valid_prim_path ''/m/Joints/j''" by code_simp
  have hyp: "axis ((ex_joint ''j'' ''a'' ''b'' t)\<lparr>axis := (x, y, z)\<rparr>) = (x, y, z)
      \<and> joint_type ((ex_joint ''j'' ''a'' ''b'' t)\<lparr>axis := (x, y, z)\<rparr>) \<noteq> Fixed
      \<and> resolved (snd ?d) ((ex_joint ''j'' ''a'' ''b'' t)\<lparr>axis := (x, y, z)\<rparr>)
      \<and> list_all valid_prim_path (map snd (snd ?d))
      \<and> valid_prim_path (joint_path (fst ?d) ((ex_joint ''j'' ''a'' ''b'' t)\<lparr>axis := (x, y, z)\<rparr>))"
    if "t \<noteq> Fixed" for t x y z
    using that g v by (simp add: h)
  have 1: "\<exists>st'. create_joint (snd ?d) ((ex_joint ''j'' ''a'' ''b'' Prismatic)\<lparr>axis := (0, 0, - 5)\<rparr>)
            (fst ?d) = Inr (st', [])
         \<and> attr st' ''/m/Joints/j'' ''physics:axis'' = Some (VToken ''Z'')"
    using axis_reduction [where j = "(ex_joint ''j'' ''a'' ''b'' Prismatic)\<lparr>axis := (0, 0, - 5)\<rparr>"
        and x = 0 and y = 0 and z = "- 5" and pp = "snd ?d" and st = "fst ?d",
        THEN conjunct1, THEN mp, OF hyp]
    by (simp add: h)
  have 2: "\<exists>st'. create_joint (snd ?d)
            ((ex_joint ''j'' ''a'' ''b'' Revolute)\<lparr>axis := (9 / 10, 9 / 10, 0)\<rparr>)
            (fst ?d) = Inr (st', [])
         \<and> attr st' ''/m/Joints/j'' ''physics:axis'' = Some (VToken ''X'')"
    using axis_reduction [where
        j = "(ex_joint ''j'' ''a'' ''b'' Revolute)\<lparr>axis := (9 / 10, 9 / 10, 0)\<rparr>"
        and x = "9 / 10" and y = "9 / 10" and z = 0 and pp = "snd ?d" and st = "fst ?d",
        THEN conjunct1, THEN mp, OF hyp]
    by (simp add: h)
  have 3: "\<exists>st'. create_joint (snd ?d)
            ((ex_joint ''j'' ''a'' ''b'' Revolute)\<lparr>axis := (0, 3, - 3)\<rparr>)
            (fst ?d) = Inr (st', [])
         \<and> attr st' ''/m/Joints/j'' ''physics:axis'' = Some (VToken ''Y'')"
    using axis_reduction [where j = "(ex_joint ''j'' ''a'' ''b'' Revolute)\<lparr>axis := (0, 3, - 3)\<rparr>"
        and x = 0 and y = 3 and z = "- 3" and pp = "snd ?d" and st = "fst ?d",
        THEN conjunct1, THEN mp, OF hyp]
    by (simp add: h)
  have 4: "axis_to_token (9 / 10, 9 / 10, 0) = ''X''
   \<and> axis_to_token (0, 3, - 3) = ''Y''
   \<and> axis_to_token (1, - 2, 3) = ''Z''"
    using axis_reduction [where x = "9 / 10" and y = "9 / 10" and z = 0]
      axis_reduction [where x = 0 and y = 3 and z = "- 3"]
      axis_reduction [where x = 1 and y = "- 2" and z = 3]
    by simp
  from 1 2 3 4 show ?thesis by blast
qed

subsection \<open>The two node-name sanitizers\<close>

lemma replace_dunder_nonempty: "s \<noteq> [] \<Longrightarrow> replace_dunder s \<noteq> []"
  by (induction s rule: replace_dunder.induct) auto

lemma hd_replace_dunder: "hd (replace_dunder s) = hd s"
  by (induction s rule: replace_dunder.induct) auto

lemma collapse_loop_props:
  "\<not> has_dunder (collapse_loop s) \<and> (s \<noteq> [] \<longrightarrow> collapse_loop s \<noteq> [])
   \<and> hd (collapse_loop s) = hd s"
proof (induction s rule: collapse_loop.induct)
  case (1 s)
  show ?case
  proof (cases "has_dunder s")
    case True
    with 1 replace_dunder_nonempty [of s] hd_replace_dunder [of s] show ?thesis
      by (subst (1 2 3) collapse_loop.simps) auto
  next
    case False
    then show ?thesis by (subst (1 2 3) collapse_loop.simps) simp
  qed
qed

lemma us_not_digit: "\<not> py_isdigit CHR ''_''"
  by (simp add: py_isdigit_def)

text \<open>
  Claim C10. \<open>USDBuilder._sanitize_prim_name\<close> and \<open>PhysicsInjector._sanitize_name\<close>
  return the same output on every input string: part node names and joint node names are
  sanitized by one rule. Its output is never empty, consists of alphanumerics and
  underscores, does not start with a digit, has no double underscore, and is \<open>_unnamed\<close>
  for the empty name.
\<close>

theorem sanitizers_agree:
  "sanitize_prim_name name = sanitize_name name
   \<and> sanitize_name name \<noteq> []
   \<and> list_all (\<lambda>c. py_isalnum c \<or> c = CHR ''_'') (sanitize_name name)
   \<and> \<not> py_isdigit (hd (sanitize_name name))
   \<and> \<not> has_dunder (sanitize_name name)
   \<and> sanitize_name [] = ''_unnamed''"
proof (intro conjI)
  let ?s = "map (\<lambda>c. if py_isalnum c \<or> c = CHR ''_'' then c else CHR ''_'') name"
  let ?t = "if ?s \<noteq> [] \<and> py_isdigit (hd ?s) then CHR ''_'' # ?s else ?s"
  let ?u = "if ?t = [] then ''_unnamed'' else ?t"
  have r: "sanitize_name name = collapse_loop ?u"
    by (simp add: sanitize_name_def Let_def)
  have u: "?u \<noteq> []" by simp
  have cs: "\<forall>c \<in> set ?u. py_isalnum c \<or> c = CHR ''_''"
    by (auto simp: py_isalnum_def)
  have hd: "\<not> py_isdigit (hd ?u)"
    using us_not_digit by (cases ?s) auto
  show "sanitize_prim_name name = sanitize_name name"
    by (simp add: sanitize_prim_name_def sanitize_name_def)
  show "sanitize_name name \<noteq> []"
    unfolding r using collapse_loop_props [of ?u] u by blast
  show "list_all (\<lambda>c. py_isalnum c \<or> c = CHR ''_'') (sanitize_name name)"
    unfolding r list_all_iff using set_collapse_loop [of ?u] cs by blast
  show "\<not> py_isdigit (hd (sanitize_name name))"
    unfolding r using collapse_loop_props [of ?u] hd by simp
  show "\<not> has_dunder (sanitize_name name)"
    unfolding r using collapse_loop_props [of ?u] by blast
  show "sanitize_name [] = ''_unnamed''"
    by (simp add: sanitize_name_def collapse_loop.simps)
qed

theorem sanitizers_agree_witness:
  "sanitize_prim_name ''1st arm--left'' = ''_1st_arm_left''
   \<and> sanitize_name ''1st arm--left'' = ''_1st_arm_left''"
proof -
  have "sanitize_name ''1st arm--left'' = ''_1st_arm_left''" by code_simp
  with sanitizers_agree [of "''1st arm--left''"] show ?thesis by simp
qed

end
